theory Spec2Isabelle
  imports Main "HOL-Library.Sublist"
begin

section \<open>Exceptions, events and programs with effects\<close>

text \<open>
  The script \<^verbatim>\<open>dataiku_gitops_action.py\<close> talks to the outside world through the
  \<^verbatim>\<open>dataikuapi\<close> client library and through \<^verbatim>\<open>subprocess\<close>. Neither is part of the
  script, so both are parameters of the model: a record of operations on an abstract
  world \<open>'w\<close>, each of which either raises (\<open>Inl\<close> of the text \<^verbatim>\<open>str(e)\<close> of the exception)
  or returns a value, and yields the next world. Library calls raise instances of
  \<^verbatim>\<open>Exception\<close> only; process signals such as \<^verbatim>\<open>KeyboardInterrupt\<close> are outside the model.

  The exceptions that the script's own code can meet:
\<close>

datatype exn =
    SystemExit int
  | NameError string
  | AttributeError string
  | KeyError string
  | TypeError string
  | LibraryError string

text \<open>
  \<^verbatim>\<open>except Exception as e\<close> catches every exception but \<^verbatim>\<open>SystemExit\<close>;
  \<open>exception_str e\<close> is \<^verbatim>\<open>str(e)\<close> when \<open>e\<close> is caught that way (for a \<^verbatim>\<open>KeyError\<close>, the key
  between quotes).
\<close>

fun exception_str :: "exn \<Rightarrow> string option" where
  "exception_str (SystemExit n) = None"
| "exception_str (NameError m) = Some m"
| "exception_str (AttributeError m) = Some m"
| "exception_str (KeyError k) = Some (CHR 0x27 # k @ [CHR 0x27])"
| "exception_str (TypeError m) = Some m"
| "exception_str (LibraryError m) = Some m"

text \<open>
  The data that passes between the script and the library: a client as
  \<^verbatim>\<open>dataikuapi.DSSClient(url, token, no_check_certificate=True, client_certificate=...)\<close>
  is built; an item of a bundle listing, which the loop of \<^verbatim>\<open>deploy\<close> reads at the key
  \<^verbatim>\<open>bundleId\<close>; the raw settings of a deployment, a dictionary that \<^verbatim>\<open>deploy\<close> writes
  at the key \<^verbatim>\<open>bundleId\<close> (whatever else it holds is the rest of the record); and what
  \<^verbatim>\<open>subprocess.run\<close> returns with \<^verbatim>\<open>capture_output=True, text=True\<close>.

  The library decides what a listing holds, so an item is any value it may hand over: a
  dictionary from keys to values, or a value of another kind (a string, a list, a number,
  \<^verbatim>\<open>None\<close>), kept with the text of the \<^verbatim>\<open>TypeError\<close> that subscripting it with a string raises.
  Of a value in a dictionary the script only asks whether it equals the bundle identifier,
  a string: it is that string, or something else.
\<close>

record client =
  client_host :: string
  client_api_key :: string
  no_check_certificate :: bool
  client_certificate :: "string option"

datatype py_value = Str string | Other

datatype bundle_entry = Dict "string \<rightharpoonup> py_value" | NotDict string

record settings =
  settings_bundleId :: string

record completed =
  returncode :: int
  stdout :: string
  stderr :: string

text \<open>
  Modelled from the spec: the value of \<^verbatim>\<open>ActivationHandle.awaitResult()\<close> in section 6,
  \<^verbatim>\<open>ActivationResult{success|failure, detail}\<close>; the library that produces the value
  returned by \<^verbatim>\<open>update.wait_for_result()\<close> is not part of the script.
\<close>

datatype activation_result = Success | Failure string

text \<open>
  The calls of the client library that \<^verbatim>\<open>deploy\<close> makes. \<open>'h\<close> is the type of the object
  handles the library returns (a deployment, an update in progress); a settings object
  is a record with the one entry of its raw dictionary that the script writes.
\<close>

datatype ('h, 'z) call =
    GetProjectDeployer
  | DeployerGetProject "string option"
  | ListBundles "string option"
  | GetProject "string option"
  | ExportBundle "string option" string
  | PublishBundle "string option" string
  | GetDeployment string
  | GetSettings 'h
  | Save 'h "'z settings_scheme"
  | CreateDeployment string "string option" string string
  | StartUpdate 'h
  | WaitForResult 'h

datatype ('h, 'z) reply =
    Done
  | Bundles "bundle_entry list"
  | Handle 'h
  | Settings "'z settings_scheme"
  | Result activation_result

text \<open>
  What a run does, in order: what it prints, the subprocesses it starts and the library
  calls it makes, each with its outcome. \<open>DeployCalled infra\<close> marks an entry into
  \<^verbatim>\<open>deploy(infra)\<close>.
\<close>

datatype ('h, 'z) event =
    Print string
  | Traceback exn
  | DeployCalled string
  | GitRevParse "string + string"
  | RunScript string "string option" "string option" "string option" "string + completed"
  | Remote client "('h, 'z) call" "string + ('h, 'z) reply"

text \<open>
  The outside world. \<open>git_rev_parse\<close> is
  \<^verbatim>\<open>subprocess.run(['git', 'rev-parse', '--short', 'HEAD'], ..., check=True).stdout\<close>,
  \<open>run_script p host key project\<close> is \<^verbatim>\<open>subprocess.run(['python', p], env=...)\<close> with the three
  variables \<^verbatim>\<open>DSS_HOST\<close>, \<^verbatim>\<open>DSS_API_KEY\<close> and \<^verbatim>\<open>DSS_PROJECT\<close> set, and the others are the
  methods of the client library, each with the client that the call goes through.
  \<open>deployer_get_project\<close> and \<open>list_bundles\<close> are \<^verbatim>\<open>deployer.get_project(key)\<close> and
  \<^verbatim>\<open>.list_bundles()\<close> on its result; \<open>get_project\<close>, \<open>export_bundle\<close> and \<open>publish_bundle\<close> are
  \<^verbatim>\<open>client_dev.get_project(key)\<close> and the two methods called on its result.
\<close>

record ('w, 'h, 'z) library =
  git_rev_parse :: "'w \<Rightarrow> (string + string) \<times> 'w"
  run_script :: "string \<Rightarrow> string option \<Rightarrow> string option \<Rightarrow> string option
                  \<Rightarrow> 'w \<Rightarrow> (string + completed) \<times> 'w"
  get_projectdeployer :: "client \<Rightarrow> 'w \<Rightarrow> (string + unit) \<times> 'w"
  deployer_get_project :: "client \<Rightarrow> string option \<Rightarrow> 'w \<Rightarrow> (string + unit) \<times> 'w"
  list_bundles :: "client \<Rightarrow> string option \<Rightarrow> 'w \<Rightarrow> (string + bundle_entry list) \<times> 'w"
  get_project :: "client \<Rightarrow> string option \<Rightarrow> 'w \<Rightarrow> (string + unit) \<times> 'w"
  export_bundle :: "client \<Rightarrow> string option \<Rightarrow> string \<Rightarrow> 'w \<Rightarrow> (string + unit) \<times> 'w"
  publish_bundle :: "client \<Rightarrow> string option \<Rightarrow> string \<Rightarrow> 'w \<Rightarrow> (string + unit) \<times> 'w"
  get_deployment :: "client \<Rightarrow> string \<Rightarrow> 'w \<Rightarrow> (string + 'h) \<times> 'w"
  get_settings :: "client \<Rightarrow> 'h \<Rightarrow> 'w \<Rightarrow> (string + 'z settings_scheme) \<times> 'w"
  save :: "client \<Rightarrow> 'h \<Rightarrow> 'z settings_scheme \<Rightarrow> 'w \<Rightarrow> (string + unit) \<times> 'w"
  create_deployment :: "client \<Rightarrow> string \<Rightarrow> string option \<Rightarrow> string \<Rightarrow> string
                         \<Rightarrow> 'w \<Rightarrow> (string + 'h) \<times> 'w"
  start_update :: "client \<Rightarrow> 'h \<Rightarrow> 'w \<Rightarrow> (string + 'h) \<times> 'w"
  wait_for_result :: "client \<Rightarrow> 'h \<Rightarrow> 'w \<Rightarrow> (string + activation_result) \<times> 'w"

text \<open>
  A piece of the script is a function from the world to its outcome (an exception or
  a value), the events it produced and the world it leaves.
\<close>

type_synonym ('a, 'e, 'w) prog = "'w \<Rightarrow> (exn + 'a) \<times> 'e list \<times> 'w"

definition ret :: "'a \<Rightarrow> ('a, 'e, 'w) prog" where
  "ret x w = (Inr x, [], w)"

definition raise :: "exn \<Rightarrow> ('a, 'e, 'w) prog" where
  "raise e w = (Inl e, [], w)"

definition emit :: "'e \<Rightarrow> (unit, 'e, 'w) prog" where
  "emit ev w = (Inr (), [ev], w)"

definition then_do :: "('a, 'e, 'w) prog \<Rightarrow> ('a \<Rightarrow> ('b, 'e, 'w) prog) \<Rightarrow> ('b, 'e, 'w) prog" where
  "then_do m f w =
     (case m w of
        (Inl e, evs, w') \<Rightarrow> (Inl e, evs, w')
      | (Inr x, evs, w') \<Rightarrow> (case f x w' of (r, evs', w'') \<Rightarrow> (r, evs @ evs', w'')))"

text \<open>
  \<^verbatim>\<open>try: m  except ...: h\<close>. The handler table \<open>h\<close> gives the handler's body for an
  exception the clause catches and \<open>None\<close> for one it lets through.
\<close>

definition try_except ::
  "('a, 'e, 'w) prog \<Rightarrow> (exn \<Rightarrow> ('a, 'e, 'w) prog option) \<Rightarrow> ('a, 'e, 'w) prog" where
  "try_except m h w =
     (case m w of
        (Inr x, evs, w') \<Rightarrow> (Inr x, evs, w')
      | (Inl e, evs, w') \<Rightarrow>
          (case h e of
             None \<Rightarrow> (Inl e, evs, w')
           | Some k \<Rightarrow> (case k w' of (r, evs', w'') \<Rightarrow> (r, evs @ evs', w''))))"

text \<open>A bare \<^verbatim>\<open>except:\<close> catches everything; \<^verbatim>\<open>except Exception as e\<close> what \<open>exception_str\<close> accepts.\<close>

definition except_all :: "('a, 'e, 'w) prog \<Rightarrow> exn \<Rightarrow> ('a, 'e, 'w) prog option" where
  "except_all k e = Some k"

definition except_Exception ::
  "(exn \<Rightarrow> string \<Rightarrow> ('a, 'e, 'w) prog) \<Rightarrow> exn \<Rightarrow> ('a, 'e, 'w) prog option" where
  "except_Exception k e = (case exception_str e of None \<Rightarrow> None | Some s \<Rightarrow> Some (k e s))"

definition remote_call ::
  "client \<Rightarrow> ('h, 'z) call \<Rightarrow> ('a \<Rightarrow> ('h, 'z) reply) \<Rightarrow> ('w \<Rightarrow> (string + 'a) \<times> 'w)
     \<Rightarrow> ('a, ('h, 'z) event, 'w) prog" where
  "remote_call c cl wrap f w =
     (case f w of
        (Inl m, w') \<Rightarrow> (Inl (LibraryError m), [Remote c cl (Inl m)], w')
      | (Inr x, w') \<Rightarrow> (Inr x, [Remote c cl (Inr (wrap x))], w'))"

section \<open>Strings\<close>

definition quoted :: "string \<Rightarrow> string" where
  "quoted s = CHR 0x27 # s @ [CHR 0x27]"

text \<open>An f-string prints \<^verbatim>\<open>None\<close> as the text \<^verbatim>\<open>None\<close>.\<close>

definition py_str :: "string option \<Rightarrow> string" where
  "py_str v = (case v of None \<Rightarrow> ''None'' | Some s \<Rightarrow> s)"

text \<open>\<^verbatim>\<open>p in s\<close> on strings: \<open>p\<close> occurs in \<open>s\<close> as a contiguous run.\<close>

fun starts_with :: "string \<Rightarrow> string \<Rightarrow> bool" where
  "starts_with s [] = True"
| "starts_with [] (p # ps) = False"
| "starts_with (c # cs) (p # ps) = (c = p \<and> starts_with cs ps)"

fun contains :: "string \<Rightarrow> string \<Rightarrow> bool" where
  "contains [] p = (p = [])"
| "contains (c # cs) p = (starts_with (c # cs) p \<or> contains cs p)"

text \<open>\<^verbatim>\<open>str.strip()\<close> on ASCII text: the characters for which \<^verbatim>\<open>str.isspace\<close> holds.\<close>

definition is_space :: "char \<Rightarrow> bool" where
  "is_space c = (c \<in> set [CHR 0x09, CHR 0x0A, CHR 0x0B, CHR 0x0C, CHR 0x0D,
                            CHR 0x1C, CHR 0x1D, CHR 0x1E, CHR 0x1F, CHR 0x20])"

definition strip :: "string \<Rightarrow> string" where
  "strip s = rev (dropWhile is_space (rev (dropWhile is_space s)))"

section \<open>Configuration and client initialisation\<close>

text \<open>
  The module's globals, as read from the environment at load time
  (\<^verbatim>\<open>os.getenv\<close> gives \<^verbatim>\<open>None\<close> for an unset variable). \<open>RUN_TESTS_ONLY\<close> is the value of
  \<^verbatim>\<open>os.getenv('RUN_TESTS_ONLY', 'false').lower() == 'true'\<close>, and \<open>PYTHON_SCRIPT\<close> and
  \<open>CLIENT_CERTIFICATE\<close> are the values after their defaults. The two infrastructure
  identifiers are constants of the script.
\<close>

record config =
  DATAIKU_API_TOKEN_DEV :: "string option"
  DATAIKU_API_TOKEN_STAGING :: "string option"
  DATAIKU_API_TOKEN_PROD :: "string option"
  DATAIKU_INSTANCE_DEV_URL :: "string option"
  DATAIKU_INSTANCE_STAGING_URL :: "string option"
  DATAIKU_INSTANCE_PROD_URL :: "string option"
  DATAIKU_PROJECT_KEY :: "string option"
  RUN_TESTS_ONLY :: bool
  PYTHON_SCRIPT :: string
  CLIENT_CERTIFICATE :: "string option"

definition DATAIKU_INFRA_ID_STAGING :: string where
  "DATAIKU_INFRA_ID_STAGING = ''staging''"

definition DATAIKU_INFRA_ID_PROD :: string where
  "DATAIKU_INFRA_ID_PROD = ''prod''"

text \<open>
  \<^verbatim>\<open>not v\<close> for a value that is \<^verbatim>\<open>None\<close> or a string, and \<^verbatim>\<open>get_client\<close>. The client is built
  once, when the module is loaded, from the URL and the token of the dev instance; the
  clients of the staging and production instances are never built.
\<close>

definition py_not :: "string option \<Rightarrow> bool" where
  "py_not v = (case v of None \<Rightarrow> True | Some s \<Rightarrow> s = [])"

definition get_client :: "config \<Rightarrow> string option \<Rightarrow> string option \<Rightarrow> client option" where
  "get_client cfg url token =
     (if py_not url \<or> py_not token then None
      else (case (url, token) of
              (Some u, Some t) \<Rightarrow>
                Some \<lparr>client_host = u, client_api_key = t, no_check_certificate = True,
                      client_certificate = CLIENT_CERTIFICATE cfg\<rparr>
            | _ \<Rightarrow> None))"

definition client_dev :: "config \<Rightarrow> client option" where
  "client_dev cfg = get_client cfg (DATAIKU_INSTANCE_DEV_URL cfg) (DATAIKU_API_TOKEN_DEV cfg)"

text \<open>Calling a method of \<^verbatim>\<open>client_dev\<close>: attribute access on \<^verbatim>\<open>None\<close> raises.\<close>

definition none_has_no_attribute :: "string \<Rightarrow> string" where
  "none_has_no_attribute a = quoted ''NoneType'' @ '' object has no attribute '' @ quoted a"

definition with_client ::
  "client option \<Rightarrow> string \<Rightarrow> (client \<Rightarrow> ('a, 'e, 'w) prog) \<Rightarrow> ('a, 'e, 'w) prog" where
  "with_client co attr f =
     (case co of
        None \<Rightarrow> raise (AttributeError (none_has_no_attribute attr))
      | Some c \<Rightarrow> f c)"

section \<open>What the script prints\<close>

text \<open>Each message of the script, as a function of what its f-string interpolates.\<close>

definition msg_running_tests :: "string option \<Rightarrow> string" where
  "msg_running_tests instance_url = ''Running tests against '' @ py_str instance_url @ ''...''"

definition msg_tests_passed :: string where
  "msg_tests_passed = ''Tests Passed!''"

definition msg_tests_failed :: "string \<Rightarrow> string \<Rightarrow> string" where
  "msg_tests_failed err out = ''Tests Failed:'' @ [CHR 0x0A] @ err @ [CHR 0x0A] @ out"

definition msg_error_running_tests :: "string \<Rightarrow> string" where
  "msg_error_running_tests e = ''Error running tests: '' @ e"

definition msg_bundle_exists :: "string \<Rightarrow> string" where
  "msg_bundle_exists bundle_id =
     ''Bundle '' @ quoted bundle_id @ '' already exists in Deployer. Skipping export.''"

definition msg_bundle_not_found :: "string \<Rightarrow> string" where
  "msg_bundle_not_found bundle_id =
     ''Bundle '' @ quoted bundle_id @ '' not found. Exporting from Design node...''"

definition msg_bundle_in_project :: string where
  "msg_bundle_in_project = ''Bundle existed in Project but not Deployer. Proceeding to publish.''"

definition msg_published :: "string \<Rightarrow> string" where
  "msg_published bundle_id = ''Published bundle '' @ quoted bundle_id @ '' to Deployer.''"

definition msg_preparing :: "string \<Rightarrow> string \<Rightarrow> string" where
  "msg_preparing deployment_id infra_id =
     ''Preparing deployment '' @ quoted deployment_id @ '' on infra '' @ quoted infra_id @ ''...''"

definition msg_updated :: "string \<Rightarrow> string" where
  "msg_updated bundle_id = ''Updated existing deployment to use bundle '' @ bundle_id"

definition msg_creating :: string where
  "msg_creating = ''Creating new deployment...''"

definition msg_activating :: "string \<Rightarrow> string" where
  "msg_activating infra_id = ''Activating deployment on '' @ infra_id @ ''...''"

definition msg_success :: "string \<Rightarrow> string \<Rightarrow> string" where
  "msg_success bundle_id infra_id = ''SUCCESS: Deployed '' @ bundle_id @ '' to '' @ infra_id"

definition msg_failed_to_deploy :: "string \<Rightarrow> string" where
  "msg_failed_to_deploy e = ''Failed to deploy: '' @ e"

definition msg_starting :: string where
  "msg_starting = ''--- Starting GitOps Workflow ---''"

definition msg_phase1 :: "string \<Rightarrow> string" where
  "msg_phase1 infra_id = [CHR 0x0A] @ ''[Phase 1] Deploying to Staging ('' @ infra_id @ '')...''"

definition msg_phase2 :: string where
  "msg_phase2 = [CHR 0x0A] @ ''[Phase 2] Running Tests on Staging...''"

definition msg_staging_failed :: string where
  "msg_staging_failed = ''Tests failed in staging. Aborting.''"

definition msg_staging_passed :: string where
  "msg_staging_passed = ''Tests passed in staging.''"

definition msg_tests_only :: string where
  "msg_tests_only = ''RUN_TESTS_ONLY=true. Skipping Prod deployment.''"

definition msg_phase3 :: "string \<Rightarrow> string" where
  "msg_phase3 infra_id = [CHR 0x0A] @ ''[Phase 3] Deploying to Production ('' @ infra_id @ '')...''"

definition msg_phase4 :: string where
  "msg_phase4 = [CHR 0x0A] @ ''[Phase 4] Verifying Production...''"

definition msg_all_successful :: string where
  "msg_all_successful = ''Deployment and verification successful!''"

definition msg_prod_warning :: string where
  "msg_prod_warning = ''WARNING: Production tests failed after deployment.''"

definition msg_error_occurred :: "string \<Rightarrow> string" where
  "msg_error_occurred e = ''An error occurred: '' @ e"

definition msg_name_not_defined :: "string \<Rightarrow> string" where
  "msg_name_not_defined name = ''name '' @ quoted name @ '' is not defined''"

section \<open>Helper functions\<close>

definition get_git_sha :: "('w, 'h, 'z) library \<Rightarrow> (string, ('h, 'z) event, 'w) prog" where
  "get_git_sha L =
     try_except
       (\<lambda>w. case git_rev_parse L w of
               (Inl m, w') \<Rightarrow> (Inl (LibraryError m), [GitRevParse (Inl m)], w')
             | (Inr out, w') \<Rightarrow> (Inr (strip out), [GitRevParse (Inr out)], w'))
       (except_Exception (\<lambda>e s. ret ''manual-test''))"

definition generate_bundle_id :: "string \<Rightarrow> string" where
  "generate_bundle_id commit_id = ''bundle_'' @ commit_id"

definition run_tests ::
  "('w, 'h, 'z) library \<Rightarrow> string \<Rightarrow> string option \<Rightarrow> string option \<Rightarrow> string option
     \<Rightarrow> (bool, ('h, 'z) event, 'w) prog" where
  "run_tests L script_path instance_url api_key project_key =
     then_do (emit (Print (msg_running_tests instance_url))) (\<lambda>_.
     try_except
       (then_do
          (\<lambda>w. case run_script L script_path instance_url api_key project_key w of
                  (Inl m, w') \<Rightarrow>
                    (Inl (LibraryError m),
                     [RunScript script_path instance_url api_key project_key (Inl m)], w')
                | (Inr res, w') \<Rightarrow>
                    (Inr res,
                     [RunScript script_path instance_url api_key project_key (Inr res)], w'))
          (\<lambda>result.
             if returncode result = 0
             then then_do (emit (Print msg_tests_passed)) (\<lambda>_. ret True)
             else then_do
                    (emit (Print (msg_tests_failed (stderr result) (stdout result))))
                    (\<lambda>_. ret False)))
       (except_Exception
          (\<lambda>e s. then_do (emit (Print (msg_error_running_tests s))) (\<lambda>_. ret False))))"

section \<open>Core deployment logic\<close>

text \<open>
  \<^verbatim>\<open>b[k]\<close> for an item of the listing: a dictionary without the key raises \<^verbatim>\<open>KeyError\<close>, a
  value that is not a dictionary raises \<^verbatim>\<open>TypeError\<close>.
\<close>

definition subscript :: "bundle_entry \<Rightarrow> string \<Rightarrow> exn + py_value" where
  "subscript b k =
     (case b of
        NotDict m \<Rightarrow> Inl (TypeError m)
      | Dict d \<Rightarrow> (case d k of None \<Rightarrow> Inl (KeyError k) | Some v \<Rightarrow> Inr v))"

text \<open>
  The loop over the listing, lines 100 to 103: the first item whose \<^verbatim>\<open>bundleId\<close> is the
  identifier ends it with \<^verbatim>\<open>bundle_exists = True\<close>; an item that cannot be read at that key
  before one is found ends it with the exception.
\<close>

fun bundle_listed :: "bundle_entry list \<Rightarrow> string \<Rightarrow> exn + bool" where
  "bundle_listed [] bundle_id = Inr False"
| "bundle_listed (b # bs) bundle_id =
     (case subscript b ''bundleId'' of
        Inl e \<Rightarrow> Inl e
      | Inr v \<Rightarrow> if v = Str bundle_id then Inr True else bundle_listed bs bundle_id)"

text \<open>
  Step 1, the check: lines 95 to 106. The loop runs inside the \<^verbatim>\<open>try\<close>, so the bare
  \<^verbatim>\<open>except\<close> also catches what the loop raises, and \<^verbatim>\<open>bundle_exists\<close> is then still \<^verbatim>\<open>False\<close>.
\<close>

definition check_bundle_exists ::
  "('w, 'h, 'z) library \<Rightarrow> client \<Rightarrow> string option \<Rightarrow> string
     \<Rightarrow> (bool, ('h, 'z) event, 'w) prog" where
  "check_bundle_exists L c key bundle_id =
     try_except
       (then_do (remote_call c (DeployerGetProject key) (\<lambda>_. Done) (deployer_get_project L c key))
          (\<lambda>_.
        then_do (remote_call c (ListBundles key) Bundles (list_bundles L c key))
          (\<lambda>bundles.
        (case bundle_listed bundles bundle_id of Inl e \<Rightarrow> raise e | Inr found \<Rightarrow> ret found))))
       (except_all (ret False))"

text \<open>The export inside its own \<^verbatim>\<open>try\<close>: lines 115 to 121.\<close>

definition export_step ::
  "('w, 'h, 'z) library \<Rightarrow> client \<Rightarrow> string option \<Rightarrow> string
     \<Rightarrow> (unit, ('h, 'z) event, 'w) prog" where
  "export_step L c key bundle_id =
     try_except
       (remote_call c (ExportBundle key bundle_id) (\<lambda>_. Done) (export_bundle L c key bundle_id))
       (except_Exception
          (\<lambda>e s. if contains s ''already exists''
                  then emit (Print msg_bundle_in_project)
                  else raise e))"

text \<open>Step 1, the branch on \<^verbatim>\<open>bundle_exists\<close>: lines 108 to 125.\<close>

definition ensure_bundle ::
  "('w, 'h, 'z) library \<Rightarrow> config \<Rightarrow> string \<Rightarrow> bool \<Rightarrow> (unit, ('h, 'z) event, 'w) prog" where
  "ensure_bundle L cfg bundle_id bundle_exists =
     (if bundle_exists
      then emit (Print (msg_bundle_exists bundle_id))
      else
        then_do (emit (Print (msg_bundle_not_found bundle_id))) (\<lambda>_.
        with_client (client_dev cfg) ''get_project'' (\<lambda>c.
        then_do (remote_call c (GetProject (DATAIKU_PROJECT_KEY cfg)) (\<lambda>_. Done)
                   (get_project L c (DATAIKU_PROJECT_KEY cfg))) (\<lambda>_.
        then_do (export_step L c (DATAIKU_PROJECT_KEY cfg) bundle_id) (\<lambda>_.
        then_do (remote_call c (PublishBundle (DATAIKU_PROJECT_KEY cfg) bundle_id) (\<lambda>_. Done)
                   (publish_bundle L c (DATAIKU_PROJECT_KEY cfg) bundle_id)) (\<lambda>_.
        emit (Print (msg_published bundle_id))))))))"

definition deployment_id_of :: "config \<Rightarrow> string \<Rightarrow> string" where
  "deployment_id_of cfg infra_id =
     ''deploy_'' @ py_str (DATAIKU_PROJECT_KEY cfg) @ ''_'' @ infra_id"

text \<open>Step 2, fetch and update, or create: lines 134 to 150.\<close>

definition bind_deployment ::
  "('w, 'h, 'z) library \<Rightarrow> client \<Rightarrow> config \<Rightarrow> string \<Rightarrow> string
     \<Rightarrow> ('h, ('h, 'z) event, 'w) prog" where
  "bind_deployment L c cfg infra_id bundle_id =
     try_except
       (then_do (remote_call c (GetDeployment (deployment_id_of cfg infra_id)) Handle
                   (get_deployment L c (deployment_id_of cfg infra_id))) (\<lambda>deployment.
        then_do (remote_call c (GetSettings deployment) Settings
                   (get_settings L c deployment)) (\<lambda>settings.
        then_do (remote_call c
                   (Save deployment (settings\<lparr>settings_bundleId := bundle_id\<rparr>)) (\<lambda>_. Done)
                   (save L c deployment (settings\<lparr>settings_bundleId := bundle_id\<rparr>))) (\<lambda>_.
        then_do (emit (Print (msg_updated bundle_id))) (\<lambda>_.
        ret deployment)))))
       (except_all
          (then_do (emit (Print msg_creating)) (\<lambda>_.
           remote_call c
             (CreateDeployment (deployment_id_of cfg infra_id) (DATAIKU_PROJECT_KEY cfg)
                infra_id bundle_id) Handle
             (create_deployment L c (deployment_id_of cfg infra_id) (DATAIKU_PROJECT_KEY cfg)
                infra_id bundle_id))))"

text \<open>Step 3: lines 153 to 156. The value of \<^verbatim>\<open>wait_for_result()\<close> is dropped.\<close>

definition activate ::
  "('w, 'h, 'z) library \<Rightarrow> client \<Rightarrow> string \<Rightarrow> string \<Rightarrow> 'h
     \<Rightarrow> (unit, ('h, 'z) event, 'w) prog" where
  "activate L c infra_id bundle_id deployment =
     then_do (emit (Print (msg_activating infra_id))) (\<lambda>_.
     then_do (remote_call c (StartUpdate deployment) Handle (start_update L c deployment))
       (\<lambda>update.
     then_do (remote_call c (WaitForResult update) Result (wait_for_result L c update)) (\<lambda>_.
     emit (Print (msg_success bundle_id infra_id)))))"

text \<open>The body of the outer \<^verbatim>\<open>try\<close> of \<^verbatim>\<open>deploy\<close>, from a known bundle identifier on.\<close>

definition reconcile ::
  "('w, 'h, 'z) library \<Rightarrow> config \<Rightarrow> string \<Rightarrow> string \<Rightarrow> (unit, ('h, 'z) event, 'w) prog" where
  "reconcile L cfg infra_id bundle_id =
     with_client (client_dev cfg) ''get_projectdeployer'' (\<lambda>c.
     then_do (remote_call c GetProjectDeployer (\<lambda>_. Done) (get_projectdeployer L c)) (\<lambda>_.
     then_do (check_bundle_exists L c (DATAIKU_PROJECT_KEY cfg) bundle_id) (\<lambda>bundle_exists.
     then_do (ensure_bundle L cfg bundle_id bundle_exists) (\<lambda>_.
     then_do (emit (Print (msg_preparing (deployment_id_of cfg infra_id) infra_id))) (\<lambda>_.
     then_do (bind_deployment L c cfg infra_id bundle_id) (\<lambda>deployment.
     activate L c infra_id bundle_id deployment))))))"

definition deploy_body ::
  "('w, 'h, 'z) library \<Rightarrow> config \<Rightarrow> string \<Rightarrow> (unit, ('h, 'z) event, 'w) prog" where
  "deploy_body L cfg infra_id =
     then_do (get_git_sha L) (\<lambda>commit_id.
     reconcile L cfg infra_id (generate_bundle_id commit_id))"

definition deploy ::
  "('w, 'h, 'z) library \<Rightarrow> config \<Rightarrow> string \<Rightarrow> (unit, ('h, 'z) event, 'w) prog" where
  "deploy L cfg infra_id =
     then_do (emit (DeployCalled infra_id)) (\<lambda>_.
     try_except (deploy_body L cfg infra_id)
       (except_Exception
          (\<lambda>e s. then_do (emit (Print (msg_failed_to_deploy s))) (\<lambda>_. raise e))))"

section \<open>Main workflow\<close>

text \<open>
  The names the module imports (lines 1 to 5). \<^verbatim>\<open>sys.exit(n)\<close> first looks the name
  \<^verbatim>\<open>sys\<close> up among the module's globals.
\<close>

definition module_imports :: "string list" where
  "module_imports = [''os'', ''subprocess'', ''traceback'', ''dataikuapi'', ''urllib3'']"

definition sys_exit :: "int \<Rightarrow> ('a, 'e, 'w) prog" where
  "sys_exit n =
     (if ''sys'' \<in> set module_imports then raise (SystemExit n)
      else raise (NameError (msg_name_not_defined ''sys'')))"

definition main_body ::
  "('w, 'h, 'z) library \<Rightarrow> config \<Rightarrow> (unit, ('h, 'z) event, 'w) prog" where
  "main_body L cfg =
     then_do (emit (Print msg_starting)) (\<lambda>_.
     then_do (emit (Print (msg_phase1 DATAIKU_INFRA_ID_STAGING))) (\<lambda>_.
     then_do (deploy L cfg DATAIKU_INFRA_ID_STAGING) (\<lambda>_.
     then_do (emit (Print msg_phase2)) (\<lambda>_.
     then_do (run_tests L (PYTHON_SCRIPT cfg) (DATAIKU_INSTANCE_STAGING_URL cfg)
                (DATAIKU_API_TOKEN_STAGING cfg) (DATAIKU_PROJECT_KEY cfg)) (\<lambda>tests_passed.
     then_do (if \<not> tests_passed
              then then_do (emit (Print msg_staging_failed)) (\<lambda>_. sys_exit 1)
              else ret ()) (\<lambda>_.
     then_do (emit (Print msg_staging_passed)) (\<lambda>_.
     then_do (if RUN_TESTS_ONLY cfg
              then then_do (emit (Print msg_tests_only))
                     (\<lambda>_. sys_exit 0)
              else ret ()) (\<lambda>_.
     then_do (emit (Print (msg_phase3 DATAIKU_INFRA_ID_PROD))) (\<lambda>_.
     then_do (deploy L cfg DATAIKU_INFRA_ID_PROD) (\<lambda>_.
     then_do (emit (Print msg_phase4)) (\<lambda>_.
     then_do (run_tests L (PYTHON_SCRIPT cfg) (DATAIKU_INSTANCE_PROD_URL cfg)
                (DATAIKU_API_TOKEN_PROD cfg) (DATAIKU_PROJECT_KEY cfg)) (\<lambda>prod_tests_passed.
     if prod_tests_passed
     then emit (Print msg_all_successful)
     else then_do (emit (Print msg_prod_warning))
            (\<lambda>_. sys_exit 1)))))))))))))"

definition main :: "('w, 'h, 'z) library \<Rightarrow> config \<Rightarrow> (unit, ('h, 'z) event, 'w) prog" where
  "main L cfg =
     try_except (main_body L cfg)
       (except_Exception
          (\<lambda>e s. then_do (emit (Print (msg_error_occurred s))) (\<lambda>_.
                  then_do (emit (Traceback e)) (\<lambda>_.
                  sys_exit 1))))"

text \<open>
  The status the interpreter exits with after \<^verbatim>\<open>main()\<close>: 0 when it returns, the code of
  a \<^verbatim>\<open>SystemExit\<close>, and 1 for any other exception that nothing caught.
\<close>

fun exit_status :: "exn + unit \<Rightarrow> int" where
  "exit_status (Inr u) = 0"
| "exit_status (Inl (SystemExit n)) = n"
| "exit_status (Inl e) = 1"

definition process_exit :: "('w, 'h, 'z) library \<Rightarrow> config \<Rightarrow> 'w \<Rightarrow> int" where
  "process_exit L cfg w = exit_status (fst (main L cfg w))"

section \<open>Reading a run\<close>

text \<open>
  The commit identifier that \<^verbatim>\<open>get_git_sha\<close> makes of the outcome of \<^verbatim>\<open>git rev-parse\<close>, and
  the verdict and the message that \<^verbatim>\<open>run_tests\<close> makes of the outcome of the test script.
\<close>

definition commit_id_of :: "string + string \<Rightarrow> string" where
  "commit_id_of out = (case out of Inl m \<Rightarrow> ''manual-test'' | Inr s \<Rightarrow> strip s)"

definition tests_passed_of :: "string + completed \<Rightarrow> bool" where
  "tests_passed_of out = (case out of Inl m \<Rightarrow> False | Inr res \<Rightarrow> returncode res = 0)"

definition tests_report_of :: "string + completed \<Rightarrow> string" where
  "tests_report_of out =
     (case out of
        Inl m \<Rightarrow> msg_error_running_tests m
      | Inr res \<Rightarrow> if returncode res = 0 then msg_tests_passed
                   else msg_tests_failed (stderr res) (stdout res))"

text \<open>What \<^verbatim>\<open>deploy\<close> prints last when its body ends with the outcome \<open>r\<close>.\<close>

definition failure_report :: "exn + unit \<Rightarrow> ('h, 'z) event list" where
  "failure_report r =
     (case r of
        Inr u \<Rightarrow> []
      | Inl e \<Rightarrow> (case exception_str e of None \<Rightarrow> [] | Some s \<Rightarrow> [Print (msg_failed_to_deploy s)]))"

text \<open>The library calls of a run in order, and the clients they went through.\<close>

fun call_of :: "('h, 'z) event \<Rightarrow> ('h, 'z) call list" where
  "call_of (Remote c cl r) = [cl]"
| "call_of ev = []"

definition remote_calls :: "('h, 'z) event list \<Rightarrow> ('h, 'z) call list" where
  "remote_calls evs = concat (map call_of evs)"

fun client_of :: "('h, 'z) event \<Rightarrow> client list" where
  "client_of (Remote c cl r) = [c]"
| "client_of ev = []"

definition clients_used :: "('h, 'z) event list \<Rightarrow> client list" where
  "clients_used evs = concat (map client_of evs)"

fun git_output_of :: "('h, 'z) event \<Rightarrow> (string + string) list" where
  "git_output_of (GitRevParse out) = [out]"
| "git_output_of ev = []"

definition git_outputs :: "('h, 'z) event list \<Rightarrow> (string + string) list" where
  "git_outputs evs = concat (map git_output_of evs)"

fun is_export :: "('h, 'z) call \<Rightarrow> bool" where
  "is_export (ExportBundle key b) = True"
| "is_export cl = False"

fun is_publish :: "('h, 'z) call \<Rightarrow> bool" where
  "is_publish (PublishBundle key b) = True"
| "is_publish cl = False"


text \<open>
  Reading a listing: an item names a bundle when its \<^verbatim>\<open>bundleId\<close> is that identifier, and it
  can be read when it is a dictionary with the key \<^verbatim>\<open>bundleId\<close>. \<open>entries_before\<close> are the items
  ahead of the first one that names the bundle (all of them when none does).
\<close>

definition names_bundle :: "bundle_entry \<Rightarrow> string \<Rightarrow> bool" where
  "names_bundle b bundle_id \<longleftrightarrow> subscript b ''bundleId'' = Inr (Str bundle_id)"

definition has_bundleId :: "bundle_entry \<Rightarrow> bool" where
  "has_bundleId b \<longleftrightarrow> (case subscript b ''bundleId'' of Inl e \<Rightarrow> False | Inr v \<Rightarrow> True)"

definition entries_before :: "bundle_entry list \<Rightarrow> string \<Rightarrow> bundle_entry list" where
  "entries_before bundles bundle_id = takeWhile (\<lambda>b. \<not> names_bundle b bundle_id) bundles"

text \<open>The bundle identifier that a call carries, if it carries one.\<close>

fun bundle_ids_of :: "('h, 'z) call \<Rightarrow> string list" where
  "bundle_ids_of (ExportBundle key b) = [b]"
| "bundle_ids_of (PublishBundle key b) = [b]"
| "bundle_ids_of (Save h s) = [settings_bundleId s]"
| "bundle_ids_of (CreateDeployment d key infra b) = [b]"
| "bundle_ids_of cl = []"

section \<open>A reference deployer\<close>

text \<open>
  Modelled from the spec: the Deployment Client interface of section 6, which stands for
  the \<^verbatim>\<open>dataikuapi\<close> library and the Dataiku instance behind it; neither is part of the
  script. \<^verbatim>\<open>listBundles\<close> fails if the project is unknown to the deployer, \<^verbatim>\<open>exportBundle\<close>
  fails with an "already exists" error when the bundle is already exported at the source,
  \<^verbatim>\<open>getDeployment\<close> fails if the deployment is absent. The listing has one dictionary for
  each published bundle, with the bundle identifier at the key \<^verbatim>\<open>bundleId\<close> that the script
  reads. A deployment binds a project and an
  infrastructure to a bundle; an activation makes the bound bundle live, and fails on an
  infrastructure that is out of order. The settings of a locked deployment cannot be
  saved, and nothing can be exported or published while the source instance is offline.
  The test script is a program of its own that runs in the checkout: it may move
  \<^verbatim>\<open>HEAD\<close>.
\<close>

definition bundle_dict :: "string \<Rightarrow> bundle_entry" where
  "bundle_dict b = Dict [''bundleId'' \<mapsto> Str b]"

record sim_deployment =
  dep_project :: "string option"
  dep_infra :: string
  dep_bundle :: string
  dep_locked :: bool

record sim =
  git_output :: "string + string"
  script_result :: "string option \<Rightarrow> string + completed"
  script_moves_head :: "(string + string) option"
  source_offline :: bool
  exported :: "string option \<Rightarrow> string list"
  published :: "string option \<Rightarrow> string list option"
  deployments :: "string \<Rightarrow> sim_deployment option"
  live :: "string \<Rightarrow> string option"
  broken_infras :: "string list"

definition sim_run_script :: "string option \<Rightarrow> sim \<Rightarrow> (string + completed) \<times> sim" where
  "sim_run_script instance_url w =
     (script_result w instance_url,
      case script_moves_head w of None \<Rightarrow> w | Some out \<Rightarrow> w\<lparr>git_output := out\<rparr>)"

definition sim_list_bundles :: "string option \<Rightarrow> sim \<Rightarrow> (string + bundle_entry list) \<times> sim" where
  "sim_list_bundles key w =
     (case published w key of
        None \<Rightarrow> (Inl ''Project not found in deployer'', w)
      | Some bs \<Rightarrow> (Inr (map bundle_dict bs), w))"

definition sim_export_bundle :: "string option \<Rightarrow> string \<Rightarrow> sim \<Rightarrow> (string + unit) \<times> sim" where
  "sim_export_bundle key b w =
     (if source_offline w then (Inl ''Design node unreachable'', w)
      else if b \<in> set (exported w key) then (Inl ''Bundle already exists'', w)
      else (Inr (), w\<lparr>exported := (exported w)(key := exported w key @ [b])\<rparr>))"

definition sim_publish_bundle :: "string option \<Rightarrow> string \<Rightarrow> sim \<Rightarrow> (string + unit) \<times> sim" where
  "sim_publish_bundle key b w =
     (if source_offline w then (Inl ''Design node unreachable'', w)
      else if b \<notin> set (exported w key) then (Inl ''Bundle not found in project'', w)
      else (case published w key of
              None \<Rightarrow> (Inr (), w\<lparr>published := (published w)(key := Some [b])\<rparr>)
            | Some bs \<Rightarrow>
                if b \<in> set bs then (Inl ''Bundle is already published'', w)
                else (Inr (), w\<lparr>published := (published w)(key := Some (bs @ [b]))\<rparr>)))"

definition sim_get_deployment :: "string \<Rightarrow> sim \<Rightarrow> (string + string) \<times> sim" where
  "sim_get_deployment d w =
     (case deployments w d of
        None \<Rightarrow> (Inl ''Deployment not found'', w)
      | Some dep \<Rightarrow> (Inr d, w))"

definition sim_get_settings :: "string \<Rightarrow> sim \<Rightarrow> (string + settings) \<times> sim" where
  "sim_get_settings d w =
     (case deployments w d of
        None \<Rightarrow> (Inl ''Deployment not found'', w)
      | Some dep \<Rightarrow> (Inr \<lparr>settings_bundleId = dep_bundle dep\<rparr>, w))"

definition sim_save :: "string \<Rightarrow> settings \<Rightarrow> sim \<Rightarrow> (string + unit) \<times> sim" where
  "sim_save d s w =
     (case deployments w d of
        None \<Rightarrow> (Inl ''Deployment not found'', w)
      | Some dep \<Rightarrow>
          if dep_locked dep then (Inl ''Permission denied'', w)
          else (Inr (),
                w\<lparr>deployments := (deployments w)(d := Some (dep\<lparr>dep_bundle := settings_bundleId s\<rparr>))\<rparr>))"

definition sim_create_deployment ::
  "string \<Rightarrow> string option \<Rightarrow> string \<Rightarrow> string \<Rightarrow> sim \<Rightarrow> (string + string) \<times> sim" where
  "sim_create_deployment d key infra b w =
     (case deployments w d of
        Some dep \<Rightarrow> (Inl ''Deployment already exists'', w)
      | None \<Rightarrow>
          (Inr d,
           w\<lparr>deployments :=
               (deployments w)(d := Some \<lparr>dep_project = key, dep_infra = infra, dep_bundle = b,
                                        dep_locked = False\<rparr>)\<rparr>))"

definition sim_start_update :: "string \<Rightarrow> sim \<Rightarrow> (string + string) \<times> sim" where
  "sim_start_update d w =
     (case deployments w d of
        None \<Rightarrow> (Inl ''Deployment not found'', w)
      | Some dep \<Rightarrow> (Inr d, w))"

definition sim_wait_for_result :: "string \<Rightarrow> sim \<Rightarrow> (string + activation_result) \<times> sim" where
  "sim_wait_for_result d w =
     (case deployments w d of
        None \<Rightarrow> (Inl ''Deployment not found'', w)
      | Some dep \<Rightarrow>
          if dep_infra dep \<in> set (broken_infras w) then (Inl ''Update failed'', w)
          else (Inr Success, w\<lparr>live := (live w)(d := Some (dep_bundle dep))\<rparr>))"

definition sim_library :: "(sim, string, unit) library" where
  "sim_library =
     \<lparr>git_rev_parse = (\<lambda>w. (git_output w, w)),
      run_script = (\<lambda>script_path instance_url key project. sim_run_script instance_url),
      get_projectdeployer = (\<lambda>c w. (Inr (), w)),
      deployer_get_project = (\<lambda>c key w. (Inr (), w)),
      list_bundles = (\<lambda>c. sim_list_bundles),
      get_project = (\<lambda>c key w. (Inr (), w)),
      export_bundle = (\<lambda>c. sim_export_bundle),
      publish_bundle = (\<lambda>c. sim_publish_bundle),
      get_deployment = (\<lambda>c. sim_get_deployment),
      get_settings = (\<lambda>c. sim_get_settings),
      save = (\<lambda>c. sim_save),
      create_deployment = (\<lambda>c. sim_create_deployment),
      start_update = (\<lambda>c. sim_start_update),
      wait_for_result = (\<lambda>c. sim_wait_for_result)\<rparr>"

text \<open>A fresh instance: nothing exported, published or deployed; the checkout is at \<^verbatim>\<open>abc1234\<close>.\<close>

definition sim_fresh :: sim where
  "sim_fresh =
     \<lparr>git_output = Inr (''abc1234'' @ [CHR 0x0A]),
      script_result = (\<lambda>url. Inr \<lparr>returncode = 0, stdout = ''ok'', stderr = []\<rparr>),
      script_moves_head = None,
      source_offline = False,
      exported = (\<lambda>key. []),
      published = (\<lambda>key. None),
      deployments = (\<lambda>d. None),
      live = (\<lambda>d. None),
      broken_infras = []\<rparr>"

definition cfg_example :: config where
  "cfg_example =
     \<lparr>DATAIKU_API_TOKEN_DEV = Some ''tok-dev'',
      DATAIKU_API_TOKEN_STAGING = Some ''tok-staging'',
      DATAIKU_API_TOKEN_PROD = Some ''tok-prod'',
      DATAIKU_INSTANCE_DEV_URL = Some ''https://dev'',
      DATAIKU_INSTANCE_STAGING_URL = Some ''https://staging'',
      DATAIKU_INSTANCE_PROD_URL = Some ''https://prod'',
      DATAIKU_PROJECT_KEY = Some ''myproj'',
      RUN_TESTS_ONLY = False,
      PYTHON_SCRIPT = ''tests.py'',
      CLIENT_CERTIFICATE = None\<rparr>"

definition dev_client :: client where
  "dev_client =
     \<lparr>client_host = ''https://dev'', client_api_key = ''tok-dev'', no_check_certificate = True,
      client_certificate = None\<rparr>"

text \<open>The instance after \<^verbatim>\<open>bundle_abc1234\<close> has been deployed to staging.\<close>

definition sim_deployed :: sim where
  "sim_deployed =
     \<lparr>git_output = Inr (''abc1234'' @ [CHR 0x0A]),
      script_result = (\<lambda>url. Inr \<lparr>returncode = 0, stdout = ''ok'', stderr = []\<rparr>),
      script_moves_head = None,
      source_offline = False,
      exported = (\<lambda>key. if key = Some ''myproj'' then [''bundle_abc1234''] else []),
      published = (\<lambda>key. if key = Some ''myproj'' then Some [''bundle_abc1234''] else None),
      deployments = (\<lambda>d. if d = ''deploy_myproj_staging''
                          then Some \<lparr>dep_project = Some ''myproj'', dep_infra = ''staging'',
                                     dep_bundle = ''bundle_abc1234'', dep_locked = False\<rparr>
                          else None),
      live = (\<lambda>d. if d = ''deploy_myproj_staging'' then Some ''bundle_abc1234'' else None),
      broken_infras = []\<rparr>"

text \<open>A configuration in which the token of the dev instance is not set.\<close>

definition cfg_no_dev :: config where
  "cfg_no_dev = cfg_example\<lparr>DATAIKU_API_TOKEN_DEV := None\<rparr>"


text \<open>Variations: the staging infrastructure out of order; the bundle exported at the
  source but not yet published; the source instance offline; the staging deployment
  locked; a test script that checks out another commit.\<close>

definition sim_broken :: sim where
  "sim_broken = sim_fresh\<lparr>broken_infras := [''staging'']\<rparr>"

definition sim_exported :: sim where
  "sim_exported =
     sim_fresh\<lparr>exported := (\<lambda>key. if key = Some ''myproj'' then [''bundle_abc1234''] else [])\<rparr>"

definition sim_offline :: sim where
  "sim_offline = sim_fresh\<lparr>source_offline := True\<rparr>"


definition sim_moving :: sim where
  "sim_moving = sim_fresh\<lparr>script_moves_head := Some (Inr (''def5678'' @ [CHR 0x0A]))\<rparr>"

text \<open>A test script that fails.\<close>

text \<open>
  A deployer that lists, ahead of the published bundles, an item of another make: a
  dictionary that has the key \<^verbatim>\<open>id\<close> and no key \<^verbatim>\<open>bundleId\<close>.
\<close>

definition sim_mixed_library :: "(sim, string, unit) library" where
  "sim_mixed_library =
     sim_library\<lparr>list_bundles :=
       (\<lambda>c key w. case sim_list_bundles key w of
                    (Inl m, w') \<Rightarrow> (Inl m, w')
                  | (Inr bs, w') \<Rightarrow> (Inr (Dict [''id'' \<mapsto> Str ''bundle_0000000''] # bs), w'))\<rparr>"

definition sim_failing :: sim where
  "sim_failing =
     sim_fresh\<lparr>script_result :=
       (\<lambda>url. Inr \<lparr>returncode = 1, stdout = [], stderr = ''assertion failed''\<rparr>)\<rparr>"

definition cfg_tests_only :: config where
  "cfg_tests_only = cfg_example\<lparr>RUN_TESTS_ONLY := True\<rparr>"

text \<open>
  An instance is settled on a bundle for a project and an infrastructure when the bundle
  is published for the project, the deployment exists, is bound to the bundle, is not
  locked and sits on an infrastructure in order, and the bundle is live.
\<close>

definition settled :: "config \<Rightarrow> string \<Rightarrow> string \<Rightarrow> sim \<Rightarrow> bool" where
  "settled cfg infra_id bundle_id w \<longleftrightarrow>
     (\<exists>bs. published w (DATAIKU_PROJECT_KEY cfg) = Some bs \<and> bundle_id \<in> set bs)
     \<and> (\<exists>dep. deployments w (deployment_id_of cfg infra_id) = Some dep
            \<and> dep_bundle dep = bundle_id \<and> \<not> dep_locked dep
            \<and> dep_infra dep \<notin> set (broken_infras w))
     \<and> live w (deployment_id_of cfg infra_id) = Some bundle_id"

section \<open>Failures and identifiers in a run\<close>

text \<open>
  The failures of library calls that an inner \<^verbatim>\<open>try\<close> of \<^verbatim>\<open>deploy\<close> handles itself: those of
  the bundle listing and of the deployment lookup and update, under a bare \<^verbatim>\<open>except\<close>, and
  an export that fails with a text containing \<^verbatim>\<open>already exists\<close>.
\<close>

fun absorbed :: "('h, 'z) call \<Rightarrow> string \<Rightarrow> bool" where
  "absorbed (DeployerGetProject key) m = True"
| "absorbed (ListBundles key) m = True"
| "absorbed (ExportBundle key b) m = contains m ''already exists''"
| "absorbed (GetDeployment d) m = True"
| "absorbed (GetSettings h) m = True"
| "absorbed (Save h s) m = True"
| "absorbed cl m = False"

text \<open>The bundle identifiers that the calls of a run carry.\<close>

definition bundle_ids :: "('h, 'z) event list \<Rightarrow> string list" where
  "bundle_ids evs = concat (map bundle_ids_of (remote_calls evs))"

text \<open>
  The exception that \<^verbatim>\<open>sys.exit\<close> ends in, and what the handler of \<^verbatim>\<open>main\<close> prints for an
  exception that it catches.
\<close>

definition name_error :: exn where
  "name_error = NameError (msg_name_not_defined ''sys'')"

definition crash_report :: "exn \<Rightarrow> ('h, 'z) event list" where
  "crash_report e =
     (case exception_str e of
        None \<Rightarrow> []
      | Some s \<Rightarrow> [Print (msg_error_occurred s), Traceback e])"

section \<open>Substrings\<close>

text \<open>The test \<^verbatim>\<open>p in s\<close> as computed is the contiguous-sublist relation of the library.\<close>

lemma starts_with_prefix: "starts_with s p \<longleftrightarrow> prefix p s"
  by (induction s p rule: starts_with.induct) auto

lemma contains_sublist: "contains s p \<longleftrightarrow> sublist p s"
  by (induction s) (auto simp: starts_with_prefix sublist_Cons_right)

section \<open>The loop over the listing\<close>

text \<open>
  The loop ends with \<^verbatim>\<open>bundle_exists = True\<close> exactly when some item of the listing names the
  bundle and every item ahead of the first such one can be read at the key.
\<close>

lemma bundle_listed_found:
  "bundle_listed bs bid = Inr True \<longleftrightarrow>
     (\<exists>b \<in> set bs. names_bundle b bid) \<and> (\<forall>b \<in> set (entries_before bs bid). has_bundleId b)"
  by (induction bs)
     (auto simp: names_bundle_def has_bundleId_def entries_before_def split: sum.splits)

lemma bundle_listed_absent:
  "bundle_listed bs bid = Inr False \<longleftrightarrow>
     (\<forall>b \<in> set bs. has_bundleId b \<and> \<not> names_bundle b bid)"
  by (induction bs) (auto simp: names_bundle_def has_bundleId_def split: sum.splits)

lemma subscript_bundle_dict [simp]: "subscript (bundle_dict b) ''bundleId'' = Inr (Str b)"
  by (simp add: subscript_def bundle_dict_def)

lemma bundle_listed_map [simp]: "bundle_listed (map bundle_dict bs) bid = Inr (bid \<in> set bs)"
  by (induction bs) auto

section \<open>Rules for programs\<close>

lemma ret_iff [simp]: "ret x w = (r, evs, w') \<longleftrightarrow> r = Inr x \<and> evs = [] \<and> w' = w"
  by (auto simp: ret_def)
lemma raise_iff [simp]: "raise e w = (r, evs, w') \<longleftrightarrow> r = Inl e \<and> evs = [] \<and> w' = w"
  by (auto simp: raise_def)
lemma emit_iff [simp]: "emit ev w = (r, evs, w') \<longleftrightarrow> r = Inr () \<and> evs = [ev] \<and> w' = w"
  by (auto simp: emit_def)

lemma then_doE:
  assumes "then_do m f w = (r, evs, w')"
  obtains (fail) e where "m w = (Inl e, evs, w')" "r = Inl e"
        | (ok) x e1 w1 e2 where "m w = (Inr x, e1, w1)" "f x w1 = (r, e2, w')" "evs = e1 @ e2"
  using assms unfolding then_do_def by (auto split: prod.splits sum.splits)

lemma try_exceptE:
  assumes "try_except m h w = (r, evs, w')"
  obtains (ok) x where "m w = (Inr x, evs, w')" "r = Inr x"
        | (uncaught) e where "m w = (Inl e, evs, w')" "h e = None" "r = Inl e"
        | (caught) e e1 w1 k e2 where "m w = (Inl e, e1, w1)" "h e = Some k" "k w1 = (r, e2, w')" "evs = e1 @ e2"
  using assms unfolding try_except_def by (auto split: prod.splits sum.splits option.splits)

lemma remote_callE:
  assumes "remote_call c cl wrap f w = (r, evs, w')"
  obtains (raised) m where "f w = (Inl m, w')" "r = Inl (LibraryError m)" "evs = [Remote c cl (Inl m)]"
        | (returned) x where "f w = (Inr x, w')" "r = Inr x" "evs = [Remote c cl (Inr (wrap x))]"
  using assms unfolding remote_call_def by (auto split: prod.splits sum.splits)

lemma except_all_simp [simp]: "except_all k e = Some k'  \<longleftrightarrow> k' = k" "except_all k e \<noteq> None"
  by (auto simp: except_all_def)

lemma except_Exception_Library [simp]:
  "except_Exception k (LibraryError m) = Some (k (LibraryError m) m)"
  "except_Exception k (AttributeError m) = Some (k (AttributeError m) m)"
  "except_Exception k (NameError m) = Some (k (NameError m) m)"
  "except_Exception k (KeyError m) = Some (k (KeyError m) (CHR 0x27 # m @ [CHR 0x27]))"
  "except_Exception k (TypeError m) = Some (k (TypeError m) m)"
  "except_Exception k (SystemExit n) = None"
  by (auto simp: except_Exception_def)

lemmas progE = then_doE try_exceptE remote_callE

section \<open>The paths through each step\<close>

lemma check_shape:
  assumes "check_bundle_exists L c key bid w = (r, evs, w')"
  obtains (no_project) m where "evs = [Remote c (DeployerGetProject key) (Inl m)]" "r = Inr False"
   | (no_listing) m where "evs = [Remote c (DeployerGetProject key) (Inr Done),
                       Remote c (ListBundles key) (Inl m)]" "r = Inr False"
   | (listing) bs where "evs = [Remote c (DeployerGetProject key) (Inr Done),
                       Remote c (ListBundles key) (Inr (Bundles bs))]"
                      "r = Inr (bundle_listed bs bid = Inr True)"
  using assms unfolding check_bundle_exists_def
  by (auto elim!: progE split: sum.splits)

lemma ensure_shape:
  assumes "ensure_bundle L cfg bid b w = (r, evs, w')" and "client_dev cfg = Some c"
  obtains (skipped) "b" "evs = [Print (msg_bundle_exists bid)]" "r = Inr ()" "w' = w"
  | (no_project) m where "\<not> b"
      "evs = [Print (msg_bundle_not_found bid),
              Remote c (GetProject (DATAIKU_PROJECT_KEY cfg)) (Inl m)]"
      "r = Inl (LibraryError m)"
  | (export_failed) m where "\<not> b" "\<not> contains m ''already exists''"
      "evs = [Print (msg_bundle_not_found bid),
              Remote c (GetProject (DATAIKU_PROJECT_KEY cfg)) (Inr Done),
              Remote c (ExportBundle (DATAIKU_PROJECT_KEY cfg) bid) (Inl m)]"
      "r = Inl (LibraryError m)"
  | (exported_publish_failed) m where "\<not> b"
      "evs = [Print (msg_bundle_not_found bid),
              Remote c (GetProject (DATAIKU_PROJECT_KEY cfg)) (Inr Done),
              Remote c (ExportBundle (DATAIKU_PROJECT_KEY cfg) bid) (Inr Done),
              Remote c (PublishBundle (DATAIKU_PROJECT_KEY cfg) bid) (Inl m)]"
      "r = Inl (LibraryError m)"
  | (exported_published) "\<not> b"
      "evs = [Print (msg_bundle_not_found bid),
              Remote c (GetProject (DATAIKU_PROJECT_KEY cfg)) (Inr Done),
              Remote c (ExportBundle (DATAIKU_PROJECT_KEY cfg) bid) (Inr Done),
              Remote c (PublishBundle (DATAIKU_PROJECT_KEY cfg) bid) (Inr Done),
              Print (msg_published bid)]"
      "r = Inr ()"
  | (conflict_publish_failed) m m' where "\<not> b" "contains m ''already exists''"
      "evs = [Print (msg_bundle_not_found bid),
              Remote c (GetProject (DATAIKU_PROJECT_KEY cfg)) (Inr Done),
              Remote c (ExportBundle (DATAIKU_PROJECT_KEY cfg) bid) (Inl m),
              Print msg_bundle_in_project,
              Remote c (PublishBundle (DATAIKU_PROJECT_KEY cfg) bid) (Inl m')]"
      "r = Inl (LibraryError m')"
  | (conflict_published) m where "\<not> b" "contains m ''already exists''"
      "evs = [Print (msg_bundle_not_found bid),
              Remote c (GetProject (DATAIKU_PROJECT_KEY cfg)) (Inr Done),
              Remote c (ExportBundle (DATAIKU_PROJECT_KEY cfg) bid) (Inl m),
              Print msg_bundle_in_project,
              Remote c (PublishBundle (DATAIKU_PROJECT_KEY cfg) bid) (Inr Done),
              Print (msg_published bid)]"
      "r = Inr ()"
  using assms unfolding ensure_bundle_def export_step_def with_client_def
  by (auto elim!: progE split: if_splits)

lemma bind_shape:
  assumes "bind_deployment L c cfg infra bid w = (r, evs, w')"
  obtains (updated) h s where
      "evs = [Remote c (GetDeployment (deployment_id_of cfg infra)) (Inr (Handle h)),
              Remote c (GetSettings h) (Inr (Settings s)),
              Remote c (Save h (s\<lparr>settings_bundleId := bid\<rparr>)) (Inr Done),
              Print (msg_updated bid)]"
      "r = Inr h"
  | (absent_created) m h' where
      "evs = [Remote c (GetDeployment (deployment_id_of cfg infra)) (Inl m),
              Print msg_creating,
              Remote c (CreateDeployment (deployment_id_of cfg infra) (DATAIKU_PROJECT_KEY cfg) infra bid) (Inr (Handle h'))]"
      "r = Inr h'"
  | (absent_create_failed) m m' where
      "evs = [Remote c (GetDeployment (deployment_id_of cfg infra)) (Inl m),
              Print msg_creating,
              Remote c (CreateDeployment (deployment_id_of cfg infra) (DATAIKU_PROJECT_KEY cfg) infra bid) (Inl m')]"
      "r = Inl (LibraryError m')"
  | (no_settings_created) h m h' where
      "evs = [Remote c (GetDeployment (deployment_id_of cfg infra)) (Inr (Handle h)),
              Remote c (GetSettings h) (Inl m),
              Print msg_creating,
              Remote c (CreateDeployment (deployment_id_of cfg infra) (DATAIKU_PROJECT_KEY cfg) infra bid) (Inr (Handle h'))]"
      "r = Inr h'"
  | (no_settings_create_failed) h m m' where
      "evs = [Remote c (GetDeployment (deployment_id_of cfg infra)) (Inr (Handle h)),
              Remote c (GetSettings h) (Inl m),
              Print msg_creating,
              Remote c (CreateDeployment (deployment_id_of cfg infra) (DATAIKU_PROJECT_KEY cfg) infra bid) (Inl m')]"
      "r = Inl (LibraryError m')"
  | (not_saved_created) h s m h' where
      "evs = [Remote c (GetDeployment (deployment_id_of cfg infra)) (Inr (Handle h)),
              Remote c (GetSettings h) (Inr (Settings s)),
              Remote c (Save h (s\<lparr>settings_bundleId := bid\<rparr>)) (Inl m),
              Print msg_creating,
              Remote c (CreateDeployment (deployment_id_of cfg infra) (DATAIKU_PROJECT_KEY cfg) infra bid) (Inr (Handle h'))]"
      "r = Inr h'"
  | (not_saved_create_failed) h s m m' where
      "evs = [Remote c (GetDeployment (deployment_id_of cfg infra)) (Inr (Handle h)),
              Remote c (GetSettings h) (Inr (Settings s)),
              Remote c (Save h (s\<lparr>settings_bundleId := bid\<rparr>)) (Inl m),
              Print msg_creating,
              Remote c (CreateDeployment (deployment_id_of cfg infra) (DATAIKU_PROJECT_KEY cfg) infra bid) (Inl m')]"
      "r = Inl (LibraryError m')"
  using assms unfolding bind_deployment_def
  by (auto elim!: progE)

lemma activate_shape:
  assumes "activate L c infra bid h w = (r, evs, w')"
  obtains (start_failed) m where
      "evs = [Print (msg_activating infra), Remote c (StartUpdate h) (Inl m)]"
      "r = Inl (LibraryError m)"
  | (wait_failed) u m where
      "evs = [Print (msg_activating infra), Remote c (StartUpdate h) (Inr (Handle u)),
              Remote c (WaitForResult u) (Inl m)]"
      "r = Inl (LibraryError m)"
  | (activated) u v where
      "evs = [Print (msg_activating infra), Remote c (StartUpdate h) (Inr (Handle u)),
              Remote c (WaitForResult u) (Inr (Result v)), Print (msg_success bid infra)]"
      "r = Inr ()"
  using assms unfolding activate_def
  by (auto elim!: progE)

lemma check_never_raises:
  "\<exists>b evs w'. check_bundle_exists L c key bid w = (Inr b, evs, w')"
proof -
  obtain r evs w' where run: "check_bundle_exists L c key bid w = (r, evs, w')"
    by (metis prod_cases3)
  then have "\<exists>b. r = Inr b" by (elim check_shape) auto
  with run show ?thesis by auto
qed

lemma reconcile_cases:
  assumes "reconcile L cfg infra bid w = (r, evs, w')" and "client_dev cfg = Some c"
  obtains (no_deployer) m where
      "evs = [Remote c GetProjectDeployer (Inl m)]" "r = Inl (LibraryError m)"
  | (bundle_failed) w0 b e1 w1 e e2 where
      "check_bundle_exists L c (DATAIKU_PROJECT_KEY cfg) bid w0 = (Inr b, e1, w1)"
      "ensure_bundle L cfg bid b w1 = (Inl e, e2, w')"
      "evs = Remote c GetProjectDeployer (Inr Done) # e1 @ e2" "r = Inl e"
  | (binding_failed) w0 b e1 w1 e2 w2 e e3 where
      "check_bundle_exists L c (DATAIKU_PROJECT_KEY cfg) bid w0 = (Inr b, e1, w1)"
      "ensure_bundle L cfg bid b w1 = (Inr (), e2, w2)"
      "bind_deployment L c cfg infra bid w2 = (Inl e, e3, w')"
      "evs = Remote c GetProjectDeployer (Inr Done) # e1 @ e2
               @ Print (msg_preparing (deployment_id_of cfg infra) infra) # e3"
      "r = Inl e"
  | (bound) w0 b e1 w1 e2 w2 h e3 w3 e4 where
      "check_bundle_exists L c (DATAIKU_PROJECT_KEY cfg) bid w0 = (Inr b, e1, w1)"
      "ensure_bundle L cfg bid b w1 = (Inr (), e2, w2)"
      "bind_deployment L c cfg infra bid w2 = (Inr h, e3, w3)"
      "activate L c infra bid h w3 = (r, e4, w')"
      "evs = Remote c GetProjectDeployer (Inr Done) # e1 @ e2
               @ Print (msg_preparing (deployment_id_of cfg infra) infra) # e3 @ e4"
proof -
  have nr: "check_bundle_exists L c (DATAIKU_PROJECT_KEY cfg) bid w0 \<noteq> (Inl e, e1, w1)" for w0 e e1 w1
    using check_never_raises[of L c "DATAIKU_PROJECT_KEY cfg" bid w0] by auto
  from assms show thesis
    unfolding reconcile_def with_client_def
    apply simp
    apply (erule then_doE)
     apply (erule remote_callE; simp add: no_deployer)
    apply (erule remote_callE; simp)
    apply (erule then_doE)
     apply (simp add: nr)
    apply (erule then_doE)
     apply (simp add: bundle_failed)
    apply (erule then_doE)
     apply simp
    apply (erule then_doE)
     apply (simp add: binding_failed)
    apply (simp add: bound)
    done
qed

lemma get_git_sha_eq:
  "get_git_sha L w =
     (case git_rev_parse L w of (out, w') \<Rightarrow> (Inr (commit_id_of out), [GitRevParse out], w'))"
  unfolding get_git_sha_def try_except_def commit_id_of_def
  by (auto split: prod.splits sum.splits simp: ret_def)

lemma reconcile_no_client:
  assumes "client_dev cfg = None"
  shows "reconcile L cfg infra bid w =
           (Inl (AttributeError (none_has_no_attribute ''get_projectdeployer'')), [], w)"
  using assms unfolding reconcile_def with_client_def by (simp add: raise_def)

lemma deploy_cases:
  assumes "deploy L cfg infra w = (r, evs, w')"
  obtains out w0 e1 where
    "git_rev_parse L w = (out, w0)"
    "reconcile L cfg infra (generate_bundle_id (commit_id_of out)) w0 = (r, e1, w')"
    "evs = DeployCalled infra # GitRevParse out # e1 @ failure_report r"
proof -
  obtain out w0 where git: "git_rev_parse L w = (out, w0)" by (cases "git_rev_parse L w")
  obtain r1 e1 w1 where rec: "reconcile L cfg infra (generate_bundle_id (commit_id_of out)) w0 = (r1, e1, w1)"
    by (metis prod_cases3)
  have body: "deploy_body L cfg infra w = (r1, GitRevParse out # e1, w1)"
    unfolding deploy_body_def then_do_def get_git_sha_eq using git rec
    by (auto split: sum.splits)
  have "r = r1 \<and> evs = DeployCalled infra # GitRevParse out # e1 @ failure_report r1 \<and> w' = w1"
    using assms body unfolding deploy_def then_do_def try_except_def except_Exception_def failure_report_def
    by (cases r1; auto simp: emit_def raise_def split: option.splits)
  with git rec that show thesis by blast
qed

lemma run_tests_eq:
  "run_tests L sp url key pk w =
     (case run_script L sp url key pk w of
        (out, w') \<Rightarrow> (Inr (tests_passed_of out),
                     [Print (msg_running_tests url), RunScript sp url key pk out,
                      Print (tests_report_of out)], w'))"
  unfolding run_tests_def then_do_def try_except_def tests_passed_of_def tests_report_of_def
  by (auto split: prod.splits sum.splits simp: ret_def emit_def)

lemma sys_exit_eq: "sys_exit n = raise (NameError (msg_name_not_defined ''sys''))"
  unfolding sys_exit_def module_imports_def by simp

lemma check_events:
  assumes "check_bundle_exists L c key bid w = (r, evs, w')" and "ev \<in> set evs"
  shows "\<exists>cl rp. ev = Remote c cl rp \<and> (cl = DeployerGetProject key \<or> cl = ListBundles key)"
  using assms by (elim check_shape) auto

lemma ensure_events:
  assumes "ensure_bundle L cfg bid b w = (r, evs, w')" and "client_dev cfg = Some c"
    and "ev \<in> set evs"
  shows "(\<exists>s. ev = Print s) \<or>
         (\<exists>cl rp. ev = Remote c cl rp \<and>
            (cl = GetProject (DATAIKU_PROJECT_KEY cfg)
             \<or> cl = ExportBundle (DATAIKU_PROJECT_KEY cfg) bid
             \<or> cl = PublishBundle (DATAIKU_PROJECT_KEY cfg) bid))"
  using assms(1,2) apply (elim ensure_shape) using assms(3) by auto

lemma bind_events:
  assumes "bind_deployment L c cfg infra bid w = (r, evs, w')" and "ev \<in> set evs"
  shows "(\<exists>s. ev = Print s) \<or>
         (\<exists>cl rp. ev = Remote c cl rp \<and>
            (cl = GetDeployment (deployment_id_of cfg infra)
             \<or> (\<exists>h. cl = GetSettings h)
             \<or> (\<exists>h s. cl = Save h s \<and> settings_bundleId s = bid)
             \<or> cl = CreateDeployment (deployment_id_of cfg infra) (DATAIKU_PROJECT_KEY cfg) infra bid))"
  using assms(1) apply (elim bind_shape) using assms(2) by auto

lemma activate_events:
  assumes "activate L c infra bid h w = (r, evs, w')" and "ev \<in> set evs"
  shows "(\<exists>s. ev = Print s) \<or>
         (\<exists>cl rp. ev = Remote c cl rp \<and> (cl = StartUpdate h \<or> (\<exists>u. cl = WaitForResult u)))"
  using assms(1) apply (elim activate_shape) using assms(2) by auto

text \<open>Every event of a reconciliation is a message or a call through the dev client.\<close>

lemma reconcile_events:
  assumes "reconcile L cfg infra bid w = (r, evs, w')" and "ev \<in> set evs"
  shows "(\<exists>s. ev = Print s) \<or> (\<exists>c cl rp. ev = Remote c cl rp \<and> client_dev cfg = Some c)"
proof (cases "client_dev cfg")
  case None
  with assms show ?thesis by (simp add: reconcile_no_client)
next
  case (Some c)
  from assms(1) Some show ?thesis
  proof (cases rule: reconcile_cases)
    case (no_deployer m)
    with assms(2) Some show ?thesis by auto
  next
    case (bundle_failed w0 b e1 w1 e e2)
    with assms(2) Some check_events[OF bundle_failed(1)] ensure_events[OF bundle_failed(2) Some]
    show ?thesis by (auto; blast)
  next
    case (binding_failed w0 b e1 w1 e2 w2 e e3)
    with assms(2) Some check_events[OF binding_failed(1)] ensure_events[OF binding_failed(2) Some]
      bind_events[OF binding_failed(3)]
    show ?thesis by (auto; blast)
  next
    case (bound w0 b e1 w1 e2 w2 h e3 w3 e4)
    with assms(2) Some check_events[OF bound(1)] ensure_events[OF bound(2) Some]
      bind_events[OF bound(3)] activate_events[OF bound(4)]
    show ?thesis by (auto; blast)
  qed
qed

lemma in_remote_calls: "cl \<in> set (remote_calls evs) \<longleftrightarrow> (\<exists>c rp. Remote c cl rp \<in> set evs)"
proof -
  have "cl \<in> set (call_of ev) \<longleftrightarrow> (\<exists>c rp. ev = Remote c cl rp)" for ev
    by (cases ev) auto
  then show ?thesis unfolding remote_calls_def by auto
qed

lemma in_clients_used:
  "c \<in> set (clients_used (evs :: ('h, 'z) event list)) \<longleftrightarrow> (\<exists>cl rp. Remote c cl rp \<in> set evs)"
proof -
  have "c \<in> set (client_of ev) \<longleftrightarrow> (\<exists>cl rp. ev = Remote c cl rp)" for ev :: "('h, 'z) event"
    by (cases ev) auto
  then show ?thesis unfolding clients_used_def by auto
qed

lemma remote_calls_simps [simp]:
  "remote_calls [] = []"
  "remote_calls (Remote c cl rp # evs) = cl # remote_calls evs"
  "remote_calls (Print s # evs) = remote_calls evs"
  "remote_calls (DeployCalled i # evs) = remote_calls evs"
  "remote_calls (GitRevParse out # evs) = remote_calls evs"
  "remote_calls (Traceback e # evs) = remote_calls evs"
  "remote_calls (RunScript sp url key pk res # evs) = remote_calls evs"
  "remote_calls (evs @ evs') = remote_calls evs @ remote_calls evs'"
  by (simp_all add: remote_calls_def)

lemma failure_report_prints: "ev \<in> set (failure_report r) \<Longrightarrow> \<exists>s. ev = Print s"
  by (auto simp: failure_report_def split: sum.splits option.splits)

lemma remote_calls_failure_report [simp]: "remote_calls (failure_report r) = []"
  by (auto simp: failure_report_def split: sum.splits option.splits)

text \<open>A run of \<open>deploy\<close>: what it reads from git, and the reconciliation inside it.\<close>

lemma deploy_run:
  assumes "deploy L cfg infra w = (r, evs, w')"
  obtains out w0 e1 where
    "git_rev_parse L w = (out, w0)"
    "reconcile L cfg infra (generate_bundle_id (commit_id_of out)) w0 = (r, e1, w')"
    "evs = DeployCalled infra # GitRevParse out # e1 @ failure_report r"
    "\<And>c cl rp. Remote c cl rp \<in> set evs \<longleftrightarrow> Remote c cl rp \<in> set e1"
    "remote_calls evs = remote_calls e1"
    "\<And>out'. GitRevParse out' \<in> set evs \<longleftrightarrow> out' = out"
    "\<And>i. DeployCalled i \<in> set evs \<longleftrightarrow> i = infra"
proof -
  from assms obtain out w0 e1 where
    git: "git_rev_parse L w = (out, w0)" and
    rec: "reconcile L cfg infra (generate_bundle_id (commit_id_of out)) w0 = (r, e1, w')" and
    evs: "evs = DeployCalled infra # GitRevParse out # e1 @ failure_report r"
    by (rule deploy_cases)
  have inner: "(\<exists>s. ev = Print s) \<or> (\<exists>c cl rp. ev = Remote c cl rp)" if "ev \<in> set e1" for ev
    using reconcile_events[OF rec that] by auto
  have a: "Remote c cl rp \<in> set evs \<longleftrightarrow> Remote c cl rp \<in> set e1" for c cl rp
    using evs failure_report_prints[of "Remote c cl rp" r] by auto
  have b: "remote_calls evs = remote_calls e1" using evs by simp
  have c: "GitRevParse out' \<in> set evs \<longleftrightarrow> out' = out" for out'
    using evs inner[of "GitRevParse out'"] failure_report_prints[of "GitRevParse out'" r] by auto
  have d: "DeployCalled i \<in> set evs \<longleftrightarrow> i = infra" for i
    using evs inner[of "DeployCalled i"] failure_report_prints[of "DeployCalled i" r] by auto
  from git rec evs a b c d that show thesis by blast
qed

section \<open>Runs against the reference deployer\<close>


lemmas sim_defs = sim_library_def sim_list_bundles_def sim_export_bundle_def sim_publish_bundle_def
  sim_get_deployment_def sim_get_settings_def sim_save_def sim_create_deployment_def
  sim_start_update_def sim_wait_for_result_def sim_run_script_def

lemmas prog_defs = ret_def raise_def emit_def then_do_def try_except_def except_all_def
  except_Exception_def remote_call_def with_client_def

lemmas deploy_defs = deploy_def deploy_body_def reconcile_def check_bundle_exists_def
  ensure_bundle_def export_step_def bind_deployment_def activate_def get_git_sha_def
  generate_bundle_id_def deployment_id_of_def client_dev_def get_client_def py_not_def py_str_def
  strip_def is_space_def

lemma client_dev_example [simp]: "client_dev cfg_example = Some dev_client"
  by (simp add: client_dev_def get_client_def py_not_def cfg_example_def dev_client_def)

lemma bundle_id_example: "generate_bundle_id (commit_id_of (Inr (''abc1234'' @ [CHR 0x0A]))) = ''bundle_abc1234''"
  by (simp add: generate_bundle_id_def commit_id_of_def strip_def is_space_def)

lemma run_first:
  "deploy sim_library cfg_example ''staging'' sim_fresh =
     (Inr (),
      [DeployCalled ''staging'', GitRevParse (Inr (''abc1234'' @ [CHR 0x0A])),
       Remote dev_client GetProjectDeployer (Inr Done),
       Remote dev_client (DeployerGetProject (Some ''myproj'')) (Inr Done),
       Remote dev_client (ListBundles (Some ''myproj'')) (Inl ''Project not found in deployer''),
       Print (msg_bundle_not_found ''bundle_abc1234''),
       Remote dev_client (GetProject (Some ''myproj'')) (Inr Done),
       Remote dev_client (ExportBundle (Some ''myproj'') ''bundle_abc1234'') (Inr Done),
       Remote dev_client (PublishBundle (Some ''myproj'') ''bundle_abc1234'') (Inr Done),
       Print (msg_published ''bundle_abc1234''),
       Print (msg_preparing ''deploy_myproj_staging'' ''staging''),
       Remote dev_client (GetDeployment ''deploy_myproj_staging'') (Inl ''Deployment not found''),
       Print msg_creating,
       Remote dev_client
         (CreateDeployment ''deploy_myproj_staging'' (Some ''myproj'') ''staging'' ''bundle_abc1234'')
         (Inr (Handle ''deploy_myproj_staging'')),
       Print (msg_activating ''staging''),
       Remote dev_client (StartUpdate ''deploy_myproj_staging'') (Inr (Handle ''deploy_myproj_staging'')),
       Remote dev_client (WaitForResult ''deploy_myproj_staging'') (Inr (Result Success)),
       Print (msg_success ''bundle_abc1234'' ''staging'')],
      sim_deployed)"
  by (simp add: deploy_defs prog_defs sim_defs sim_fresh_def sim_deployed_def cfg_example_def dev_client_def fun_eq_iff)

lemma run_second:
  "deploy sim_library cfg_example ''staging'' sim_deployed =
     (Inr (),
      [DeployCalled ''staging'', GitRevParse (Inr (''abc1234'' @ [CHR 0x0A])),
       Remote dev_client GetProjectDeployer (Inr Done),
       Remote dev_client (DeployerGetProject (Some ''myproj'')) (Inr Done),
       Remote dev_client (ListBundles (Some ''myproj'')) (Inr (Bundles [bundle_dict ''bundle_abc1234''])),
       Print (msg_bundle_exists ''bundle_abc1234''),
       Print (msg_preparing ''deploy_myproj_staging'' ''staging''),
       Remote dev_client (GetDeployment ''deploy_myproj_staging'') (Inr (Handle ''deploy_myproj_staging'')),
       Remote dev_client (GetSettings ''deploy_myproj_staging'') (Inr (Settings \<lparr>settings_bundleId = ''bundle_abc1234''\<rparr>)),
       Remote dev_client (Save ''deploy_myproj_staging'' \<lparr>settings_bundleId = ''bundle_abc1234''\<rparr>) (Inr Done),
       Print (msg_updated ''bundle_abc1234''),
       Print (msg_activating ''staging''),
       Remote dev_client (StartUpdate ''deploy_myproj_staging'') (Inr (Handle ''deploy_myproj_staging'')),
       Remote dev_client (WaitForResult ''deploy_myproj_staging'') (Inr (Result Success)),
       Print (msg_success ''bundle_abc1234'' ''staging'')],
      sim_deployed)"
  by (simp add: deploy_defs prog_defs sim_defs sim_deployed_def cfg_example_def dev_client_def fun_eq_iff)

section \<open>Properties of the reconciliation\<close>

lemma get_client_Some:
  assumes "get_client cfg url token = Some c"
  shows "url = Some (client_host c) \<and> token = Some (client_api_key c) \<and> client_host c \<noteq> []
         \<and> client_api_key c \<noteq> [] \<and> no_check_certificate c
         \<and> client_certificate c = CLIENT_CERTIFICATE cfg"
  using assms unfolding get_client_def py_not_def
  by (auto split: if_splits option.splits)

lemma get_client_None: "py_not url \<or> py_not token \<Longrightarrow> get_client cfg url token = None"
  by (simp add: get_client_def)

text \<open>
  C10. Every library call of \<^verbatim>\<open>deploy\<close> goes through the client built at load time from the
  URL and the token of the dev instance. When either is unset or empty that client is
  \<^verbatim>\<open>None\<close>, and \<^verbatim>\<open>deploy\<close> raises the \<^verbatim>\<open>AttributeError\<close> of the first method call on it without
  having made a single library call, whatever the infrastructure it was asked to deploy to.
\<close>

theorem dev_client_precondition:
  assumes "deploy L cfg infra_id w = (r, evs, w')"
  shows "(\<forall>c \<in> set (clients_used evs).
            client_dev cfg = Some c
            \<and> DATAIKU_INSTANCE_DEV_URL cfg = Some (client_host c)
            \<and> DATAIKU_API_TOKEN_DEV cfg = Some (client_api_key c))
       \<and> (py_not (DATAIKU_INSTANCE_DEV_URL cfg) \<or> py_not (DATAIKU_API_TOKEN_DEV cfg)
            \<longrightarrow> client_dev cfg = None
              \<and> r = Inl (AttributeError (none_has_no_attribute ''get_projectdeployer''))
              \<and> remote_calls evs = [])"
proof -
  from assms obtain out w0 e1 where
    rec: "reconcile L cfg infra_id (generate_bundle_id (commit_id_of out)) w0 = (r, e1, w')" and
    rem: "\<And>c cl rp. Remote c cl rp \<in> set evs \<longleftrightarrow> Remote c cl rp \<in> set e1" and
    calls: "remote_calls evs = remote_calls e1"
    by (elim deploy_run) blast
  have "client_dev cfg = Some c
        \<and> DATAIKU_INSTANCE_DEV_URL cfg = Some (client_host c)
        \<and> DATAIKU_API_TOKEN_DEV cfg = Some (client_api_key c)"
    if "c \<in> set (clients_used evs)" for c
  proof -
    from that obtain cl rp where "Remote c cl rp \<in> set e1"
      by (auto simp: in_clients_used rem)
    from reconcile_events[OF rec this] have dev: "client_dev cfg = Some c" by auto
    then show ?thesis using get_client_Some[of cfg _ _ c] by (simp add: client_dev_def)
  qed
  moreover have "client_dev cfg = None
              \<and> r = Inl (AttributeError (none_has_no_attribute ''get_projectdeployer''))
              \<and> remote_calls evs = []"
    if "py_not (DATAIKU_INSTANCE_DEV_URL cfg) \<or> py_not (DATAIKU_API_TOKEN_DEV cfg)"
  proof -
    from that have none: "client_dev cfg = None"
      by (simp add: client_dev_def get_client_None)
    with rec calls show ?thesis by (simp add: reconcile_no_client)
  qed
  ultimately show ?thesis by blast
qed

lemma run_no_dev:
  "deploy sim_library cfg_no_dev ''prod'' sim_fresh =
     (Inl (AttributeError (none_has_no_attribute ''get_projectdeployer'')),
      [DeployCalled ''prod'', GitRevParse (Inr (''abc1234'' @ [CHR 0x0A])),
       Print (msg_failed_to_deploy (none_has_no_attribute ''get_projectdeployer''))],
      sim_fresh)"
  by (simp add: deploy_defs prog_defs sim_defs sim_fresh_def cfg_no_dev_def cfg_example_def)

theorem dev_client_precondition_witness:
  "py_not (DATAIKU_API_TOKEN_DEV cfg_no_dev)
   \<and> fst (deploy sim_library cfg_no_dev ''prod'' sim_fresh)
       = Inl (AttributeError (none_has_no_attribute ''get_projectdeployer''))
   \<and> remote_calls (fst (snd (deploy sim_library cfg_no_dev ''prod'' sim_fresh))) = []
   \<and> set (clients_used (fst (snd (deploy sim_library cfg_example ''staging'' sim_fresh))))
       = {dev_client}
   \<and> client_dev cfg_example = Some dev_client"
proof -
  have unset: "py_not (DATAIKU_API_TOKEN_DEV cfg_no_dev)"
    by (simp add: cfg_no_dev_def py_not_def)
  show ?thesis
    using dev_client_precondition[OF run_no_dev] dev_client_precondition[OF run_first] unset
    by (simp add: run_no_dev run_first clients_used_def)
qed

lemma reconcile_skip:
  assumes rec: "reconcile L cfg infra bid w = (r, evs, w')"
    and listing: "Remote c (ListBundles key) (Inr (Bundles bs)) \<in> set evs"
    and listed: "bundle_listed bs bid = Inr True"
  shows "\<forall>cl \<in> set (remote_calls evs). \<not> is_export cl \<and> \<not> is_publish cl"
proof -
  from reconcile_events[OF rec listing] have client: "client_dev cfg = Some c" by auto
  have check_b: "b" if "check_bundle_exists L c (DATAIKU_PROJECT_KEY cfg) bid w0 = (Inr b, e1, w1)"
    and "Remote c (ListBundles key) (Inr (Bundles bs)) \<in> set e1" for w0 b e1 w1
    using that listed by (elim check_shape) auto
  have not_ensure: "Remote c (ListBundles key) (Inr (Bundles bs)) \<notin> set e2"
    if "ensure_bundle L cfg bid b w1 = (r2, e2, w2)" for b w1 r2 e2 w2
    using ensure_events[OF that client] by auto
  have not_bind: "Remote c (ListBundles key) (Inr (Bundles bs)) \<notin> set e3"
    if "bind_deployment L c cfg infra bid w2 = (r3, e3, w3)" for w2 r3 e3 w3
    using bind_events[OF that] by auto
  have not_act: "Remote c (ListBundles key) (Inr (Bundles bs)) \<notin> set e4"
    if "activate L c infra bid h w3 = (r4, e4, w4)" for h w3 r4 e4 w4
    using activate_events[OF that] by auto
  have skip: "e2 = [Print (msg_bundle_exists bid)] \<and> r2 = Inr ()"
    if "ensure_bundle L cfg bid True w1 = (r2, e2, w2)" for w1 r2 e2 w2
    using that client by (elim ensure_shape) auto
  have calls_check: "\<forall>cl \<in> set (remote_calls e1). \<not> is_export cl \<and> \<not> is_publish cl"
    if "check_bundle_exists L c (DATAIKU_PROJECT_KEY cfg) bid w0 = (rb, e1, w1)" for w0 rb e1 w1
    using check_events[OF that] by (fastforce simp: in_remote_calls)
  have calls_bind: "\<forall>cl \<in> set (remote_calls e3). \<not> is_export cl \<and> \<not> is_publish cl"
    if "bind_deployment L c cfg infra bid w2 = (r3, e3, w3)" for w2 r3 e3 w3
    using bind_events[OF that] by (fastforce simp: in_remote_calls)
  have calls_act: "\<forall>cl \<in> set (remote_calls e4). \<not> is_export cl \<and> \<not> is_publish cl"
    if "activate L c infra bid h w3 = (r4, e4, w4)" for h w3 r4 e4 w4
    using activate_events[OF that] by (fastforce simp: in_remote_calls)
  from rec client show ?thesis
  proof (cases rule: reconcile_cases)
    case (no_deployer m)
    then show ?thesis by simp
  next
    case (bundle_failed w0 b e1 w1 e e2)
    with listing not_ensure[OF bundle_failed(2)] check_b[OF bundle_failed(1)] have "b" by auto
    with skip bundle_failed(2) show ?thesis by auto
  next
    case (binding_failed w0 b e1 w1 e2 w2 e e3)
    with listing not_ensure[OF binding_failed(2)] not_bind[OF binding_failed(3)]
      check_b[OF binding_failed(1)] have "b" by auto
    with skip binding_failed(2) have "e2 = [Print (msg_bundle_exists bid)]" by auto
    with binding_failed calls_check[OF binding_failed(1)] calls_bind[OF binding_failed(3)]
    show ?thesis by auto
  next
    case (bound w0 b e1 w1 e2 w2 h e3 w3 e4)
    with listing not_ensure[OF bound(2)] not_bind[OF bound(3)] not_act[OF bound(4)]
      check_b[OF bound(1)] have "b" by auto
    with skip bound(2) have "e2 = [Print (msg_bundle_exists bid)]" by auto
    with bound calls_check[OF bound(1)] calls_bind[OF bound(3)] calls_act[OF bound(4)]
    show ?thesis by auto
  qed
qed

text \<open>
  C6. Bundle-export skip (amended): when the listing of the project's bundles in the
  deployer comes back, some item of it names the bundle identifier computed in this run,
  and every item ahead of the first such one can be read at the key \<^verbatim>\<open>bundleId\<close>, the run makes
  no export call and no publish call.
\<close>

theorem bundle_export_skip:
  assumes "deploy L cfg infra_id w = (r, evs, w')"
    and "GitRevParse out \<in> set evs"
    and "Remote c (ListBundles key) (Inr (Bundles bundles)) \<in> set evs"
    and "\<exists>b \<in> set bundles. names_bundle b (generate_bundle_id (commit_id_of out))"
    and "\<forall>b \<in> set (entries_before bundles (generate_bundle_id (commit_id_of out))).
           has_bundleId b"
  shows "\<forall>cl \<in> set (remote_calls evs). \<not> is_export cl \<and> \<not> is_publish cl"
proof -
  from assms(1) obtain out0 w0 e1 where
    rec: "reconcile L cfg infra_id (generate_bundle_id (commit_id_of out0)) w0 = (r, e1, w')" and
    rem: "\<And>c cl rp. Remote c cl rp \<in> set evs \<longleftrightarrow> Remote c cl rp \<in> set e1" and
    calls: "remote_calls evs = remote_calls e1" and
    git: "\<And>out'. GitRevParse out' \<in> set evs \<longleftrightarrow> out' = out0"
    by (elim deploy_run) blast
  from git assms(2) have out: "out0 = out" by simp
  from assms(4,5) have found: "bundle_listed bundles (generate_bundle_id (commit_id_of out)) = Inr True"
    by (simp add: bundle_listed_found)
  from assms(3) rem have "Remote c (ListBundles key) (Inr (Bundles bundles)) \<in> set e1" by simp
  from reconcile_skip[OF rec[unfolded out] this found] calls show ?thesis by simp
qed

theorem bundle_export_skip_witness:
  "GitRevParse (Inr (''abc1234'' @ [CHR 0x0A]))
     \<in> set (fst (snd (deploy sim_library cfg_example ''staging'' sim_deployed)))
   \<and> Remote dev_client (ListBundles (Some ''myproj'')) (Inr (Bundles [bundle_dict ''bundle_abc1234'']))
     \<in> set (fst (snd (deploy sim_library cfg_example ''staging'' sim_deployed)))
   \<and> names_bundle (bundle_dict ''bundle_abc1234'')
       (generate_bundle_id (commit_id_of (Inr (''abc1234'' @ [CHR 0x0A]))))
   \<and> entries_before [bundle_dict ''bundle_abc1234'']
       (generate_bundle_id (commit_id_of (Inr (''abc1234'' @ [CHR 0x0A])))) = []
   \<and> filter is_export
         (remote_calls (fst (snd (deploy sim_library cfg_example ''staging'' sim_deployed)))) = []
   \<and> filter is_publish
         (remote_calls (fst (snd (deploy sim_library cfg_example ''staging'' sim_deployed)))) = []"
  using bundle_export_skip[OF run_second, of "Inr (''abc1234'' @ [CHR 0x0A])" dev_client
      "Some ''myproj''" "[bundle_dict ''bundle_abc1234'']"] bundle_id_example
  by (simp add: run_second names_bundle_def entries_before_def generate_bundle_id_def
        commit_id_of_def strip_def is_space_def)

text \<open>
  The claim as first stated fails when an item that cannot be read at the key comes ahead
  of the one that names the bundle: the \<^verbatim>\<open>KeyError\<close> of the loop ends the check under its bare
  \<^verbatim>\<open>except\<close>, and the bundle, although listed, is exported and published again.
\<close>

lemma run_mixed:
  "deploy sim_mixed_library cfg_example ''staging'' sim_deployed =
     (Inl (LibraryError ''Bundle is already published''),
      [DeployCalled ''staging'', GitRevParse (Inr (''abc1234'' @ [CHR 0x0A])),
       Remote dev_client GetProjectDeployer (Inr Done),
       Remote dev_client (DeployerGetProject (Some ''myproj'')) (Inr Done),
       Remote dev_client (ListBundles (Some ''myproj''))
         (Inr (Bundles [Dict [''id'' \<mapsto> Str ''bundle_0000000''], bundle_dict ''bundle_abc1234''])),
       Print (msg_bundle_not_found ''bundle_abc1234''),
       Remote dev_client (GetProject (Some ''myproj'')) (Inr Done),
       Remote dev_client (ExportBundle (Some ''myproj'') ''bundle_abc1234'') (Inl ''Bundle already exists''),
       Print msg_bundle_in_project,
       Remote dev_client (PublishBundle (Some ''myproj'') ''bundle_abc1234'')
         (Inl ''Bundle is already published''),
       Print (msg_failed_to_deploy ''Bundle is already published'')],
      sim_deployed)"
  by (simp add: deploy_defs prog_defs sim_defs sim_mixed_library_def subscript_def
        sim_deployed_def cfg_example_def dev_client_def)

theorem listed_bundle_exported_counterexample:
  "Remote dev_client (ListBundles (Some ''myproj''))
       (Inr (Bundles [Dict [''id'' \<mapsto> Str ''bundle_0000000''], bundle_dict ''bundle_abc1234'']))
     \<in> set (fst (snd (deploy sim_mixed_library cfg_example ''staging'' sim_deployed)))
   \<and> GitRevParse (Inr (''abc1234'' @ [CHR 0x0A]))
     \<in> set (fst (snd (deploy sim_mixed_library cfg_example ''staging'' sim_deployed)))
   \<and> names_bundle (bundle_dict ''bundle_abc1234'')
       (generate_bundle_id (commit_id_of (Inr (''abc1234'' @ [CHR 0x0A]))))
   \<and> filter is_export
         (remote_calls (fst (snd (deploy sim_mixed_library cfg_example ''staging'' sim_deployed))))
       = [ExportBundle (Some ''myproj'') ''bundle_abc1234'']
   \<and> filter is_publish
         (remote_calls (fst (snd (deploy sim_mixed_library cfg_example ''staging'' sim_deployed))))
       = [PublishBundle (Some ''myproj'') ''bundle_abc1234'']"
  by (simp add: run_mixed names_bundle_def generate_bundle_id_def commit_id_of_def strip_def
        is_space_def)

lemma sublist_in_run:
  assumes "sublist xs e"
  shows "sublist xs (pre @ e @ post)"
proof -
  from assms obtain ps ss where "e = ps @ xs @ ss" by (auto simp: sublist_def)
  then have "pre @ e @ post = (pre @ ps) @ xs @ (ss @ post)" by simp
  then show ?thesis unfolding sublist_def by blast
qed

lemma sublist_in_deploy:
  assumes "sublist xs e"
  shows "sublist xs (a # b # e @ post)"
  using sublist_in_run[OF assms, of "[a, b]" post] by simp

text \<open>The check after a failed lookup, and the branch that follows it.\<close>

lemma check_failed:
  assumes "check_bundle_exists L c key bid w = (r, evs, w')"
    and "Remote c' cl (Inl m) \<in> set evs"
  shows "r = Inr False \<and> (\<exists>pre. evs = pre @ [Remote c' cl (Inl m)])"
  using assms(1) apply (elim check_shape) using assms(2) by auto

text \<open>
  The failed call is the last event of the check, and the branch on \<^verbatim>\<open>bundle_exists\<close> runs
  next, with \<^verbatim>\<open>False\<close>: whatever that branch begins with follows the failed call directly.
\<close>

lemma reconcile_listing_failure:
  assumes rec: "reconcile L cfg infra bid w = (r, evs, w')"
    and failed: "Remote c cl (Inl m) \<in> set evs"
    and kind: "cl = DeployerGetProject key \<or> cl = ListBundles key"
  obtains w1 r2 e2 w2 where
    "client_dev cfg = Some c"
    "ensure_bundle L cfg bid False w1 = (r2, e2, w2)"
    "\<And>seg. prefix seg e2 \<Longrightarrow> sublist (Remote c cl (Inl m) # seg) evs"
    "\<And>e. r2 = Inl e \<Longrightarrow> r = Inl e"
proof -
  from reconcile_events[OF rec failed] have client: "client_dev cfg = Some c" by auto
  have step: "\<not> b \<and> (\<forall>seg. prefix seg e2 \<longrightarrow> sublist (Remote c cl (Inl m) # seg) (e1 @ e2))"
    if chk: "check_bundle_exists L c (DATAIKU_PROJECT_KEY cfg) bid w0 = (Inr b, e1, w1)"
      and ens: "ensure_bundle L cfg bid b w1 = (r2, e2, w2)"
      and inside: "Remote c cl (Inl m) \<in> set e1 \<union> set e2"
    for w0 b e1 w1 r2 e2 w2
  proof -
    from inside ensure_events[OF ens client] kind have in1: "Remote c cl (Inl m) \<in> set e1"
      by auto
    from check_failed[OF chk in1] obtain pre where b: "\<not> b" and e1: "e1 = pre @ [Remote c cl (Inl m)]"
      by auto
    have "sublist (Remote c cl (Inl m) # seg) (e1 @ e2)" if "prefix seg e2" for seg
    proof -
      from that obtain post where "e2 = seg @ post" by (auto simp: prefix_def)
      with e1 have "e1 @ e2 = pre @ (Remote c cl (Inl m) # seg) @ post" by simp
      then show ?thesis unfolding sublist_def by blast
    qed
    with b show ?thesis by blast
  qed
  from rec client show thesis
  proof (cases rule: reconcile_cases)
    case (no_deployer m')
    with failed kind show ?thesis by auto
  next
    case (bundle_failed w0 b e1 w1 e e2)
    with failed have "Remote c cl (Inl m) \<in> set e1 \<union> set e2" using kind by auto
    from step[OF bundle_failed(1,2) this] have b: "\<not> b"
      and seg: "\<And>seg. prefix seg e2 \<Longrightarrow> sublist (Remote c cl (Inl m) # seg) (e1 @ e2)" by auto
    have "sublist (Remote c cl (Inl m) # seg) evs" if "prefix seg e2" for seg
      using sublist_in_run[OF seg[OF that], of "[Remote c GetProjectDeployer (Inr Done)]" "[]"]
        bundle_failed(3) by simp
    with that[OF client, of w1 "Inl e" e2 w'] bundle_failed(2,4) b show ?thesis by simp
  next
    case (binding_failed w0 b e1 w1 e2 w2 e e3)
    with failed bind_events[OF binding_failed(3)] have "Remote c cl (Inl m) \<in> set e1 \<union> set e2"
      using kind by auto
    from step[OF binding_failed(1,2) this] have b: "\<not> b"
      and seg: "\<And>seg. prefix seg e2 \<Longrightarrow> sublist (Remote c cl (Inl m) # seg) (e1 @ e2)" by auto
    have "sublist (Remote c cl (Inl m) # seg) evs" if "prefix seg e2" for seg
      using sublist_in_run[OF seg[OF that], of "[Remote c GetProjectDeployer (Inr Done)]"
        "Print (msg_preparing (deployment_id_of cfg infra) infra) # e3"] binding_failed(4) by simp
    with that[OF client, of w1 "Inr ()" e2 w2] binding_failed(2) b show ?thesis by simp
  next
    case (bound w0 b e1 w1 e2 w2 h e3 w3 e4)
    with failed bind_events[OF bound(3)] activate_events[OF bound(4)]
    have "Remote c cl (Inl m) \<in> set e1 \<union> set e2"
      using kind by auto
    from step[OF bound(1,2) this] have b: "\<not> b"
      and seg: "\<And>seg. prefix seg e2 \<Longrightarrow> sublist (Remote c cl (Inl m) # seg) (e1 @ e2)" by auto
    have "sublist (Remote c cl (Inl m) # seg) evs" if "prefix seg e2" for seg
      using sublist_in_run[OF seg[OF that], of "[Remote c GetProjectDeployer (Inr Done)]"
        "Print (msg_preparing (deployment_id_of cfg infra) infra) # e3 @ e4"] bound(5) by simp
    with that[OF client, of w1 "Inr ()" e2 w2] bound(2) b show ?thesis by simp
  qed
qed

text \<open>The export and publish branch, as far as each of its ways goes.\<close>

lemma absent_branch:
  assumes ens: "ensure_bundle L cfg bid False w1 = (r2, e2, w2)"
    and client: "client_dev cfg = Some c"
    and seg: "\<And>seg. prefix seg e2 \<Longrightarrow> sublist (f # seg) evs"
    and res: "\<And>e. r2 = Inl e \<Longrightarrow> r = Inl e"
  shows "(\<exists>m'. sublist [f, Print (msg_bundle_not_found bid),
                          Remote c (GetProject (DATAIKU_PROJECT_KEY cfg)) (Inl m')] evs
              \<and> r = Inl (LibraryError m'))
       \<or> (\<exists>m'. \<not> contains m' ''already exists''
              \<and> sublist [f, Print (msg_bundle_not_found bid),
                          Remote c (GetProject (DATAIKU_PROJECT_KEY cfg)) (Inr Done),
                          Remote c (ExportBundle (DATAIKU_PROJECT_KEY cfg) bid) (Inl m')] evs
              \<and> r = Inl (LibraryError m'))
       \<or> (\<exists>p. sublist [f, Print (msg_bundle_not_found bid),
                         Remote c (GetProject (DATAIKU_PROJECT_KEY cfg)) (Inr Done),
                         Remote c (ExportBundle (DATAIKU_PROJECT_KEY cfg) bid) (Inr Done),
                         Remote c (PublishBundle (DATAIKU_PROJECT_KEY cfg) bid) p] evs)
       \<or> (\<exists>m' p. contains m' ''already exists''
              \<and> sublist [f, Print (msg_bundle_not_found bid),
                          Remote c (GetProject (DATAIKU_PROJECT_KEY cfg)) (Inr Done),
                          Remote c (ExportBundle (DATAIKU_PROJECT_KEY cfg) bid) (Inl m'),
                          Print msg_bundle_in_project,
                          Remote c (PublishBundle (DATAIKU_PROJECT_KEY cfg) bid) p] evs)"
  using ens client
proof (cases rule: ensure_shape)
  case skipped
  then show ?thesis by simp
next
  case (no_project m')
  with seg[of e2] res[of "LibraryError m'"] show ?thesis by auto
next
  case (export_failed m')
  with seg[of e2] res[of "LibraryError m'"] show ?thesis by auto
next
  case (exported_publish_failed m')
  with seg[of e2] show ?thesis by auto
next
  case exported_published
  with seg[of "butlast e2"] show ?thesis by auto
next
  case (conflict_publish_failed m' m'')
  with seg[of e2] show ?thesis by auto
next
  case (conflict_published m')
  with seg[of "butlast e2"] show ?thesis by auto
qed

text \<open>
  C8. Expected absence at the bundle-existence check: when the lookup of the project
  in the deployer or the listing of its bundles raises, the run goes on into the export
  and publish branch. Directly after the failed call it reports the bundle as not found and
  fetches the project; once the project is fetched it calls export for the bundle
  identifier of the run; and once the export has returned, or has raised with a text that
  contains \<^verbatim>\<open>already exists\<close>, it calls publish for that identifier. The run ends before
  publish only by the failure of the project fetch or of the export, never by that of the
  check, which does not raise whatever the library does.
\<close>

theorem listing_failure_tolerated:
  assumes "deploy L cfg infra_id w = (r, evs, w')"
    and "GitRevParse out \<in> set evs"
    and "Remote c cl (Inl m) \<in> set evs"
    and "cl = DeployerGetProject key \<or> cl = ListBundles key"
  shows "((\<exists>m'. sublist [Remote c cl (Inl m),
                           Print (msg_bundle_not_found (generate_bundle_id (commit_id_of out))),
                           Remote c (GetProject (DATAIKU_PROJECT_KEY cfg)) (Inl m')] evs
               \<and> r = Inl (LibraryError m'))
        \<or> (\<exists>m'. \<not> contains m' ''already exists''
               \<and> sublist [Remote c cl (Inl m),
                           Print (msg_bundle_not_found (generate_bundle_id (commit_id_of out))),
                           Remote c (GetProject (DATAIKU_PROJECT_KEY cfg)) (Inr Done),
                           Remote c (ExportBundle (DATAIKU_PROJECT_KEY cfg)
                                       (generate_bundle_id (commit_id_of out))) (Inl m')] evs
               \<and> r = Inl (LibraryError m'))
        \<or> (\<exists>p. sublist [Remote c cl (Inl m),
                          Print (msg_bundle_not_found (generate_bundle_id (commit_id_of out))),
                          Remote c (GetProject (DATAIKU_PROJECT_KEY cfg)) (Inr Done),
                          Remote c (ExportBundle (DATAIKU_PROJECT_KEY cfg)
                                      (generate_bundle_id (commit_id_of out))) (Inr Done),
                          Remote c (PublishBundle (DATAIKU_PROJECT_KEY cfg)
                                      (generate_bundle_id (commit_id_of out))) p] evs)
        \<or> (\<exists>m' p. contains m' ''already exists''
               \<and> sublist [Remote c cl (Inl m),
                           Print (msg_bundle_not_found (generate_bundle_id (commit_id_of out))),
                           Remote c (GetProject (DATAIKU_PROJECT_KEY cfg)) (Inr Done),
                           Remote c (ExportBundle (DATAIKU_PROJECT_KEY cfg)
                                       (generate_bundle_id (commit_id_of out))) (Inl m'),
                           Print msg_bundle_in_project,
                           Remote c (PublishBundle (DATAIKU_PROJECT_KEY cfg)
                                       (generate_bundle_id (commit_id_of out))) p] evs))
       \<and> (\<exists>b e1 w1. check_bundle_exists L c key' bid w0 = (Inr b, e1, w1))"
proof -
  from assms(1) obtain out0 wg e1 where
    rec: "reconcile L cfg infra_id (generate_bundle_id (commit_id_of out0)) wg = (r, e1, w')" and
    evs: "evs = DeployCalled infra_id # GitRevParse out0 # e1 @ failure_report r" and
    rem: "\<And>c cl rp. Remote c cl rp \<in> set evs \<longleftrightarrow> Remote c cl rp \<in> set e1" and
    git: "\<And>out'. GitRevParse out' \<in> set evs \<longleftrightarrow> out' = out0"
    by (elim deploy_run) blast
  from git assms(2) have out: "out0 = out" by simp
  from assms(3) rem have failed: "Remote c cl (Inl m) \<in> set e1" by simp
  from rec[unfolded out] failed assms(4) show ?thesis
  proof (rule reconcile_listing_failure)
    fix w1 r2 e2 w2
    assume client: "client_dev cfg = Some c"
      and ens: "ensure_bundle L cfg (generate_bundle_id (commit_id_of out)) False w1 = (r2, e2, w2)"
      and seg: "\<And>seg. prefix seg e2 \<Longrightarrow> sublist (Remote c cl (Inl m) # seg) e1"
      and res: "\<And>e. r2 = Inl e \<Longrightarrow> r = Inl e"
    have seg': "sublist (Remote c cl (Inl m) # seg) evs" if "prefix seg e2" for seg
      using sublist_in_deploy[OF seg[OF that]] evs by simp
    from absent_branch[OF ens client seg' res] check_never_raises[of L c key' bid w0]
    show ?thesis by blast
  qed
qed












text \<open>How each step ends: C5 and C9.\<close>

lemma check_absorbs:
  assumes "check_bundle_exists L c key bid w = (r, evs, w')"
    and "Remote c' cl (Inl m) \<in> set evs"
  shows "absorbed cl m"
  using assms(1) apply (elim check_shape) using assms(2) by auto

lemma ensure_outcome:
  assumes "ensure_bundle L cfg bid b w = (r, evs, w')" and "client_dev cfg = Some c"
  shows "(r = Inl e \<longrightarrow>
            (\<exists>cl m. e = LibraryError m \<and> \<not> absorbed cl m \<and> suffix [Remote c cl (Inl m)] evs))
       \<and> (Remote c' cl' (Inl m') \<in> set evs \<and> \<not> absorbed cl' m' \<longrightarrow> r = Inl (LibraryError m'))"
  using assms by (elim ensure_shape) (auto simp: suffix_Cons)

lemma bind_outcome:
  assumes "bind_deployment L c cfg infra bid w = (r, evs, w')"
  shows "(r = Inl e \<longrightarrow>
            (\<exists>cl m. e = LibraryError m \<and> \<not> absorbed cl m \<and> suffix [Remote c cl (Inl m)] evs))
       \<and> (Remote c' cl' (Inl m') \<in> set evs \<and> \<not> absorbed cl' m' \<longrightarrow> r = Inl (LibraryError m'))"
  using assms by (elim bind_shape) (auto simp: suffix_Cons)

lemma bind_looks_up:
  assumes "bind_deployment L c cfg infra bid w = (r, evs, w')"
  shows "\<exists>g. Remote c (GetDeployment (deployment_id_of cfg infra)) g \<in> set evs"
  using assms by (elim bind_shape) auto

lemma activate_outcome:
  assumes "activate L c infra bid h w = (r, evs, w')"
  shows "(r = Inl e \<longrightarrow>
            (\<exists>cl m. e = LibraryError m \<and> \<not> absorbed cl m \<and> suffix [Remote c cl (Inl m)] evs))
       \<and> (Remote c' cl' (Inl m') \<in> set evs \<and> \<not> absorbed cl' m' \<longrightarrow> r = Inl (LibraryError m'))
       \<and> (Remote c' (WaitForResult u) (Inr (Result v)) \<in> set evs \<longrightarrow> r = Inr ())"
  using assms by (elim activate_shape) (auto simp: suffix_Cons)

lemma ensure_export_failed:
  assumes "ensure_bundle L cfg bid b w = (r, evs, w')" and "client_dev cfg = Some c"
    and "Remote c' (ExportBundle key bn) (Inl m) \<in> set evs"
  shows "key = DATAIKU_PROJECT_KEY cfg \<and> bn = bid \<and> hd evs = Print (msg_bundle_not_found bid)
       \<and> (contains m ''already exists'' \<longrightarrow>
            (\<exists>p. sublist [Remote c' (ExportBundle key bn) (Inl m), Print msg_bundle_in_project,
                          Remote c' (PublishBundle key bn) p] evs
                 \<and> (p = Inr Done \<longrightarrow> r = Inr ())))
       \<and> (\<not> contains m ''already exists'' \<longrightarrow>
            r = Inl (LibraryError m) \<and> suffix [Remote c' (ExportBundle key bn) (Inl m)] evs)"
  using assms(1,2) apply (elim ensure_shape) using assms(3)
  by (auto simp: suffix_Cons sublist_Cons_right)


lemma reconcile_export_failed:
  assumes rec: "reconcile L cfg infra bid w = (r, evs, w')"
    and failed: "Remote c (ExportBundle key bn) (Inl m) \<in> set evs"
  shows "key = DATAIKU_PROJECT_KEY cfg \<and> bn = bid \<and> Print (msg_bundle_not_found bid) \<in> set evs
       \<and> (contains m ''already exists'' \<longrightarrow>
            (\<exists>p. sublist [Remote c (ExportBundle key bn) (Inl m), Print msg_bundle_in_project,
                          Remote c (PublishBundle key bn) p] evs
                 \<and> (p = Inr Done \<longrightarrow>
                      (\<exists>g. Remote c (GetDeployment (deployment_id_of cfg infra)) g \<in> set evs))))
       \<and> (\<not> contains m ''already exists'' \<longrightarrow>
            r = Inl (LibraryError m) \<and> suffix [Remote c (ExportBundle key bn) (Inl m)] evs)"
proof -
  from reconcile_events[OF rec failed] have client: "client_dev cfg = Some c" by auto
  have hd_in: "hd xs \<in> set xs" if "x \<in> set xs" for x :: 'x and xs
    using that by (cases xs) auto
  from rec client show ?thesis
  proof (cases rule: reconcile_cases)
    case (no_deployer m')
    with failed show ?thesis by auto
  next
    case (bundle_failed w0 b e1 w1 e e2)
    from failed bundle_failed(3) check_events[OF bundle_failed(1)]
    have in2: "Remote c (ExportBundle key bn) (Inl m) \<in> set e2" by auto
    note ex = ensure_export_failed[OF bundle_failed(2) client in2]
    have sub: "sublist xs evs" if "sublist xs e2" for xs
      using sublist_in_run[OF that, of "Remote c GetProjectDeployer (Inr Done) # e1" "[]"]
        bundle_failed(3) by simp
    have suf: "suffix xs evs" if "suffix xs e2" for xs
      using suffix_appendI[OF that, of "Remote c GetProjectDeployer (Inr Done) # e1"]
        bundle_failed(3) by simp
    from ex hd_in[OF in2] bundle_failed(3,4) sub suf show ?thesis by auto
  next
    case (binding_failed w0 b e1 w1 e2 w2 e e3)
    from failed binding_failed(4) check_events[OF binding_failed(1)] bind_events[OF binding_failed(3)]
    have in2: "Remote c (ExportBundle key bn) (Inl m) \<in> set e2" by auto
    note ex = ensure_export_failed[OF binding_failed(2) client in2]
    have sub: "sublist xs evs" if "sublist xs e2" for xs
      using sublist_in_run[OF that, of "Remote c GetProjectDeployer (Inr Done) # e1"
          "Print (msg_preparing (deployment_id_of cfg infra) infra) # e3"]
        binding_failed(4) by simp
    from bind_looks_up[OF binding_failed(3)] binding_failed(4)
    have gd: "\<exists>g. Remote c (GetDeployment (deployment_id_of cfg infra)) g \<in> set evs" by auto
    from ex hd_in[OF in2] binding_failed(4) sub gd show ?thesis by auto
  next
    case (bound w0 b e1 w1 e2 w2 h e3 w3 e4)
    from failed bound(5) check_events[OF bound(1)] bind_events[OF bound(3)]
      activate_events[OF bound(4)]
    have in2: "Remote c (ExportBundle key bn) (Inl m) \<in> set e2" by auto
    note ex = ensure_export_failed[OF bound(2) client in2]
    have sub: "sublist xs evs" if "sublist xs e2" for xs
      using sublist_in_run[OF that, of "Remote c GetProjectDeployer (Inr Done) # e1"
          "Print (msg_preparing (deployment_id_of cfg infra) infra) # e3 @ e4"]
        bound(5) by simp
    from bind_looks_up[OF bound(3)] bound(5)
    have gd: "\<exists>g. Remote c (GetDeployment (deployment_id_of cfg infra)) g \<in> set evs" by auto
    from ex hd_in[OF in2] bound(5) sub gd show ?thesis by auto
  qed
qed

text \<open>
  C5. Conflict swallow at the export: an export is only called for the project and the
  bundle identifier of the run, after the bundle was reported as not found. When it raises
  with a text that contains \<^verbatim>\<open>already exists\<close>, the run reports that and calls publish next,
  and once publish has returned it goes on to look the deployment up. When it raises with
  any other text, \<^verbatim>\<open>deploy\<close> raises that exception and the failed export is the last call of
  the run.
\<close>

theorem conflict_swallow:
  assumes "deploy L cfg infra_id w = (r, evs, w')"
    and "GitRevParse out \<in> set evs"
    and "Remote c (ExportBundle key b) (Inl m) \<in> set evs"
  shows "key = DATAIKU_PROJECT_KEY cfg \<and> b = generate_bundle_id (commit_id_of out)
       \<and> Print (msg_bundle_not_found b) \<in> set evs
       \<and> (contains m ''already exists'' \<longrightarrow>
            (\<exists>p. sublist [Remote c (ExportBundle key b) (Inl m), Print msg_bundle_in_project,
                          Remote c (PublishBundle key b) p] evs
                 \<and> (p = Inr Done \<longrightarrow>
                      (\<exists>g. Remote c (GetDeployment (deployment_id_of cfg infra_id)) g \<in> set evs))))
       \<and> (\<not> contains m ''already exists'' \<longrightarrow>
            r = Inl (LibraryError m)
            \<and> suffix [Remote c (ExportBundle key b) (Inl m), Print (msg_failed_to_deploy m)] evs)"
proof -
  from assms(1) obtain out0 wg e1 where
    rec: "reconcile L cfg infra_id (generate_bundle_id (commit_id_of out0)) wg = (r, e1, w')" and
    evs: "evs = DeployCalled infra_id # GitRevParse out0 # e1 @ failure_report r" and
    rem: "\<And>c cl rp. Remote c cl rp \<in> set evs \<longleftrightarrow> Remote c cl rp \<in> set e1" and
    git: "\<And>out'. GitRevParse out' \<in> set evs \<longleftrightarrow> out' = out0"
    by (elim deploy_run) blast
  from git assms(2) have out: "out0 = out" by simp
  from assms(3) rem have in1: "Remote c (ExportBundle key b) (Inl m) \<in> set e1" by simp
  note ex = reconcile_export_failed[OF rec in1]
  have sub: "sublist xs evs" if "sublist xs e1" for xs
    using sublist_in_deploy[OF that] evs by simp
  have suf: "suffix [Remote c (ExportBundle key b) (Inl m), Print (msg_failed_to_deploy m)] evs"
    if "r = Inl (LibraryError m)" "suffix [Remote c (ExportBundle key b) (Inl m)] e1"
  proof -
    from that(2) obtain pre where "e1 = pre @ [Remote c (ExportBundle key b) (Inl m)]"
      by (auto simp: suffix_def)
    with evs that(1) have "evs = (DeployCalled infra_id # GitRevParse out0 # pre)
        @ [Remote c (ExportBundle key b) (Inl m), Print (msg_failed_to_deploy m)]"
      by (simp add: failure_report_def)
    then show ?thesis unfolding suffix_def by blast
  qed
  from ex out evs sub suf show ?thesis by auto
qed

lemma deploy_result: "fst (deploy L cfg infra w) = fst (deploy_body L cfg infra w)"
proof -
  obtain r1 e1 w1 where body: "deploy_body L cfg infra w = (r1, e1, w1)" by (metis prod_cases3)
  then show ?thesis
    unfolding deploy_def then_do_def try_except_def except_Exception_def
    by (cases r1) (auto simp: emit_def raise_def split: option.splits)
qed

lemma no_wait_check:
  assumes "check_bundle_exists L c key bid w = (r, evs, w')"
  shows "Remote c' (WaitForResult u) rp \<notin> set evs"
  using check_events[OF assms] by auto

lemma no_wait_ensure:
  assumes "ensure_bundle L cfg bid b w = (r, evs, w')" and "client_dev cfg = Some c"
  shows "Remote c' (WaitForResult u) rp \<notin> set evs"
  using ensure_events[OF assms] by auto

lemma no_wait_bind:
  assumes "bind_deployment L c cfg infra bid w = (r, evs, w')"
  shows "Remote c' (WaitForResult u) rp \<notin> set evs"
  using bind_events[OF assms] by auto

lemma reconcile_outcome:
  assumes rec: "reconcile L cfg infra bid w = (r, evs, w')"
  shows "(r = Inl e \<longrightarrow>
            (e = AttributeError (none_has_no_attribute ''get_projectdeployer'')
               \<and> client_dev cfg = None \<and> evs = [])
            \<or> (\<exists>c cl m. e = LibraryError m \<and> \<not> absorbed cl m \<and> suffix [Remote c cl (Inl m)] evs))
       \<and> (Remote c' cl' (Inl m') \<in> set evs \<and> \<not> absorbed cl' m' \<longrightarrow> r = Inl (LibraryError m'))
       \<and> (Remote c' (WaitForResult u) (Inr (Result v)) \<in> set evs \<longrightarrow> r = Inr ())"
proof (cases "client_dev cfg")
  case None
  with rec show ?thesis by (auto simp: reconcile_no_client)
next
  case (Some c)
  from rec Some show ?thesis
  proof (cases rule: reconcile_cases)
    case (no_deployer m)
    then show ?thesis by (auto simp: suffix_Cons)
  next
    case (bundle_failed w0 b e1 w1 e0 e2)
    have suf: "suffix xs evs" if "suffix xs e2" for xs
      using suffix_appendI[OF that, of "Remote c GetProjectDeployer (Inr Done) # e1"]
        bundle_failed(3) by simp
    note a = ensure_outcome[OF bundle_failed(2) Some, of e0 c' cl' m']
    note b = check_absorbs[OF bundle_failed(1), of c' cl' m']
    note w1 = no_wait_check[OF bundle_failed(1), of c' u "Inr (Result v)"]
    note w2 = no_wait_ensure[OF bundle_failed(2) Some, of c' u "Inr (Result v)"]
    have 1: "r = Inl e \<longrightarrow> (\<exists>c cl m. e = LibraryError m \<and> \<not> absorbed cl m \<and> suffix [Remote c cl (Inl m)] evs)"
      using a bundle_failed(4) suf by blast
    have 2: "Remote c' cl' (Inl m') \<in> set evs \<and> \<not> absorbed cl' m' \<longrightarrow> r = Inl (LibraryError m')"
      using a b bundle_failed(3,4) by auto
    have 3: "Remote c' (WaitForResult u) (Inr (Result v)) \<notin> set evs"
      using w1 w2 bundle_failed(3) by auto
    from 1 2 3 show ?thesis by blast
  next
    case (binding_failed w0 b e1 w1 e2 w2 e0 e3)
    have suf: "suffix xs evs" if "suffix xs e3" for xs
      using suffix_appendI[OF that, of "Remote c GetProjectDeployer (Inr Done) # e1 @ e2
          @ [Print (msg_preparing (deployment_id_of cfg infra) infra)]"]
        binding_failed(4) by simp
    note a = ensure_outcome[OF binding_failed(2) Some, of e0 c' cl' m']
    note a3 = bind_outcome[OF binding_failed(3), of e0 c' cl' m']
    note b = check_absorbs[OF binding_failed(1), of c' cl' m']
    note w1 = no_wait_check[OF binding_failed(1), of c' u "Inr (Result v)"]
    note w2 = no_wait_ensure[OF binding_failed(2) Some, of c' u "Inr (Result v)"]
    note w3 = no_wait_bind[OF binding_failed(3), of c' u "Inr (Result v)"]
    have 1: "r = Inl e \<longrightarrow> (\<exists>c cl m. e = LibraryError m \<and> \<not> absorbed cl m \<and> suffix [Remote c cl (Inl m)] evs)"
      using a3 binding_failed(5) suf by blast
    have 2: "Remote c' cl' (Inl m') \<in> set evs \<and> \<not> absorbed cl' m' \<longrightarrow> r = Inl (LibraryError m')"
      using a a3 b binding_failed(4,5) by auto
    have 3: "Remote c' (WaitForResult u) (Inr (Result v)) \<notin> set evs"
      using w1 w2 w3 binding_failed(4) by auto
    from 1 2 3 show ?thesis by blast
  next
    case (bound w0 b e1 w1 e2 w2 h e3 w3 e4)
    have suf: "suffix xs evs" if "suffix xs e4" for xs
      using suffix_appendI[OF that, of "Remote c GetProjectDeployer (Inr Done) # e1 @ e2
          @ Print (msg_preparing (deployment_id_of cfg infra) infra) # e3"]
        bound(5) by simp
    note a = ensure_outcome[OF bound(2) Some, of e c' cl' m']
    note a3 = bind_outcome[OF bound(3), of e c' cl' m']
    note a4 = activate_outcome[OF bound(4), of e c' cl' m' u v]
    note b = check_absorbs[OF bound(1), of c' cl' m']
    note w1 = no_wait_check[OF bound(1), of c' u "Inr (Result v)"]
    note w2 = no_wait_ensure[OF bound(2) Some, of c' u "Inr (Result v)"]
    note w3 = no_wait_bind[OF bound(3), of c' u "Inr (Result v)"]
    have 1: "r = Inl e \<longrightarrow> (\<exists>c cl m. e = LibraryError m \<and> \<not> absorbed cl m \<and> suffix [Remote c cl (Inl m)] evs)"
      using a4 suf by blast
    have 2: "Remote c' cl' (Inl m') \<in> set evs \<and> \<not> absorbed cl' m' \<longrightarrow> r = Inl (LibraryError m')"
      using a a3 a4 b bound(5) by auto
    have 3: "Remote c' (WaitForResult u) (Inr (Result v)) \<in> set evs \<longrightarrow> r = Inr ()"
      using w1 w2 w3 a4 bound(5) by auto
    from 1 2 3 show ?thesis by blast
  qed
qed

text \<open>
  C9. Failures of the reconciliation (amended). \<^verbatim>\<open>deploy\<close> ends as its body ends. When it
  raises, it raises the exception of the step that failed, as it was raised: either the
  \<^verbatim>\<open>AttributeError\<close> of a missing client, or the error of the last library call of the run,
  one that no inner handler absorbs; the last thing printed is \<^verbatim>\<open>Failed to deploy:\<close> with
  the text of that exception, and nothing names the infrastructure. Every failure of a
  library call that no inner handler absorbs ends the run this way. The value that
  \<^verbatim>\<open>wait_for_result\<close> returns is not looked at: when it returns, \<^verbatim>\<open>deploy\<close> returns.
\<close>

theorem failure_reraised_unchanged:
  assumes "deploy L cfg infra_id w = (r, evs, w')"
  shows "r = fst (deploy_body L cfg infra_id w)
       \<and> (r = Inl e \<longrightarrow>
            (\<exists>s. exception_str e = Some s \<and> suffix [Print (msg_failed_to_deploy s)] evs)
            \<and> ((e = AttributeError (none_has_no_attribute ''get_projectdeployer'')
                  \<and> client_dev cfg = None)
               \<or> (\<exists>c cl m. e = LibraryError m \<and> \<not> absorbed cl m
                     \<and> suffix [Remote c cl (Inl m), Print (msg_failed_to_deploy m)] evs)))
       \<and> (Remote c' cl' (Inl m') \<in> set evs \<and> \<not> absorbed cl' m' \<longrightarrow> r = Inl (LibraryError m'))
       \<and> (Remote c' (WaitForResult u) (Inr (Result v)) \<in> set evs \<longrightarrow> r = Inr ())"
proof -
  from assms(1) obtain out0 wg e1 where
    rec: "reconcile L cfg infra_id (generate_bundle_id (commit_id_of out0)) wg = (r, e1, w')" and
    evs: "evs = DeployCalled infra_id # GitRevParse out0 # e1 @ failure_report r" and
    rem: "\<And>c cl rp. Remote c cl rp \<in> set evs \<longleftrightarrow> Remote c cl rp \<in> set e1"
    by (elim deploy_run) blast
  note ro = reconcile_outcome[OF rec, of e c' cl' m' u v]
  have 0: "r = fst (deploy_body L cfg infra_id w)"
    using deploy_result[of L cfg infra_id w] assms by simp
  have 1: "\<exists>s. exception_str e = Some s \<and> suffix [Print (msg_failed_to_deploy s)] evs"
    if "r = Inl e"
  proof -
    from ro that obtain s where s: "exception_str e = Some s" by auto
    with that evs have "evs = (DeployCalled infra_id # GitRevParse out0 # e1)
        @ [Print (msg_failed_to_deploy s)]"
      by (simp add: failure_report_def)
    then have "suffix [Print (msg_failed_to_deploy s)] evs" unfolding suffix_def by blast
    with s show ?thesis by blast
  qed
  have 2: "\<exists>c cl m. e = LibraryError m \<and> \<not> absorbed cl m
            \<and> suffix [Remote c cl (Inl m), Print (msg_failed_to_deploy m)] evs"
    if "r = Inl e" and "\<not> (e = AttributeError (none_has_no_attribute ''get_projectdeployer'')
                  \<and> client_dev cfg = None)"
  proof -
    from ro that obtain c cl m where
      e: "e = LibraryError m" and na: "\<not> absorbed cl m" and suf: "suffix [Remote c cl (Inl m)] e1"
      by auto
    from suf obtain pre where "e1 = pre @ [Remote c cl (Inl m)]" by (auto simp: suffix_def)
    with evs that(1) e have "evs = (DeployCalled infra_id # GitRevParse out0 # pre)
        @ [Remote c cl (Inl m), Print (msg_failed_to_deploy m)]"
      by (simp add: failure_report_def)
    then have "suffix [Remote c cl (Inl m), Print (msg_failed_to_deploy m)] evs"
      unfolding suffix_def by blast
    with e na show ?thesis by blast
  qed
  from 0 1 2 ro rem show ?thesis by blast
qed

section \<open>The properties on runs of the reference deployer\<close>

lemmas run_defs = deploy_defs prog_defs sim_defs sim_fresh_def sim_deployed_def cfg_example_def
  dev_client_def fun_eq_iff

lemma key_example [simp]: "DATAIKU_PROJECT_KEY cfg_example = Some ''myproj''"
  by (simp add: cfg_example_def)

lemma deployment_id_example [simp]:
  "deployment_id_of cfg_example ''staging'' = ''deploy_myproj_staging''"
  "deployment_id_of cfg_example ''prod'' = ''deploy_myproj_prod''"
  by (simp_all add: deployment_id_of_def py_str_def)

lemma run_broken:
  "\<exists>w'. deploy sim_library cfg_example ''staging'' sim_broken =
     (Inl (LibraryError ''Update failed''),
      [DeployCalled ''staging'', GitRevParse (Inr (''abc1234'' @ [CHR 0x0A])),
       Remote dev_client GetProjectDeployer (Inr Done),
       Remote dev_client (DeployerGetProject (Some ''myproj'')) (Inr Done),
       Remote dev_client (ListBundles (Some ''myproj'')) (Inl ''Project not found in deployer''),
       Print (msg_bundle_not_found ''bundle_abc1234''),
       Remote dev_client (GetProject (Some ''myproj'')) (Inr Done),
       Remote dev_client (ExportBundle (Some ''myproj'') ''bundle_abc1234'') (Inr Done),
       Remote dev_client (PublishBundle (Some ''myproj'') ''bundle_abc1234'') (Inr Done),
       Print (msg_published ''bundle_abc1234''),
       Print (msg_preparing ''deploy_myproj_staging'' ''staging''),
       Remote dev_client (GetDeployment ''deploy_myproj_staging'') (Inl ''Deployment not found''),
       Print msg_creating,
       Remote dev_client
         (CreateDeployment ''deploy_myproj_staging'' (Some ''myproj'') ''staging'' ''bundle_abc1234'')
         (Inr (Handle ''deploy_myproj_staging'')),
       Print (msg_activating ''staging''),
       Remote dev_client (StartUpdate ''deploy_myproj_staging'') (Inr (Handle ''deploy_myproj_staging'')),
       Remote dev_client (WaitForResult ''deploy_myproj_staging'') (Inl ''Update failed''),
       Print (msg_failed_to_deploy ''Update failed'')],
      w')"
  by (simp add: run_defs sim_broken_def)

lemma run_conflict:
  "\<exists>w'. deploy sim_library cfg_example ''staging'' sim_exported =
     (Inr (),
      [DeployCalled ''staging'', GitRevParse (Inr (''abc1234'' @ [CHR 0x0A])),
       Remote dev_client GetProjectDeployer (Inr Done),
       Remote dev_client (DeployerGetProject (Some ''myproj'')) (Inr Done),
       Remote dev_client (ListBundles (Some ''myproj'')) (Inl ''Project not found in deployer''),
       Print (msg_bundle_not_found ''bundle_abc1234''),
       Remote dev_client (GetProject (Some ''myproj'')) (Inr Done),
       Remote dev_client (ExportBundle (Some ''myproj'') ''bundle_abc1234'') (Inl ''Bundle already exists''),
       Print msg_bundle_in_project,
       Remote dev_client (PublishBundle (Some ''myproj'') ''bundle_abc1234'') (Inr Done),
       Print (msg_published ''bundle_abc1234''),
       Print (msg_preparing ''deploy_myproj_staging'' ''staging''),
       Remote dev_client (GetDeployment ''deploy_myproj_staging'') (Inl ''Deployment not found''),
       Print msg_creating,
       Remote dev_client
         (CreateDeployment ''deploy_myproj_staging'' (Some ''myproj'') ''staging'' ''bundle_abc1234'')
         (Inr (Handle ''deploy_myproj_staging'')),
       Print (msg_activating ''staging''),
       Remote dev_client (StartUpdate ''deploy_myproj_staging'') (Inr (Handle ''deploy_myproj_staging'')),
       Remote dev_client (WaitForResult ''deploy_myproj_staging'') (Inr (Result Success)),
       Print (msg_success ''bundle_abc1234'' ''staging'')],
      w')"
  by (simp add: run_defs sim_exported_def)

lemma run_offline:
  "\<exists>w'. deploy sim_library cfg_example ''staging'' sim_offline =
     (Inl (LibraryError ''Design node unreachable''),
      [DeployCalled ''staging'', GitRevParse (Inr (''abc1234'' @ [CHR 0x0A])),
       Remote dev_client GetProjectDeployer (Inr Done),
       Remote dev_client (DeployerGetProject (Some ''myproj'')) (Inr Done),
       Remote dev_client (ListBundles (Some ''myproj'')) (Inl ''Project not found in deployer''),
       Print (msg_bundle_not_found ''bundle_abc1234''),
       Remote dev_client (GetProject (Some ''myproj'')) (Inr Done),
       Remote dev_client (ExportBundle (Some ''myproj'') ''bundle_abc1234'') (Inl ''Design node unreachable''),
       Print (msg_failed_to_deploy ''Design node unreachable'')],
      w')"
  by (simp add: run_defs sim_offline_def)



theorem listing_failure_tolerated_witness:
  "Remote dev_client (ListBundles (Some ''myproj'')) (Inl ''Project not found in deployer'')
     \<in> set (fst (snd (deploy sim_library cfg_example ''staging'' sim_fresh)))
   \<and> sublist
        [Remote dev_client (ListBundles (Some ''myproj'')) (Inl ''Project not found in deployer''),
         Print (msg_bundle_not_found ''bundle_abc1234''),
         Remote dev_client (GetProject (Some ''myproj'')) (Inr Done),
         Remote dev_client (ExportBundle (Some ''myproj'') ''bundle_abc1234'') (Inr Done),
         Remote dev_client (PublishBundle (Some ''myproj'') ''bundle_abc1234'') (Inr Done)]
        (fst (snd (deploy sim_library cfg_example ''staging'' sim_fresh)))
   \<and> Remote dev_client (ListBundles (Some ''myproj'')) (Inl ''Project not found in deployer'')
     \<in> set (fst (snd (deploy sim_library cfg_example ''staging'' sim_offline)))
   \<and> sublist
        [Remote dev_client (ListBundles (Some ''myproj'')) (Inl ''Project not found in deployer''),
         Print (msg_bundle_not_found ''bundle_abc1234''),
         Remote dev_client (GetProject (Some ''myproj'')) (Inr Done),
         Remote dev_client (ExportBundle (Some ''myproj'') ''bundle_abc1234'')
           (Inl ''Design node unreachable'')]
        (fst (snd (deploy sim_library cfg_example ''staging'' sim_offline)))
   \<and> fst (deploy sim_library cfg_example ''staging'' sim_offline)
       = Inl (LibraryError ''Design node unreachable'')"
proof -
  from run_offline obtain w2 where
    offline: "deploy sim_library cfg_example ''staging'' sim_offline =
     (Inl (LibraryError ''Design node unreachable''),
      [DeployCalled ''staging'', GitRevParse (Inr (''abc1234'' @ [CHR 0x0A])),
       Remote dev_client GetProjectDeployer (Inr Done),
       Remote dev_client (DeployerGetProject (Some ''myproj'')) (Inr Done),
       Remote dev_client (ListBundles (Some ''myproj'')) (Inl ''Project not found in deployer''),
       Print (msg_bundle_not_found ''bundle_abc1234''),
       Remote dev_client (GetProject (Some ''myproj'')) (Inr Done),
       Remote dev_client (ExportBundle (Some ''myproj'') ''bundle_abc1234'') (Inl ''Design node unreachable''),
       Print (msg_failed_to_deploy ''Design node unreachable'')],
      w2)" by blast
  show ?thesis
    using listing_failure_tolerated[OF run_first, of "Inr (''abc1234'' @ [CHR 0x0A])" dev_client
        "ListBundles (Some ''myproj'')" "''Project not found in deployer''" "Some ''myproj''"]
      listing_failure_tolerated[OF offline, of "Inr (''abc1234'' @ [CHR 0x0A])" dev_client
        "ListBundles (Some ''myproj'')" "''Project not found in deployer''" "Some ''myproj''"]
      bundle_id_example
    by (simp add: run_first offline sublist_Cons_right)
qed



theorem conflict_swallow_witness:
  "contains ''Bundle already exists'' ''already exists''
   \<and> (\<exists>p. sublist
          [Remote dev_client (ExportBundle (Some ''myproj'') ''bundle_abc1234'') (Inl ''Bundle already exists''),
           Print msg_bundle_in_project,
           Remote dev_client (PublishBundle (Some ''myproj'') ''bundle_abc1234'') p]
          (fst (snd (deploy sim_library cfg_example ''staging'' sim_exported))))
   \<and> Remote dev_client (GetDeployment ''deploy_myproj_staging'') (Inl ''Deployment not found'')
       \<in> set (fst (snd (deploy sim_library cfg_example ''staging'' sim_exported)))
   \<and> \<not> contains ''Design node unreachable'' ''already exists''
   \<and> fst (deploy sim_library cfg_example ''staging'' sim_offline)
       = Inl (LibraryError ''Design node unreachable'')
   \<and> suffix
        [Remote dev_client (ExportBundle (Some ''myproj'') ''bundle_abc1234'') (Inl ''Design node unreachable''),
         Print (msg_failed_to_deploy ''Design node unreachable'')]
        (fst (snd (deploy sim_library cfg_example ''staging'' sim_offline)))"
proof -
  from run_conflict obtain w1 where
    conflict: "deploy sim_library cfg_example ''staging'' sim_exported =
     (Inr (),
      [DeployCalled ''staging'', GitRevParse (Inr (''abc1234'' @ [CHR 0x0A])),
       Remote dev_client GetProjectDeployer (Inr Done),
       Remote dev_client (DeployerGetProject (Some ''myproj'')) (Inr Done),
       Remote dev_client (ListBundles (Some ''myproj'')) (Inl ''Project not found in deployer''),
       Print (msg_bundle_not_found ''bundle_abc1234''),
       Remote dev_client (GetProject (Some ''myproj'')) (Inr Done),
       Remote dev_client (ExportBundle (Some ''myproj'') ''bundle_abc1234'') (Inl ''Bundle already exists''),
       Print msg_bundle_in_project,
       Remote dev_client (PublishBundle (Some ''myproj'') ''bundle_abc1234'') (Inr Done),
       Print (msg_published ''bundle_abc1234''),
       Print (msg_preparing ''deploy_myproj_staging'' ''staging''),
       Remote dev_client (GetDeployment ''deploy_myproj_staging'') (Inl ''Deployment not found''),
       Print msg_creating,
       Remote dev_client
         (CreateDeployment ''deploy_myproj_staging'' (Some ''myproj'') ''staging'' ''bundle_abc1234'')
         (Inr (Handle ''deploy_myproj_staging'')),
       Print (msg_activating ''staging''),
       Remote dev_client (StartUpdate ''deploy_myproj_staging'') (Inr (Handle ''deploy_myproj_staging'')),
       Remote dev_client (WaitForResult ''deploy_myproj_staging'') (Inr (Result Success)),
       Print (msg_success ''bundle_abc1234'' ''staging'')],
      w1)" by blast
  from run_offline obtain w2 where
    offline: "deploy sim_library cfg_example ''staging'' sim_offline =
     (Inl (LibraryError ''Design node unreachable''),
      [DeployCalled ''staging'', GitRevParse (Inr (''abc1234'' @ [CHR 0x0A])),
       Remote dev_client GetProjectDeployer (Inr Done),
       Remote dev_client (DeployerGetProject (Some ''myproj'')) (Inr Done),
       Remote dev_client (ListBundles (Some ''myproj'')) (Inl ''Project not found in deployer''),
       Print (msg_bundle_not_found ''bundle_abc1234''),
       Remote dev_client (GetProject (Some ''myproj'')) (Inr Done),
       Remote dev_client (ExportBundle (Some ''myproj'') ''bundle_abc1234'') (Inl ''Design node unreachable''),
       Print (msg_failed_to_deploy ''Design node unreachable'')],
      w2)" by blast
  have a: "contains ''Bundle already exists'' ''already exists''" by simp
  have b: "\<not> contains ''Design node unreachable'' ''already exists''" by simp
  show ?thesis
    using conflict_swallow[OF conflict, of "Inr (''abc1234'' @ [CHR 0x0A])" dev_client
        "Some ''myproj''" "''bundle_abc1234''" "''Bundle already exists''"]
      conflict_swallow[OF offline, of "Inr (''abc1234'' @ [CHR 0x0A])" dev_client
        "Some ''myproj''" "''bundle_abc1234''" "''Design node unreachable''"]
      a b
    by (simp add: conflict offline suffix_Cons sublist_Cons_right)
qed


theorem failure_without_infra_counterexample:
  "fst (deploy sim_library cfg_example ''staging'' sim_broken) = Inl (LibraryError ''Update failed'')
   \<and> \<not> contains ''Update failed'' ''staging''
   \<and> last (fst (snd (deploy sim_library cfg_example ''staging'' sim_broken)))
       = Print (msg_failed_to_deploy ''Update failed'')
   \<and> \<not> contains (msg_failed_to_deploy ''Update failed'') ''staging''"
proof -
  from run_broken obtain w' where
    run: "deploy sim_library cfg_example ''staging'' sim_broken =
     (Inl (LibraryError ''Update failed''),
      [DeployCalled ''staging'', GitRevParse (Inr (''abc1234'' @ [CHR 0x0A])),
       Remote dev_client GetProjectDeployer (Inr Done),
       Remote dev_client (DeployerGetProject (Some ''myproj'')) (Inr Done),
       Remote dev_client (ListBundles (Some ''myproj'')) (Inl ''Project not found in deployer''),
       Print (msg_bundle_not_found ''bundle_abc1234''),
       Remote dev_client (GetProject (Some ''myproj'')) (Inr Done),
       Remote dev_client (ExportBundle (Some ''myproj'') ''bundle_abc1234'') (Inr Done),
       Remote dev_client (PublishBundle (Some ''myproj'') ''bundle_abc1234'') (Inr Done),
       Print (msg_published ''bundle_abc1234''),
       Print (msg_preparing ''deploy_myproj_staging'' ''staging''),
       Remote dev_client (GetDeployment ''deploy_myproj_staging'') (Inl ''Deployment not found''),
       Print msg_creating,
       Remote dev_client
         (CreateDeployment ''deploy_myproj_staging'' (Some ''myproj'') ''staging'' ''bundle_abc1234'')
         (Inr (Handle ''deploy_myproj_staging'')),
       Print (msg_activating ''staging''),
       Remote dev_client (StartUpdate ''deploy_myproj_staging'') (Inr (Handle ''deploy_myproj_staging'')),
       Remote dev_client (WaitForResult ''deploy_myproj_staging'') (Inl ''Update failed''),
       Print (msg_failed_to_deploy ''Update failed'')],
      w')" by blast
  show ?thesis by (simp add: run msg_failed_to_deploy_def)
qed

theorem failure_reraised_unchanged_witness:
  "fst (deploy sim_library cfg_example ''staging'' sim_broken) = Inl (LibraryError ''Update failed'')
   \<and> exception_str (LibraryError ''Update failed'') = Some ''Update failed''
   \<and> \<not> absorbed (WaitForResult ''deploy_myproj_staging'' :: (string, unit) call) ''Update failed''
   \<and> suffix
        [Remote dev_client (WaitForResult ''deploy_myproj_staging'') (Inl ''Update failed''),
         Print (msg_failed_to_deploy ''Update failed'')]
        (fst (snd (deploy sim_library cfg_example ''staging'' sim_broken)))
   \<and> Remote dev_client (WaitForResult ''deploy_myproj_staging'') (Inr (Result Success))
       \<in> set (fst (snd (deploy sim_library cfg_example ''staging'' sim_fresh)))
   \<and> fst (deploy sim_library cfg_example ''staging'' sim_fresh) = Inr ()"
proof -
  from run_broken obtain w' where
    run: "deploy sim_library cfg_example ''staging'' sim_broken =
     (Inl (LibraryError ''Update failed''),
      [DeployCalled ''staging'', GitRevParse (Inr (''abc1234'' @ [CHR 0x0A])),
       Remote dev_client GetProjectDeployer (Inr Done),
       Remote dev_client (DeployerGetProject (Some ''myproj'')) (Inr Done),
       Remote dev_client (ListBundles (Some ''myproj'')) (Inl ''Project not found in deployer''),
       Print (msg_bundle_not_found ''bundle_abc1234''),
       Remote dev_client (GetProject (Some ''myproj'')) (Inr Done),
       Remote dev_client (ExportBundle (Some ''myproj'') ''bundle_abc1234'') (Inr Done),
       Remote dev_client (PublishBundle (Some ''myproj'') ''bundle_abc1234'') (Inr Done),
       Print (msg_published ''bundle_abc1234''),
       Print (msg_preparing ''deploy_myproj_staging'' ''staging''),
       Remote dev_client (GetDeployment ''deploy_myproj_staging'') (Inl ''Deployment not found''),
       Print msg_creating,
       Remote dev_client
         (CreateDeployment ''deploy_myproj_staging'' (Some ''myproj'') ''staging'' ''bundle_abc1234'')
         (Inr (Handle ''deploy_myproj_staging'')),
       Print (msg_activating ''staging''),
       Remote dev_client (StartUpdate ''deploy_myproj_staging'') (Inr (Handle ''deploy_myproj_staging'')),
       Remote dev_client (WaitForResult ''deploy_myproj_staging'') (Inl ''Update failed''),
       Print (msg_failed_to_deploy ''Update failed'')],
      w')" by blast
  show ?thesis
    using failure_reraised_unchanged[OF run, of "LibraryError ''Update failed''" dev_client
        "WaitForResult ''deploy_myproj_staging''" "''Update failed''"]
      failure_reraised_unchanged[OF run_first, of _ dev_client _ _ "''deploy_myproj_staging''" Success]
    by (simp add: run run_first suffix_Cons)
qed

section \<open>Properties of the promotion\<close>

lemma deploy_raises_Exception:
  assumes "deploy L cfg infra w = (Inl e, evs, w')"
  shows "\<exists>s. exception_str e = Some s"
proof -
  from assms obtain out0 wg e1 where
    rec: "reconcile L cfg infra (generate_bundle_id (commit_id_of out0)) wg = (Inl e, e1, w')"
    by (elim deploy_run) blast
  have "(e = AttributeError (none_has_no_attribute ''get_projectdeployer'')
           \<and> client_dev cfg = None \<and> e1 = [])
        \<or> (\<exists>c cl m. e = LibraryError m \<and> \<not> absorbed cl m \<and> suffix [Remote c cl (Inl m)] e1)"
    using reconcile_outcome[OF rec, of e undefined undefined undefined undefined undefined]
    by simp
  then show ?thesis by auto
qed

text \<open>The handler of \<open>main\<close> on an exception that it catches.\<close>

lemma main_handler:
  assumes "main_body L cfg w = (Inl e, evs, w')" and "exception_str e = Some s"
  shows "main L cfg w = (Inl name_error, evs @ crash_report e, w')"
  using assms unfolding main_def try_except_def except_Exception_def crash_report_def name_error_def
  by (simp add: then_do_def emit_def raise_def sys_exit_eq)

lemma main_returns:
  assumes "main_body L cfg w = (Inr (), evs, w')"
  shows "main L cfg w = (Inr (), evs, w')"
  using assms unfolding main_def try_except_def by simp

lemma crash_report_name_error [simp]:
  "crash_report name_error
     = [Print (msg_error_occurred (msg_name_not_defined ''sys'')), Traceback name_error]"
  by (simp add: crash_report_def name_error_def)

text \<open>The ways through \<open>main\<close>.\<close>

lemma main_cases:
  assumes "main L cfg w = (r, evs, w')"
  obtains
    (stage_failed) e e1 where
      "deploy L cfg DATAIKU_INFRA_ID_STAGING w = (Inl e, e1, w')"
      "evs = Print msg_starting # Print (msg_phase1 DATAIKU_INFRA_ID_STAGING) # e1 @ crash_report e"
      "r = Inl name_error"
  | (staging_tests_failed) e1 w1 out where
      "deploy L cfg DATAIKU_INFRA_ID_STAGING w = (Inr (), e1, w1)"
      "run_script L (PYTHON_SCRIPT cfg) (DATAIKU_INSTANCE_STAGING_URL cfg)
         (DATAIKU_API_TOKEN_STAGING cfg) (DATAIKU_PROJECT_KEY cfg) w1 = (out, w')"
      "\<not> tests_passed_of out"
      "evs = Print msg_starting # Print (msg_phase1 DATAIKU_INFRA_ID_STAGING) # e1
             @ [Print msg_phase2, Print (msg_running_tests (DATAIKU_INSTANCE_STAGING_URL cfg)),
                RunScript (PYTHON_SCRIPT cfg) (DATAIKU_INSTANCE_STAGING_URL cfg)
                  (DATAIKU_API_TOKEN_STAGING cfg) (DATAIKU_PROJECT_KEY cfg) out,
                Print (tests_report_of out), Print msg_staging_failed]
             @ crash_report name_error"
      "r = Inl name_error"
  | (tests_only) e1 w1 out where
      "deploy L cfg DATAIKU_INFRA_ID_STAGING w = (Inr (), e1, w1)"
      "run_script L (PYTHON_SCRIPT cfg) (DATAIKU_INSTANCE_STAGING_URL cfg)
         (DATAIKU_API_TOKEN_STAGING cfg) (DATAIKU_PROJECT_KEY cfg) w1 = (out, w')"
      "tests_passed_of out" "RUN_TESTS_ONLY cfg"
      "evs = Print msg_starting # Print (msg_phase1 DATAIKU_INFRA_ID_STAGING) # e1
             @ [Print msg_phase2, Print (msg_running_tests (DATAIKU_INSTANCE_STAGING_URL cfg)),
                RunScript (PYTHON_SCRIPT cfg) (DATAIKU_INSTANCE_STAGING_URL cfg)
                  (DATAIKU_API_TOKEN_STAGING cfg) (DATAIKU_PROJECT_KEY cfg) out,
                Print (tests_report_of out), Print msg_staging_passed, Print msg_tests_only]
             @ crash_report name_error"
      "r = Inl name_error"
  | (promote_failed) e1 w1 out w2 e e3 where
      "deploy L cfg DATAIKU_INFRA_ID_STAGING w = (Inr (), e1, w1)"
      "run_script L (PYTHON_SCRIPT cfg) (DATAIKU_INSTANCE_STAGING_URL cfg)
         (DATAIKU_API_TOKEN_STAGING cfg) (DATAIKU_PROJECT_KEY cfg) w1 = (out, w2)"
      "tests_passed_of out" "\<not> RUN_TESTS_ONLY cfg"
      "deploy L cfg DATAIKU_INFRA_ID_PROD w2 = (Inl e, e3, w')"
      "evs = Print msg_starting # Print (msg_phase1 DATAIKU_INFRA_ID_STAGING) # e1
             @ [Print msg_phase2, Print (msg_running_tests (DATAIKU_INSTANCE_STAGING_URL cfg)),
                RunScript (PYTHON_SCRIPT cfg) (DATAIKU_INSTANCE_STAGING_URL cfg)
                  (DATAIKU_API_TOKEN_STAGING cfg) (DATAIKU_PROJECT_KEY cfg) out,
                Print (tests_report_of out), Print msg_staging_passed,
                Print (msg_phase3 DATAIKU_INFRA_ID_PROD)]
             @ e3 @ crash_report e"
      "r = Inl name_error"
  | (prod_tests_failed) e1 w1 out w2 e3 w3 out' where
      "deploy L cfg DATAIKU_INFRA_ID_STAGING w = (Inr (), e1, w1)"
      "run_script L (PYTHON_SCRIPT cfg) (DATAIKU_INSTANCE_STAGING_URL cfg)
         (DATAIKU_API_TOKEN_STAGING cfg) (DATAIKU_PROJECT_KEY cfg) w1 = (out, w2)"
      "tests_passed_of out" "\<not> RUN_TESTS_ONLY cfg"
      "deploy L cfg DATAIKU_INFRA_ID_PROD w2 = (Inr (), e3, w3)"
      "run_script L (PYTHON_SCRIPT cfg) (DATAIKU_INSTANCE_PROD_URL cfg)
         (DATAIKU_API_TOKEN_PROD cfg) (DATAIKU_PROJECT_KEY cfg) w3 = (out', w')"
      "\<not> tests_passed_of out'"
      "evs = Print msg_starting # Print (msg_phase1 DATAIKU_INFRA_ID_STAGING) # e1
             @ [Print msg_phase2, Print (msg_running_tests (DATAIKU_INSTANCE_STAGING_URL cfg)),
                RunScript (PYTHON_SCRIPT cfg) (DATAIKU_INSTANCE_STAGING_URL cfg)
                  (DATAIKU_API_TOKEN_STAGING cfg) (DATAIKU_PROJECT_KEY cfg) out,
                Print (tests_report_of out), Print msg_staging_passed,
                Print (msg_phase3 DATAIKU_INFRA_ID_PROD)]
             @ e3
             @ [Print msg_phase4, Print (msg_running_tests (DATAIKU_INSTANCE_PROD_URL cfg)),
                RunScript (PYTHON_SCRIPT cfg) (DATAIKU_INSTANCE_PROD_URL cfg)
                  (DATAIKU_API_TOKEN_PROD cfg) (DATAIKU_PROJECT_KEY cfg) out',
                Print (tests_report_of out'), Print msg_prod_warning]
             @ crash_report name_error"
      "r = Inl name_error"
  | (success) e1 w1 out w2 e3 w3 out' where
      "deploy L cfg DATAIKU_INFRA_ID_STAGING w = (Inr (), e1, w1)"
      "run_script L (PYTHON_SCRIPT cfg) (DATAIKU_INSTANCE_STAGING_URL cfg)
         (DATAIKU_API_TOKEN_STAGING cfg) (DATAIKU_PROJECT_KEY cfg) w1 = (out, w2)"
      "tests_passed_of out" "\<not> RUN_TESTS_ONLY cfg"
      "deploy L cfg DATAIKU_INFRA_ID_PROD w2 = (Inr (), e3, w3)"
      "run_script L (PYTHON_SCRIPT cfg) (DATAIKU_INSTANCE_PROD_URL cfg)
         (DATAIKU_API_TOKEN_PROD cfg) (DATAIKU_PROJECT_KEY cfg) w3 = (out', w')"
      "tests_passed_of out'"
      "evs = Print msg_starting # Print (msg_phase1 DATAIKU_INFRA_ID_STAGING) # e1
             @ [Print msg_phase2, Print (msg_running_tests (DATAIKU_INSTANCE_STAGING_URL cfg)),
                RunScript (PYTHON_SCRIPT cfg) (DATAIKU_INSTANCE_STAGING_URL cfg)
                  (DATAIKU_API_TOKEN_STAGING cfg) (DATAIKU_PROJECT_KEY cfg) out,
                Print (tests_report_of out), Print msg_staging_passed,
                Print (msg_phase3 DATAIKU_INFRA_ID_PROD)]
             @ e3
             @ [Print msg_phase4, Print (msg_running_tests (DATAIKU_INSTANCE_PROD_URL cfg)),
                RunScript (PYTHON_SCRIPT cfg) (DATAIKU_INSTANCE_PROD_URL cfg)
                  (DATAIKU_API_TOKEN_PROD cfg) (DATAIKU_PROJECT_KEY cfg) out',
                Print (tests_report_of out'), Print msg_all_successful]"
      "r = Inr ()"
proof -
  note body = main_body_def then_do_def emit_def ret_def raise_def sys_exit_eq run_tests_eq
  have ne: "exception_str name_error = Some (msg_name_not_defined ''sys'')"
    by (simp add: name_error_def)
  obtain r1 e1 w1 where d1: "deploy L cfg DATAIKU_INFRA_ID_STAGING w = (r1, e1, w1)"
    by (metis prod_cases3)
  show thesis
  proof (cases r1)
    case (Inl e)
    from deploy_raises_Exception[OF d1[unfolded Inl]] obtain s where s: "exception_str e = Some s" by blast
    have "main_body L cfg w
          = (Inl e, Print msg_starting # Print (msg_phase1 DATAIKU_INFRA_ID_STAGING) # e1, w1)"
      using d1 Inl by (simp add: body)
    from main_handler[OF this s] assms d1 Inl stage_failed show thesis by simp
  next
    case (Inr u)
    obtain out w2 where t1: "run_script L (PYTHON_SCRIPT cfg) (DATAIKU_INSTANCE_STAGING_URL cfg)
         (DATAIKU_API_TOKEN_STAGING cfg) (DATAIKU_PROJECT_KEY cfg) w1 = (out, w2)"
      by (metis prod.collapse)
    show thesis
    proof (cases "tests_passed_of out")
      case False
      have "main_body L cfg w
            = (Inl name_error,
               Print msg_starting # Print (msg_phase1 DATAIKU_INFRA_ID_STAGING) # e1
               @ [Print msg_phase2, Print (msg_running_tests (DATAIKU_INSTANCE_STAGING_URL cfg)),
                  RunScript (PYTHON_SCRIPT cfg) (DATAIKU_INSTANCE_STAGING_URL cfg)
                    (DATAIKU_API_TOKEN_STAGING cfg) (DATAIKU_PROJECT_KEY cfg) out,
                  Print (tests_report_of out), Print msg_staging_failed], w2)"
        using d1 Inr t1 False by (simp add: body name_error_def)
      from main_handler[OF this ne] assms d1 Inr t1 False staging_tests_failed
      show thesis by simp
    next
      case True
      show thesis
      proof (cases "RUN_TESTS_ONLY cfg")
        case only: True
        have "main_body L cfg w
            = (Inl name_error,
               Print msg_starting # Print (msg_phase1 DATAIKU_INFRA_ID_STAGING) # e1
               @ [Print msg_phase2, Print (msg_running_tests (DATAIKU_INSTANCE_STAGING_URL cfg)),
                  RunScript (PYTHON_SCRIPT cfg) (DATAIKU_INSTANCE_STAGING_URL cfg)
                    (DATAIKU_API_TOKEN_STAGING cfg) (DATAIKU_PROJECT_KEY cfg) out,
                  Print (tests_report_of out), Print msg_staging_passed, Print msg_tests_only], w2)"
          using d1 Inr t1 True only by (simp add: body name_error_def)
        from main_handler[OF this ne] assms d1 Inr t1 True only tests_only
        show thesis by simp
      next
        case full: False
        obtain r3 e3 w3 where d2: "deploy L cfg DATAIKU_INFRA_ID_PROD w2 = (r3, e3, w3)"
          by (metis prod_cases3)
        show thesis
        proof (cases r3)
          case (Inl e)
          from deploy_raises_Exception[OF d2[unfolded Inl]] obtain s where s: "exception_str e = Some s" by blast
          have "main_body L cfg w
            = (Inl e,
               Print msg_starting # Print (msg_phase1 DATAIKU_INFRA_ID_STAGING) # e1
               @ [Print msg_phase2, Print (msg_running_tests (DATAIKU_INSTANCE_STAGING_URL cfg)),
                  RunScript (PYTHON_SCRIPT cfg) (DATAIKU_INSTANCE_STAGING_URL cfg)
                    (DATAIKU_API_TOKEN_STAGING cfg) (DATAIKU_PROJECT_KEY cfg) out,
                  Print (tests_report_of out), Print msg_staging_passed,
                  Print (msg_phase3 DATAIKU_INFRA_ID_PROD)] @ e3, w3)"
            using d1 Inr t1 True full d2 Inl by (simp add: body)
          from main_handler[OF this s] assms d1 Inr t1 True full d2 Inl promote_failed
          show thesis by simp
        next
          case u3: (Inr u')
          obtain out' w4 where t2: "run_script L (PYTHON_SCRIPT cfg) (DATAIKU_INSTANCE_PROD_URL cfg)
             (DATAIKU_API_TOKEN_PROD cfg) (DATAIKU_PROJECT_KEY cfg) w3 = (out', w4)"
            by (metis prod.collapse)
          show thesis
          proof (cases "tests_passed_of out'")
            case bad: False
            have "main_body L cfg w
              = (Inl name_error,
                 Print msg_starting # Print (msg_phase1 DATAIKU_INFRA_ID_STAGING) # e1
                 @ [Print msg_phase2, Print (msg_running_tests (DATAIKU_INSTANCE_STAGING_URL cfg)),
                    RunScript (PYTHON_SCRIPT cfg) (DATAIKU_INSTANCE_STAGING_URL cfg)
                      (DATAIKU_API_TOKEN_STAGING cfg) (DATAIKU_PROJECT_KEY cfg) out,
                    Print (tests_report_of out), Print msg_staging_passed,
                    Print (msg_phase3 DATAIKU_INFRA_ID_PROD)] @ e3
                 @ [Print msg_phase4, Print (msg_running_tests (DATAIKU_INSTANCE_PROD_URL cfg)),
                    RunScript (PYTHON_SCRIPT cfg) (DATAIKU_INSTANCE_PROD_URL cfg)
                      (DATAIKU_API_TOKEN_PROD cfg) (DATAIKU_PROJECT_KEY cfg) out',
                    Print (tests_report_of out'), Print msg_prod_warning], w4)"
              using d1 Inr t1 True full d2 u3 t2 bad by (simp add: body name_error_def)
            from main_handler[OF this ne] assms d1 Inr t1 True full d2 u3 t2 bad prod_tests_failed
            show thesis by simp
          next
            case good: True
            have "main_body L cfg w
              = (Inr (),
                 Print msg_starting # Print (msg_phase1 DATAIKU_INFRA_ID_STAGING) # e1
                 @ [Print msg_phase2, Print (msg_running_tests (DATAIKU_INSTANCE_STAGING_URL cfg)),
                    RunScript (PYTHON_SCRIPT cfg) (DATAIKU_INSTANCE_STAGING_URL cfg)
                      (DATAIKU_API_TOKEN_STAGING cfg) (DATAIKU_PROJECT_KEY cfg) out,
                    Print (tests_report_of out), Print msg_staging_passed,
                    Print (msg_phase3 DATAIKU_INFRA_ID_PROD)] @ e3
                 @ [Print msg_phase4, Print (msg_running_tests (DATAIKU_INSTANCE_PROD_URL cfg)),
                    RunScript (PYTHON_SCRIPT cfg) (DATAIKU_INSTANCE_PROD_URL cfg)
                      (DATAIKU_API_TOKEN_PROD cfg) (DATAIKU_PROJECT_KEY cfg) out',
                    Print (tests_report_of out'), Print msg_all_successful], w4)"
              using d1 Inr t1 True full d2 u3 t2 good by (simp add: body)
            from main_returns[OF this] assms d1 Inr t1 True full d2 u3 t2 good success
            show thesis by simp
          qed
        qed
      qed
    qed
  qed
qed


lemma infra_ids_differ [simp]:
  "DATAIKU_INFRA_ID_STAGING \<noteq> DATAIKU_INFRA_ID_PROD"
  "DATAIKU_INFRA_ID_PROD \<noteq> DATAIKU_INFRA_ID_STAGING"
  by (simp_all add: DATAIKU_INFRA_ID_STAGING_def DATAIKU_INFRA_ID_PROD_def)

lemma crash_report_events:
  "ev \<in> set (crash_report e) \<Longrightarrow> (\<exists>s. ev = Print s) \<or> (\<exists>x. ev = Traceback x)"
  by (auto simp: crash_report_def split: option.splits)

lemma remote_calls_crash_report [simp]: "remote_calls (crash_report e) = []"
  by (auto simp: crash_report_def split: option.splits)

lemma deploy_called:
  assumes "deploy L cfg infra w = (r, evs, w')"
  shows "DeployCalled i \<in> set evs \<longleftrightarrow> i = infra"
  using assms by (elim deploy_run) blast

lemma exit_status_name_error [simp]: "exit_status (Inl name_error) = 1"
  by (simp add: name_error_def)

text \<open>
  C7. Production is never reconciled without a passed staging verification. When the
  staging tests fail after a staging deployment, \<^verbatim>\<open>deploy\<close> is never called for the production
  infrastructure, the run makes no library call beyond those of the staging deployment,
  leaves the world as the tests left it, and the process exits with a status other than 0.
  The same holds, up to the exit status, when \<^verbatim>\<open>RUN_TESTS_ONLY\<close> is set. In any run that calls
  \<^verbatim>\<open>deploy\<close> for production, the staging deployment returned, the staging tests passed and
  \<^verbatim>\<open>RUN_TESTS_ONLY\<close> is not set.
\<close>

theorem production_needs_verified_staging:
  assumes "main L cfg w = (r, evs, w')"
    and "deploy L cfg DATAIKU_INFRA_ID_STAGING w = (r1, e1, w1)"
    and "run_script L (PYTHON_SCRIPT cfg) (DATAIKU_INSTANCE_STAGING_URL cfg)
           (DATAIKU_API_TOKEN_STAGING cfg) (DATAIKU_PROJECT_KEY cfg) w1 = (out, w2)"
  shows "(r1 = Inr () \<and> \<not> tests_passed_of out \<longrightarrow>
            DeployCalled DATAIKU_INFRA_ID_PROD \<notin> set evs \<and> exit_status r \<noteq> 0
            \<and> remote_calls evs = remote_calls e1 \<and> w' = w2)
       \<and> (r1 = Inr () \<and> RUN_TESTS_ONLY cfg \<longrightarrow>
            DeployCalled DATAIKU_INFRA_ID_PROD \<notin> set evs
            \<and> remote_calls evs = remote_calls e1 \<and> w' = w2)
       \<and> (DeployCalled DATAIKU_INFRA_ID_PROD \<in> set evs \<longrightarrow>
            r1 = Inr () \<and> tests_passed_of out \<and> \<not> RUN_TESTS_ONLY cfg)"
proof -
  note dc = deploy_called[OF assms(2), of DATAIKU_INFRA_ID_PROD]
  from assms(1) show ?thesis
  proof (cases rule: main_cases)
    case (stage_failed e e1')
    with assms(2) dc crash_report_events[of "DeployCalled DATAIKU_INFRA_ID_PROD" e]
    show ?thesis by auto
  next
    case (staging_tests_failed e1' w1' out')
    with assms(2,3) dc show ?thesis by auto
  next
    case (tests_only e1' w1' out')
    with assms(2,3) dc show ?thesis by auto
  next
    case (promote_failed e1' w1' out' w2' e e3)
    with assms(2,3) show ?thesis by auto
  next
    case (prod_tests_failed e1' w1' out' w2' e3 w3 out'')
    with assms(2,3) show ?thesis by auto
  next
    case (success e1' w1' out' w2' e3 w3 out'')
    with assms(2,3) show ?thesis by auto
  qed
qed

text \<open>The bundle identifiers in a run of \<open>deploy\<close> all come from the git output it read.\<close>

lemma reconcile_bundle_ids:
  assumes rec: "reconcile L cfg infra bid w = (r, evs, w')"
  shows "\<forall>b \<in> set (bundle_ids evs). b = bid"
proof -
  have *: "b = bid" if "Remote c cl rp \<in> set evs" "b \<in> set (bundle_ids_of cl)" for c cl rp b
  proof -
    from reconcile_events[OF rec that(1)] have client: "client_dev cfg = Some c" by auto
    from rec client show ?thesis
    proof (cases rule: reconcile_cases)
      case (no_deployer m)
      with that show ?thesis by auto
    next
      case (bundle_failed w0 b' e1 w1 e e2)
      with that check_events[OF bundle_failed(1), of "Remote c cl rp"]
        ensure_events[OF bundle_failed(2) client, of "Remote c cl rp"]
      show ?thesis by auto
    next
      case (binding_failed w0 b' e1 w1 e2 w2 e e3)
      with that check_events[OF binding_failed(1), of "Remote c cl rp"]
        ensure_events[OF binding_failed(2) client, of "Remote c cl rp"]
        bind_events[OF binding_failed(3), of "Remote c cl rp"]
      show ?thesis by auto
    next
      case (bound w0 b' e1 w1 e2 w2 h e3 w3 e4)
      with that check_events[OF bound(1), of "Remote c cl rp"]
        ensure_events[OF bound(2) client, of "Remote c cl rp"]
        bind_events[OF bound(3), of "Remote c cl rp"]
        activate_events[OF bound(4), of "Remote c cl rp"]
      show ?thesis by auto
    qed
  qed
  show ?thesis unfolding bundle_ids_def by (auto simp: in_remote_calls dest: *)
qed

lemma git_outputs_simps [simp]:
  "git_outputs [] = []"
  "git_outputs (GitRevParse out # evs) = out # git_outputs evs"
  "git_outputs (Remote c cl rp # evs) = git_outputs evs"
  "git_outputs (Print s # evs) = git_outputs evs"
  "git_outputs (DeployCalled i # evs) = git_outputs evs"
  "git_outputs (Traceback e # evs) = git_outputs evs"
  "git_outputs (RunScript sp url key pk res # evs) = git_outputs evs"
  "git_outputs (evs @ evs') = git_outputs evs @ git_outputs evs'"
  by (simp_all add: git_outputs_def)

lemma git_outputs_none:
  assumes "\<And>ev. ev \<in> set evs \<Longrightarrow> (\<exists>s. ev = Print s) \<or> (\<exists>c cl rp. ev = Remote c cl rp)"
  shows "git_outputs evs = []"
  using assms
proof (induction evs)
  case Nil
  then show ?case by simp
next
  case (Cons ev evs)
  from Cons.prems[of ev] have "(\<exists>s. ev = Print s) \<or> (\<exists>c cl rp. ev = Remote c cl rp)" by simp
  moreover from Cons have "git_outputs evs = []" by simp
  ultimately show ?case by auto
qed

lemma bundle_ids_simps [simp]:
  "bundle_ids [] = []"
  "bundle_ids (Print s # evs) = bundle_ids evs"
  "bundle_ids (DeployCalled i # evs) = bundle_ids evs"
  "bundle_ids (GitRevParse out # evs) = bundle_ids evs"
  "bundle_ids (Traceback e # evs) = bundle_ids evs"
  "bundle_ids (RunScript sp url key pk res # evs) = bundle_ids evs"
  "bundle_ids (Remote c cl rp # evs) = bundle_ids_of cl @ bundle_ids evs"
  "bundle_ids (evs @ evs') = bundle_ids evs @ bundle_ids evs'"
  by (simp_all add: bundle_ids_def)

lemma bundle_ids_reports [simp]:
  "bundle_ids (failure_report r) = []" "bundle_ids (crash_report e) = []"
  by (simp_all add: bundle_ids_def)

lemma deploy_identity:
  assumes "deploy L cfg infra w = (r, evs, w')"
  shows "git_outputs evs = [fst (git_rev_parse L w)]
       \<and> (\<forall>b \<in> set (bundle_ids evs).
             b = generate_bundle_id (commit_id_of (fst (git_rev_parse L w))))"
proof -
  from assms obtain out wg e1 where
    git: "git_rev_parse L w = (out, wg)" and
    rec: "reconcile L cfg infra (generate_bundle_id (commit_id_of out)) wg = (r, e1, w')" and
    evs: "evs = DeployCalled infra # GitRevParse out # e1 @ failure_report r"
    by (elim deploy_run) blast
  have "git_outputs e1 = []"
    using reconcile_events[OF rec] by (intro git_outputs_none) blast
  moreover have "git_outputs (failure_report r) = []"
    using failure_report_prints[of _ r] by (intro git_outputs_none) blast
  ultimately show ?thesis using git evs reconcile_bundle_ids[OF rec] by simp
qed

text \<open>
  C3. Identity of the artifact across stages (amended). \<^verbatim>\<open>main\<close> passes only the
  infrastructure to \<^verbatim>\<open>deploy\<close>, and each call of \<^verbatim>\<open>deploy\<close> derives the identity anew: in a full
  promotion run \<^verbatim>\<open>git rev-parse\<close> is read twice, at the start of each stage, and every bundle
  identifier in the calls of a stage is the one generated from what that stage read. When
  both readings give the same commit identifier, every call of the run carries the same
  bundle identifier.
\<close>

theorem stage_bundle_identity:
  assumes "main L cfg w = (r, evs, w')"
    and "deploy L cfg DATAIKU_INFRA_ID_STAGING w = (Inr (), e1, w1)"
    and "run_script L (PYTHON_SCRIPT cfg) (DATAIKU_INSTANCE_STAGING_URL cfg)
           (DATAIKU_API_TOKEN_STAGING cfg) (DATAIKU_PROJECT_KEY cfg) w1 = (out, w2)"
    and "tests_passed_of out" and "\<not> RUN_TESTS_ONLY cfg"
    and "deploy L cfg DATAIKU_INFRA_ID_PROD w2 = (r3, e3, w3)"
  shows "git_outputs evs = [fst (git_rev_parse L w), fst (git_rev_parse L w2)]
       \<and> bundle_ids evs = bundle_ids e1 @ bundle_ids e3
       \<and> (\<forall>b \<in> set (bundle_ids e1).
             b = generate_bundle_id (commit_id_of (fst (git_rev_parse L w))))
       \<and> (\<forall>b \<in> set (bundle_ids e3).
             b = generate_bundle_id (commit_id_of (fst (git_rev_parse L w2))))
       \<and> (commit_id_of (fst (git_rev_parse L w)) = commit_id_of (fst (git_rev_parse L w2)) \<longrightarrow>
             (\<forall>b \<in> set (bundle_ids evs).
                b = generate_bundle_id (commit_id_of (fst (git_rev_parse L w)))))"
proof -
  note i1 = deploy_identity[OF assms(2)]
  note i3 = deploy_identity[OF assms(6)]
  have go: "git_outputs (crash_report e) = []" for e :: exn
    by (auto simp: crash_report_def split: option.splits)
  have shape: "git_outputs evs = git_outputs e1 @ git_outputs e3
               \<and> bundle_ids evs = bundle_ids e1 @ bundle_ids e3"
    using assms(1)
  proof (cases rule: main_cases)
    case (stage_failed e e1')
    with assms(2) show ?thesis by simp
  next
    case (staging_tests_failed e1' w1' out')
    with assms(2,3,4) show ?thesis by simp
  next
    case (tests_only e1' w1' out')
    with assms(5) show ?thesis by simp
  next
    case (promote_failed e1' w1' out' w2' e e3')
    with assms(2,3,6) go show ?thesis by simp
  next
    case (prod_tests_failed e1' w1' out' w2' e3' w3' out'')
    with assms(2,3,6) go show ?thesis by simp
  next
    case (success e1' w1' out' w2' e3' w3' out'')
    with assms(2,3,6) show ?thesis by simp
  qed
  with i1 i3 show ?thesis by auto
qed

section \<open>The promotion on runs of the reference deployer\<close>

lemmas main_defs = main_def main_body_def run_tests_eq sys_exit_eq tests_passed_of_def
  tests_report_of_def DATAIKU_INFRA_ID_STAGING_def DATAIKU_INFRA_ID_PROD_def name_error_def

lemma main_tests_only_run:
  "\<exists>w'. main sim_library cfg_tests_only sim_fresh =
     (Inl name_error,
      [Print msg_starting,
       Print (msg_phase1 ''staging''),
       DeployCalled ''staging'',
       GitRevParse (Inr (''abc1234'' @ [CHR 0x0A])),
       Remote dev_client GetProjectDeployer (Inr Done),
       Remote dev_client (DeployerGetProject (Some ''myproj'')) (Inr Done),
       Remote dev_client (ListBundles (Some ''myproj'')) (Inl ''Project not found in deployer''),
       Print (msg_bundle_not_found ''bundle_abc1234''),
       Remote dev_client (GetProject (Some ''myproj'')) (Inr Done),
       Remote dev_client (ExportBundle (Some ''myproj'') ''bundle_abc1234'') (Inr Done),
       Remote dev_client (PublishBundle (Some ''myproj'') ''bundle_abc1234'') (Inr Done),
       Print (msg_published ''bundle_abc1234''),
       Print (msg_preparing ''deploy_myproj_staging'' ''staging''),
       Remote dev_client (GetDeployment ''deploy_myproj_staging'') (Inl ''Deployment not found''),
       Print msg_creating,
       Remote dev_client (CreateDeployment ''deploy_myproj_staging'' (Some ''myproj'') ''staging'' ''bundle_abc1234'') (Inr (Handle ''deploy_myproj_staging'')),
       Print (msg_activating ''staging''),
       Remote dev_client (StartUpdate ''deploy_myproj_staging'') (Inr (Handle ''deploy_myproj_staging'')),
       Remote dev_client (WaitForResult ''deploy_myproj_staging'') (Inr (Result Success)),
       Print (msg_success ''bundle_abc1234'' ''staging''),
       Print msg_phase2,
       Print (msg_running_tests (Some ''https://staging'')),
       RunScript ''tests.py'' (Some ''https://staging'') (Some ''tok-staging'') (Some ''myproj'') (Inr \<lparr>returncode = 0, stdout = ''ok'', stderr = []\<rparr>),
       Print msg_tests_passed,
       Print msg_staging_passed,
       Print msg_tests_only,
       Print (msg_error_occurred (msg_name_not_defined ''sys'')),
       Traceback name_error],
      w')"
  by (simp add: main_defs deploy_defs prog_defs sim_defs cfg_example_def dev_client_def sim_fresh_def cfg_tests_only_def)

lemma main_staging_fails_run:
  "\<exists>w'. main sim_library cfg_example sim_failing =
     (Inl name_error,
      [Print msg_starting,
       Print (msg_phase1 ''staging''),
       DeployCalled ''staging'',
       GitRevParse (Inr (''abc1234'' @ [CHR 0x0A])),
       Remote dev_client GetProjectDeployer (Inr Done),
       Remote dev_client (DeployerGetProject (Some ''myproj'')) (Inr Done),
       Remote dev_client (ListBundles (Some ''myproj'')) (Inl ''Project not found in deployer''),
       Print (msg_bundle_not_found ''bundle_abc1234''),
       Remote dev_client (GetProject (Some ''myproj'')) (Inr Done),
       Remote dev_client (ExportBundle (Some ''myproj'') ''bundle_abc1234'') (Inr Done),
       Remote dev_client (PublishBundle (Some ''myproj'') ''bundle_abc1234'') (Inr Done),
       Print (msg_published ''bundle_abc1234''),
       Print (msg_preparing ''deploy_myproj_staging'' ''staging''),
       Remote dev_client (GetDeployment ''deploy_myproj_staging'') (Inl ''Deployment not found''),
       Print msg_creating,
       Remote dev_client (CreateDeployment ''deploy_myproj_staging'' (Some ''myproj'') ''staging'' ''bundle_abc1234'') (Inr (Handle ''deploy_myproj_staging'')),
       Print (msg_activating ''staging''),
       Remote dev_client (StartUpdate ''deploy_myproj_staging'') (Inr (Handle ''deploy_myproj_staging'')),
       Remote dev_client (WaitForResult ''deploy_myproj_staging'') (Inr (Result Success)),
       Print (msg_success ''bundle_abc1234'' ''staging''),
       Print msg_phase2,
       Print (msg_running_tests (Some ''https://staging'')),
       RunScript ''tests.py'' (Some ''https://staging'') (Some ''tok-staging'') (Some ''myproj'') (Inr \<lparr>returncode = 1, stdout = [], stderr = ''assertion failed''\<rparr>),
       Print (msg_tests_failed ''assertion failed'' []),
       Print msg_staging_failed,
       Print (msg_error_occurred (msg_name_not_defined ''sys'')),
       Traceback name_error],
      w')"
  by (simp add: main_defs deploy_defs prog_defs sim_defs cfg_example_def dev_client_def sim_failing_def sim_fresh_def)

lemma main_full_run:
  "\<exists>w'. main sim_library cfg_example sim_fresh =
     (Inr (),
      [Print msg_starting,
       Print (msg_phase1 ''staging''),
       DeployCalled ''staging'',
       GitRevParse (Inr (''abc1234'' @ [CHR 0x0A])),
       Remote dev_client GetProjectDeployer (Inr Done),
       Remote dev_client (DeployerGetProject (Some ''myproj'')) (Inr Done),
       Remote dev_client (ListBundles (Some ''myproj'')) (Inl ''Project not found in deployer''),
       Print (msg_bundle_not_found ''bundle_abc1234''),
       Remote dev_client (GetProject (Some ''myproj'')) (Inr Done),
       Remote dev_client (ExportBundle (Some ''myproj'') ''bundle_abc1234'') (Inr Done),
       Remote dev_client (PublishBundle (Some ''myproj'') ''bundle_abc1234'') (Inr Done),
       Print (msg_published ''bundle_abc1234''),
       Print (msg_preparing ''deploy_myproj_staging'' ''staging''),
       Remote dev_client (GetDeployment ''deploy_myproj_staging'') (Inl ''Deployment not found''),
       Print msg_creating,
       Remote dev_client (CreateDeployment ''deploy_myproj_staging'' (Some ''myproj'') ''staging'' ''bundle_abc1234'') (Inr (Handle ''deploy_myproj_staging'')),
       Print (msg_activating ''staging''),
       Remote dev_client (StartUpdate ''deploy_myproj_staging'') (Inr (Handle ''deploy_myproj_staging'')),
       Remote dev_client (WaitForResult ''deploy_myproj_staging'') (Inr (Result Success)),
       Print (msg_success ''bundle_abc1234'' ''staging''),
       Print msg_phase2,
       Print (msg_running_tests (Some ''https://staging'')),
       RunScript ''tests.py'' (Some ''https://staging'') (Some ''tok-staging'') (Some ''myproj'') (Inr \<lparr>returncode = 0, stdout = ''ok'', stderr = []\<rparr>),
       Print msg_tests_passed,
       Print msg_staging_passed,
       Print (msg_phase3 ''prod''),
       DeployCalled ''prod'',
       GitRevParse (Inr (''abc1234'' @ [CHR 0x0A])),
       Remote dev_client GetProjectDeployer (Inr Done),
       Remote dev_client (DeployerGetProject (Some ''myproj'')) (Inr Done),
       Remote dev_client (ListBundles (Some ''myproj'')) (Inr (Bundles [bundle_dict ''bundle_abc1234''])),
       Print (msg_bundle_exists ''bundle_abc1234''),
       Print (msg_preparing ''deploy_myproj_prod'' ''prod''),
       Remote dev_client (GetDeployment ''deploy_myproj_prod'') (Inl ''Deployment not found''),
       Print msg_creating,
       Remote dev_client (CreateDeployment ''deploy_myproj_prod'' (Some ''myproj'') ''prod'' ''bundle_abc1234'') (Inr (Handle ''deploy_myproj_prod'')),
       Print (msg_activating ''prod''),
       Remote dev_client (StartUpdate ''deploy_myproj_prod'') (Inr (Handle ''deploy_myproj_prod'')),
       Remote dev_client (WaitForResult ''deploy_myproj_prod'') (Inr (Result Success)),
       Print (msg_success ''bundle_abc1234'' ''prod''),
       Print msg_phase4,
       Print (msg_running_tests (Some ''https://prod'')),
       RunScript ''tests.py'' (Some ''https://prod'') (Some ''tok-prod'') (Some ''myproj'') (Inr \<lparr>returncode = 0, stdout = ''ok'', stderr = []\<rparr>),
       Print msg_tests_passed,
       Print msg_all_successful],
      w')"
  by (simp add: main_defs deploy_defs prog_defs sim_defs cfg_example_def dev_client_def sim_fresh_def)

lemma main_moving_run:
  "\<exists>w'. main sim_library cfg_example sim_moving =
     (Inr (),
      [Print msg_starting,
       Print (msg_phase1 ''staging''),
       DeployCalled ''staging'',
       GitRevParse (Inr (''abc1234'' @ [CHR 0x0A])),
       Remote dev_client GetProjectDeployer (Inr Done),
       Remote dev_client (DeployerGetProject (Some ''myproj'')) (Inr Done),
       Remote dev_client (ListBundles (Some ''myproj'')) (Inl ''Project not found in deployer''),
       Print (msg_bundle_not_found ''bundle_abc1234''),
       Remote dev_client (GetProject (Some ''myproj'')) (Inr Done),
       Remote dev_client (ExportBundle (Some ''myproj'') ''bundle_abc1234'') (Inr Done),
       Remote dev_client (PublishBundle (Some ''myproj'') ''bundle_abc1234'') (Inr Done),
       Print (msg_published ''bundle_abc1234''),
       Print (msg_preparing ''deploy_myproj_staging'' ''staging''),
       Remote dev_client (GetDeployment ''deploy_myproj_staging'') (Inl ''Deployment not found''),
       Print msg_creating,
       Remote dev_client (CreateDeployment ''deploy_myproj_staging'' (Some ''myproj'') ''staging'' ''bundle_abc1234'') (Inr (Handle ''deploy_myproj_staging'')),
       Print (msg_activating ''staging''),
       Remote dev_client (StartUpdate ''deploy_myproj_staging'') (Inr (Handle ''deploy_myproj_staging'')),
       Remote dev_client (WaitForResult ''deploy_myproj_staging'') (Inr (Result Success)),
       Print (msg_success ''bundle_abc1234'' ''staging''),
       Print msg_phase2,
       Print (msg_running_tests (Some ''https://staging'')),
       RunScript ''tests.py'' (Some ''https://staging'') (Some ''tok-staging'') (Some ''myproj'') (Inr \<lparr>returncode = 0, stdout = ''ok'', stderr = []\<rparr>),
       Print msg_tests_passed,
       Print msg_staging_passed,
       Print (msg_phase3 ''prod''),
       DeployCalled ''prod'',
       GitRevParse (Inr (''def5678'' @ [CHR 0x0A])),
       Remote dev_client GetProjectDeployer (Inr Done),
       Remote dev_client (DeployerGetProject (Some ''myproj'')) (Inr Done),
       Remote dev_client (ListBundles (Some ''myproj'')) (Inr (Bundles [bundle_dict ''bundle_abc1234''])),
       Print (msg_bundle_not_found ''bundle_def5678''),
       Remote dev_client (GetProject (Some ''myproj'')) (Inr Done),
       Remote dev_client (ExportBundle (Some ''myproj'') ''bundle_def5678'') (Inr Done),
       Remote dev_client (PublishBundle (Some ''myproj'') ''bundle_def5678'') (Inr Done),
       Print (msg_published ''bundle_def5678''),
       Print (msg_preparing ''deploy_myproj_prod'' ''prod''),
       Remote dev_client (GetDeployment ''deploy_myproj_prod'') (Inl ''Deployment not found''),
       Print msg_creating,
       Remote dev_client (CreateDeployment ''deploy_myproj_prod'' (Some ''myproj'') ''prod'' ''bundle_def5678'') (Inr (Handle ''deploy_myproj_prod'')),
       Print (msg_activating ''prod''),
       Remote dev_client (StartUpdate ''deploy_myproj_prod'') (Inr (Handle ''deploy_myproj_prod'')),
       Remote dev_client (WaitForResult ''deploy_myproj_prod'') (Inr (Result Success)),
       Print (msg_success ''bundle_def5678'' ''prod''),
       Print msg_phase4,
       Print (msg_running_tests (Some ''https://prod'')),
       RunScript ''tests.py'' (Some ''https://prod'') (Some ''tok-prod'') (Some ''myproj'') (Inr \<lparr>returncode = 0, stdout = ''ok'', stderr = []\<rparr>),
       Print msg_tests_passed,
       Print msg_all_successful],
      w')"
  by (simp add: main_defs deploy_defs prog_defs sim_defs cfg_example_def dev_client_def sim_moving_def sim_fresh_def)


lemma staging_example [simp]:
  "DATAIKU_INSTANCE_STAGING_URL cfg_example = Some ''https://staging''"
  "DATAIKU_API_TOKEN_STAGING cfg_example = Some ''tok-staging''"
  "PYTHON_SCRIPT cfg_example = ''tests.py''"
  "\<not> RUN_TESTS_ONLY cfg_example"
  by (simp_all add: cfg_example_def)

lemma tests_only_example [simp]:
  "RUN_TESTS_ONLY cfg_tests_only"
  by (simp add: cfg_tests_only_def)

text \<open>On the way that ends at \<^verbatim>\<open>sys.exit(0)\<close> the process exits with status 1, whatever the library.\<close>

lemma verification_only_exit:
  assumes "main L cfg w = (r, evs, w')"
    and "deploy L cfg DATAIKU_INFRA_ID_STAGING w = (Inr (), e1, w1)"
    and "run_script L (PYTHON_SCRIPT cfg) (DATAIKU_INSTANCE_STAGING_URL cfg)
           (DATAIKU_API_TOKEN_STAGING cfg) (DATAIKU_PROJECT_KEY cfg) w1 = (out, w2)"
    and "tests_passed_of out" and "RUN_TESTS_ONLY cfg"
  shows "r = Inl name_error \<and> exit_status r = 1 \<and> Print msg_tests_only \<in> set evs"
  using assms(1)
proof (cases rule: main_cases)
  case (tests_only e1' w1' out')
  then show ?thesis by simp
qed (use assms in auto)

text \<open>
  The exit status of every run: 0 exactly when \<open>main\<close> returns, which it does exactly on the
  way that prints the final success message; 1 on every other way.
\<close>

lemma main_exit_status:
  assumes "main L cfg w = (r, evs, w')"
  shows "exit_status r = (if r = Inr () then 0 else 1)
       \<and> (r = Inr () \<longleftrightarrow> Print msg_all_successful \<in> set evs \<and> r \<noteq> Inl name_error)"
  using assms
proof (cases rule: main_cases)
  case (success e1 w1 out w2 e3 w3 out')
  then show ?thesis by simp
qed (simp_all add: name_error_def)

text \<open>
  C2. The exit status of a verification-only run. With \<^verbatim>\<open>RUN_TESTS_ONLY\<close> set, on the
  reference deployer with passing tests, \<^verbatim>\<open>main\<close> reaches \<^verbatim>\<open>sys.exit(0)\<close>; the module never
  imports \<^verbatim>\<open>sys\<close>, so this raises \<^verbatim>\<open>NameError\<close>, the handler's own \<^verbatim>\<open>sys.exit(1)\<close> raises it
  again, and the process exits with status 1.
\<close>

theorem verification_only_exits_1:
  "process_exit sim_library cfg_tests_only sim_fresh = 1
   \<and> fst (main sim_library cfg_tests_only sim_fresh) = Inl (NameError (msg_name_not_defined ''sys''))
   \<and> Print msg_tests_only \<in> set (fst (snd (main sim_library cfg_tests_only sim_fresh)))
   \<and> ''sys'' \<notin> set module_imports"
proof -
  from main_tests_only_run obtain w' where
    run: "main sim_library cfg_tests_only sim_fresh =
     (Inl name_error,
      [Print msg_starting,
       Print (msg_phase1 ''staging''),
       DeployCalled ''staging'',
       GitRevParse (Inr (''abc1234'' @ [CHR 0x0A])),
       Remote dev_client GetProjectDeployer (Inr Done),
       Remote dev_client (DeployerGetProject (Some ''myproj'')) (Inr Done),
       Remote dev_client (ListBundles (Some ''myproj'')) (Inl ''Project not found in deployer''),
       Print (msg_bundle_not_found ''bundle_abc1234''),
       Remote dev_client (GetProject (Some ''myproj'')) (Inr Done),
       Remote dev_client (ExportBundle (Some ''myproj'') ''bundle_abc1234'') (Inr Done),
       Remote dev_client (PublishBundle (Some ''myproj'') ''bundle_abc1234'') (Inr Done),
       Print (msg_published ''bundle_abc1234''),
       Print (msg_preparing ''deploy_myproj_staging'' ''staging''),
       Remote dev_client (GetDeployment ''deploy_myproj_staging'') (Inl ''Deployment not found''),
       Print msg_creating,
       Remote dev_client (CreateDeployment ''deploy_myproj_staging'' (Some ''myproj'') ''staging'' ''bundle_abc1234'') (Inr (Handle ''deploy_myproj_staging'')),
       Print (msg_activating ''staging''),
       Remote dev_client (StartUpdate ''deploy_myproj_staging'') (Inr (Handle ''deploy_myproj_staging'')),
       Remote dev_client (WaitForResult ''deploy_myproj_staging'') (Inr (Result Success)),
       Print (msg_success ''bundle_abc1234'' ''staging''),
       Print msg_phase2,
       Print (msg_running_tests (Some ''https://staging'')),
       RunScript ''tests.py'' (Some ''https://staging'') (Some ''tok-staging'') (Some ''myproj'') (Inr \<lparr>returncode = 0, stdout = ''ok'', stderr = []\<rparr>),
       Print msg_tests_passed,
       Print msg_staging_passed,
       Print msg_tests_only,
       Print (msg_error_occurred (msg_name_not_defined ''sys'')),
       Traceback name_error],
      w')" by blast
  show ?thesis by (simp add: run process_exit_def name_error_def module_imports_def)
qed

theorem production_bundle_differs_counterexample:
  "fst (main sim_library cfg_example sim_moving) = Inr ()
   \<and> CreateDeployment ''deploy_myproj_staging'' (Some ''myproj'') ''staging'' ''bundle_abc1234''
       \<in> set (remote_calls (fst (snd (main sim_library cfg_example sim_moving))))
   \<and> CreateDeployment ''deploy_myproj_prod'' (Some ''myproj'') ''prod'' ''bundle_def5678''
       \<in> set (remote_calls (fst (snd (main sim_library cfg_example sim_moving))))
   \<and> bundle_ids (fst (snd (main sim_library cfg_example sim_moving)))
       = [''bundle_abc1234'', ''bundle_abc1234'', ''bundle_abc1234'',
          ''bundle_def5678'', ''bundle_def5678'', ''bundle_def5678'']"
proof -
  from main_moving_run obtain w' where
    run: "main sim_library cfg_example sim_moving =
     (Inr (),
      [Print msg_starting,
       Print (msg_phase1 ''staging''),
       DeployCalled ''staging'',
       GitRevParse (Inr (''abc1234'' @ [CHR 0x0A])),
       Remote dev_client GetProjectDeployer (Inr Done),
       Remote dev_client (DeployerGetProject (Some ''myproj'')) (Inr Done),
       Remote dev_client (ListBundles (Some ''myproj'')) (Inl ''Project not found in deployer''),
       Print (msg_bundle_not_found ''bundle_abc1234''),
       Remote dev_client (GetProject (Some ''myproj'')) (Inr Done),
       Remote dev_client (ExportBundle (Some ''myproj'') ''bundle_abc1234'') (Inr Done),
       Remote dev_client (PublishBundle (Some ''myproj'') ''bundle_abc1234'') (Inr Done),
       Print (msg_published ''bundle_abc1234''),
       Print (msg_preparing ''deploy_myproj_staging'' ''staging''),
       Remote dev_client (GetDeployment ''deploy_myproj_staging'') (Inl ''Deployment not found''),
       Print msg_creating,
       Remote dev_client (CreateDeployment ''deploy_myproj_staging'' (Some ''myproj'') ''staging'' ''bundle_abc1234'') (Inr (Handle ''deploy_myproj_staging'')),
       Print (msg_activating ''staging''),
       Remote dev_client (StartUpdate ''deploy_myproj_staging'') (Inr (Handle ''deploy_myproj_staging'')),
       Remote dev_client (WaitForResult ''deploy_myproj_staging'') (Inr (Result Success)),
       Print (msg_success ''bundle_abc1234'' ''staging''),
       Print msg_phase2,
       Print (msg_running_tests (Some ''https://staging'')),
       RunScript ''tests.py'' (Some ''https://staging'') (Some ''tok-staging'') (Some ''myproj'') (Inr \<lparr>returncode = 0, stdout = ''ok'', stderr = []\<rparr>),
       Print msg_tests_passed,
       Print msg_staging_passed,
       Print (msg_phase3 ''prod''),
       DeployCalled ''prod'',
       GitRevParse (Inr (''def5678'' @ [CHR 0x0A])),
       Remote dev_client GetProjectDeployer (Inr Done),
       Remote dev_client (DeployerGetProject (Some ''myproj'')) (Inr Done),
       Remote dev_client (ListBundles (Some ''myproj'')) (Inr (Bundles [bundle_dict ''bundle_abc1234''])),
       Print (msg_bundle_not_found ''bundle_def5678''),
       Remote dev_client (GetProject (Some ''myproj'')) (Inr Done),
       Remote dev_client (ExportBundle (Some ''myproj'') ''bundle_def5678'') (Inr Done),
       Remote dev_client (PublishBundle (Some ''myproj'') ''bundle_def5678'') (Inr Done),
       Print (msg_published ''bundle_def5678''),
       Print (msg_preparing ''deploy_myproj_prod'' ''prod''),
       Remote dev_client (GetDeployment ''deploy_myproj_prod'') (Inl ''Deployment not found''),
       Print msg_creating,
       Remote dev_client (CreateDeployment ''deploy_myproj_prod'' (Some ''myproj'') ''prod'' ''bundle_def5678'') (Inr (Handle ''deploy_myproj_prod'')),
       Print (msg_activating ''prod''),
       Remote dev_client (StartUpdate ''deploy_myproj_prod'') (Inr (Handle ''deploy_myproj_prod'')),
       Remote dev_client (WaitForResult ''deploy_myproj_prod'') (Inr (Result Success)),
       Print (msg_success ''bundle_def5678'' ''prod''),
       Print msg_phase4,
       Print (msg_running_tests (Some ''https://prod'')),
       RunScript ''tests.py'' (Some ''https://prod'') (Some ''tok-prod'') (Some ''myproj'') (Inr \<lparr>returncode = 0, stdout = ''ok'', stderr = []\<rparr>),
       Print msg_tests_passed,
       Print msg_all_successful],
      w')" by blast
  show ?thesis by (simp add: run)
qed

lemmas eval_defs = main_defs deploy_defs prog_defs sim_defs cfg_example_def dev_client_def
  sim_fresh_def sim_failing_def cfg_tests_only_def

theorem production_needs_verified_staging_witness:
  "fst (deploy sim_library cfg_example DATAIKU_INFRA_ID_STAGING sim_failing) = Inr ()
   \<and> \<not> tests_passed_of
         (fst (run_script sim_library (PYTHON_SCRIPT cfg_example)
                 (DATAIKU_INSTANCE_STAGING_URL cfg_example) (DATAIKU_API_TOKEN_STAGING cfg_example)
                 (DATAIKU_PROJECT_KEY cfg_example)
                 (snd (snd (deploy sim_library cfg_example DATAIKU_INFRA_ID_STAGING sim_failing)))))
   \<and> DeployCalled DATAIKU_INFRA_ID_PROD \<notin> set (fst (snd (main sim_library cfg_example sim_failing)))
   \<and> exit_status (fst (main sim_library cfg_example sim_failing)) \<noteq> 0
   \<and> RUN_TESTS_ONLY cfg_tests_only
   \<and> DeployCalled DATAIKU_INFRA_ID_PROD \<notin> set (fst (snd (main sim_library cfg_tests_only sim_fresh)))
   \<and> DeployCalled DATAIKU_INFRA_ID_PROD \<in> set (fst (snd (main sim_library cfg_example sim_fresh)))"
proof -
  let ?D = "deploy sim_library cfg_example DATAIKU_INFRA_ID_STAGING sim_failing"
  let ?S = "run_script sim_library (PYTHON_SCRIPT cfg_example)
                 (DATAIKU_INSTANCE_STAGING_URL cfg_example) (DATAIKU_API_TOKEN_STAGING cfg_example)
                 (DATAIKU_PROJECT_KEY cfg_example) (snd (snd ?D))"
  let ?M = "main sim_library cfg_example sim_failing"
  let ?D' = "deploy sim_library cfg_tests_only DATAIKU_INFRA_ID_STAGING sim_fresh"
  let ?S' = "run_script sim_library (PYTHON_SCRIPT cfg_tests_only)
                 (DATAIKU_INSTANCE_STAGING_URL cfg_tests_only) (DATAIKU_API_TOKEN_STAGING cfg_tests_only)
                 (DATAIKU_PROJECT_KEY cfg_tests_only) (snd (snd ?D'))"
  let ?M' = "main sim_library cfg_tests_only sim_fresh"
  have d: "?D = (fst ?D, fst (snd ?D), snd (snd ?D))" by simp
  have s: "?S = (fst ?S, snd ?S)" by simp
  have m: "?M = (fst ?M, fst (snd ?M), snd (snd ?M))" by simp
  have d': "?D' = (fst ?D', fst (snd ?D'), snd (snd ?D'))" by simp
  have s': "?S' = (fst ?S', snd ?S')" by simp
  have m': "?M' = (fst ?M', fst (snd ?M'), snd (snd ?M'))" by simp
  have r1: "fst ?D = Inr ()" by (simp add: eval_defs)
  have failed: "\<not> tests_passed_of (fst ?S)" by (simp add: eval_defs)
  have r1': "fst ?D' = Inr ()" by (simp add: eval_defs)
  have full: "DeployCalled DATAIKU_INFRA_ID_PROD \<in> set (fst (snd (main sim_library cfg_example sim_fresh)))"
    by (simp add: eval_defs)
  from production_needs_verified_staging[OF m d s] production_needs_verified_staging[OF m' d' s']
    r1 failed r1' full
  show ?thesis by simp
qed


theorem stage_bundle_identity_witness:
  "fst (deploy sim_library cfg_example DATAIKU_INFRA_ID_STAGING sim_fresh) = Inr ()
   \<and> tests_passed_of
         (fst (run_script sim_library (PYTHON_SCRIPT cfg_example)
                 (DATAIKU_INSTANCE_STAGING_URL cfg_example) (DATAIKU_API_TOKEN_STAGING cfg_example)
                 (DATAIKU_PROJECT_KEY cfg_example)
                 (snd (snd (deploy sim_library cfg_example DATAIKU_INFRA_ID_STAGING sim_fresh)))))
   \<and> \<not> RUN_TESTS_ONLY cfg_example
   \<and> git_outputs (fst (snd (main sim_library cfg_example sim_fresh)))
       = [Inr (''abc1234'' @ [CHR 0x0A]), Inr (''abc1234'' @ [CHR 0x0A])]
   \<and> bundle_ids (fst (snd (main sim_library cfg_example sim_fresh)))
       = [''bundle_abc1234'', ''bundle_abc1234'', ''bundle_abc1234'', ''bundle_abc1234'']"
proof -
  let ?D = "deploy sim_library cfg_example DATAIKU_INFRA_ID_STAGING sim_fresh"
  let ?S = "run_script sim_library (PYTHON_SCRIPT cfg_example)
                 (DATAIKU_INSTANCE_STAGING_URL cfg_example) (DATAIKU_API_TOKEN_STAGING cfg_example)
                 (DATAIKU_PROJECT_KEY cfg_example) (snd (snd ?D))"
  let ?P = "deploy sim_library cfg_example DATAIKU_INFRA_ID_PROD (snd ?S)"
  let ?M = "main sim_library cfg_example sim_fresh"
  have r1: "fst ?D = Inr ()" by (simp add: eval_defs)
  have d: "?D = (Inr (), fst (snd ?D), snd (snd ?D))"
    using r1 by (metis prod.collapse)
  have s: "?S = (fst ?S, snd ?S)" by simp
  have p: "?P = (fst ?P, fst (snd ?P), snd (snd ?P))" by simp
  have m: "?M = (fst ?M, fst (snd ?M), snd (snd ?M))" by simp
  have passed: "tests_passed_of (fst ?S)" by (simp add: eval_defs)
  have full: "\<not> RUN_TESTS_ONLY cfg_example" by simp
  have g1: "fst (git_rev_parse sim_library sim_fresh) = Inr (''abc1234'' @ [CHR 0x0A])"
    by (simp add: eval_defs)
  have g2: "fst (git_rev_parse sim_library (snd ?S)) = Inr (''abc1234'' @ [CHR 0x0A])"
    by (simp add: eval_defs)
  have ids: "bundle_ids (fst (snd ?M))
       = [''bundle_abc1234'', ''bundle_abc1234'', ''bundle_abc1234'', ''bundle_abc1234'']"
    by (simp add: eval_defs)
  from stage_bundle_identity[OF m d s passed full p] r1 passed full g1 g2 ids
  show ?thesis by simp
qed

section \<open>Idempotence on the reference deployer\<close>

lemma sim_check:
  assumes "check_bundle_exists sim_library c key bid w = (Inr b, evs, w')"
  shows "w' = w \<and> (b \<longleftrightarrow> (\<exists>bs. published w key = Some bs \<and> bid \<in> set bs))"
  using assms unfolding check_bundle_exists_def
  by (auto elim!: progE simp: sim_library_def sim_list_bundles_def split: option.splits)

lemma sim_ensure:
  assumes "ensure_bundle sim_library cfg bid b w = (Inr (), evs, w')"
    and "client_dev cfg = Some c"
    and "b \<longleftrightarrow> (\<exists>bs. published w (DATAIKU_PROJECT_KEY cfg) = Some bs \<and> bid \<in> set bs)"
  shows "(\<exists>bs. published w' (DATAIKU_PROJECT_KEY cfg) = Some bs \<and> bid \<in> set bs)
       \<and> deployments w' = deployments w \<and> live w' = live w
       \<and> broken_infras w' = broken_infras w \<and> git_output w' = git_output w"
  using assms unfolding ensure_bundle_def export_step_def with_client_def
  by (auto elim!: progE simp: sim_library_def sim_export_bundle_def sim_publish_bundle_def
        split: option.splits if_splits)

lemma sim_bind:
  assumes "bind_deployment sim_library c cfg infra bid w = (Inr h, evs, w')"
  shows "h = deployment_id_of cfg infra
       \<and> (\<exists>dep. deployments w' (deployment_id_of cfg infra) = Some dep
              \<and> dep_bundle dep = bid \<and> \<not> dep_locked dep)
       \<and> published w' = published w \<and> live w' = live w
       \<and> broken_infras w' = broken_infras w \<and> git_output w' = git_output w"
  using assms unfolding bind_deployment_def
  by (auto elim!: progE simp: sim_library_def sim_get_deployment_def sim_get_settings_def
        sim_save_def sim_create_deployment_def split: option.splits if_splits)

lemma sim_activate:
  assumes "activate sim_library c infra bid d w = (Inr (), evs, w')"
  shows "\<exists>dep. deployments w d = Some dep \<and> dep_infra dep \<notin> set (broken_infras w)
           \<and> w' = w\<lparr>live := (live w)(d := Some (dep_bundle dep))\<rparr>"
  using assms unfolding activate_def
  by (auto elim!: progE simp: sim_library_def sim_start_update_def sim_wait_for_result_def
        split: option.splits if_splits)


text \<open>The steps of a reconciliation that returned, with the worlds between them.\<close>

lemma reconcile_returned:
  assumes "reconcile L cfg infra bid w = (Inr (), evs, w')" and "client_dev cfg = Some c"
  obtains w0 b e1 w1 e2 w2 h e3 w3 e4 where
    "get_projectdeployer L c w = (Inr (), w0)"
    "check_bundle_exists L c (DATAIKU_PROJECT_KEY cfg) bid w0 = (Inr b, e1, w1)"
    "ensure_bundle L cfg bid b w1 = (Inr (), e2, w2)"
    "bind_deployment L c cfg infra bid w2 = (Inr h, e3, w3)"
    "activate L c infra bid h w3 = (Inr (), e4, w')"
    "evs = Remote c GetProjectDeployer (Inr Done) # e1 @ e2
             @ Print (msg_preparing (deployment_id_of cfg infra) infra) # e3 @ e4"
proof -
  have nr: "check_bundle_exists L c (DATAIKU_PROJECT_KEY cfg) bid w0 \<noteq> (Inl e, e1, w1)" for w0 e e1 w1
    using check_never_raises[of L c "DATAIKU_PROJECT_KEY cfg" bid w0] by auto
  from assms show thesis
    unfolding reconcile_def with_client_def
    apply simp
    apply (erule then_doE)
     apply simp
    apply (erule remote_callE; simp)
    apply (erule then_doE)
     apply simp
    apply (erule then_doE)
     apply simp
    apply (erule then_doE)
     apply simp
    apply (erule then_doE)
     apply simp
    apply (simp add: that)
    done
qed

text \<open>After a deployment that returned, the instance is settled on the bundle.\<close>

lemma sim_reconcile_settles:
  assumes rec: "reconcile sim_library cfg infra bid w = (Inr (), evs, w')"
  shows "settled cfg infra bid w' \<and> git_output w' = git_output w"
proof (cases "client_dev cfg")
  case None
  with rec show ?thesis by (simp add: reconcile_no_client)
next
  case (Some c)
  from rec Some obtain w0 b e1 w1 e2 w2 h e3 w3 e4 where
    gpd: "get_projectdeployer sim_library c w = (Inr (), w0)" and
    chk: "check_bundle_exists sim_library c (DATAIKU_PROJECT_KEY cfg) bid w0 = (Inr b, e1, w1)" and
    ens: "ensure_bundle sim_library cfg bid b w1 = (Inr (), e2, w2)" and
    bnd: "bind_deployment sim_library c cfg infra bid w2 = (Inr h, e3, w3)" and
    act: "activate sim_library c infra bid h w3 = (Inr (), e4, w')"
    by (elim reconcile_returned) blast
  from gpd have w0: "w0 = w" by (simp add: sim_library_def)
  from sim_check[OF chk] have w1: "w1 = w0"
    and b: "b \<longleftrightarrow> (\<exists>bs. published w0 (DATAIKU_PROJECT_KEY cfg) = Some bs \<and> bid \<in> set bs)"
    by auto
  note e = sim_ensure[OF ens Some b[folded w1]]
  note bd = sim_bind[OF bnd]
  from bd have h: "h = deployment_id_of cfg infra" by simp
  from sim_activate[OF act] h obtain dep where
    dep: "deployments w3 (deployment_id_of cfg infra) = Some dep" and
    ok: "dep_infra dep \<notin> set (broken_infras w3)" and
    w': "w' = w3\<lparr>live := (live w3)(deployment_id_of cfg infra := Some (dep_bundle dep))\<rparr>"
    by auto
  from e bd dep ok w' w0 w1 show ?thesis
    unfolding settled_def by auto
qed

text \<open>On a settled instance a deployment takes the update path and changes nothing.\<close>

lemma sim_settled_run:
  assumes "settled cfg infra bid w" and "client_dev cfg = Some c"
    and "bid = generate_bundle_id (commit_id_of (git_output w))"
  shows "deploy sim_library cfg infra w =
     (Inr (),
      [DeployCalled infra, GitRevParse (git_output w),
       Remote c GetProjectDeployer (Inr Done),
       Remote c (DeployerGetProject (DATAIKU_PROJECT_KEY cfg)) (Inr Done),
       Remote c (ListBundles (DATAIKU_PROJECT_KEY cfg))
         (Inr (Bundles (map bundle_dict (the (published w (DATAIKU_PROJECT_KEY cfg)))))),
       Print (msg_bundle_exists bid),
       Print (msg_preparing (deployment_id_of cfg infra) infra),
       Remote c (GetDeployment (deployment_id_of cfg infra)) (Inr (Handle (deployment_id_of cfg infra))),
       Remote c (GetSettings (deployment_id_of cfg infra)) (Inr (Settings \<lparr>settings_bundleId = bid\<rparr>)),
       Remote c (Save (deployment_id_of cfg infra) \<lparr>settings_bundleId = bid\<rparr>) (Inr Done),
       Print (msg_updated bid),
       Print (msg_activating infra),
       Remote c (StartUpdate (deployment_id_of cfg infra)) (Inr (Handle (deployment_id_of cfg infra))),
       Remote c (WaitForResult (deployment_id_of cfg infra)) (Inr (Result Success)),
       Print (msg_success bid infra)],
      w)"
proof -
  from assms(1) obtain bs dep where
    pub: "published w (DATAIKU_PROJECT_KEY cfg) = Some bs" "bid \<in> set bs" and
    dep: "deployments w (deployment_id_of cfg infra) = Some dep" "dep_bundle dep = bid"
      "\<not> dep_locked dep" "dep_infra dep \<notin> set (broken_infras w)" and
    live: "live w (deployment_id_of cfg infra) = Some bid"
    unfolding settled_def by blast
  have same_dep: "dep\<lparr>dep_bundle := generate_bundle_id (commit_id_of (git_output w))\<rparr> = dep"
    using dep(2) assms(3) by simp
  have same_deps: "(deployments w)(deployment_id_of cfg infra := Some dep) = deployments w"
    using dep(1) by (simp add: fun_upd_idem)
  have same_live: "(live w)(deployment_id_of cfg infra
                      := Some (generate_bundle_id (commit_id_of (git_output w)))) = live w"
    using live assms(3) by (simp add: fun_upd_idem)
  show ?thesis
    unfolding deploy_def deploy_body_def reconcile_def check_bundle_exists_def ensure_bundle_def
      bind_deployment_def activate_def get_git_sha_eq
    using assms(2) pub dep live
    by (simp add: prog_defs sim_defs assms(3) same_dep same_deps same_live)
qed


text \<open>
  C1. Reconciliation is idempotent, on the reference deployer: for every configuration,
  infrastructure and state of the deployer (which holds the revision), a call of \<^verbatim>\<open>deploy\<close>
  right after one that returned returns too and leaves the state as it found it, with the
  deployment bound to the bundle of the revision and that bundle live. Its calls are those
  of the bundle-exists and deployment-exists branches: the listing, the lookup, the settings
  fetch and save, and the activation; no export, no publish, no creation.
\<close>

theorem reconcile_idempotent:
  assumes "deploy sim_library cfg infra_id w = (Inr (), evs1, w1)"
  shows "\<exists>evs2. deploy sim_library cfg infra_id w1 = (Inr (), evs2, w1)
           \<and> remote_calls evs2 =
               [GetProjectDeployer,
                DeployerGetProject (DATAIKU_PROJECT_KEY cfg),
                ListBundles (DATAIKU_PROJECT_KEY cfg),
                GetDeployment (deployment_id_of cfg infra_id),
                GetSettings (deployment_id_of cfg infra_id),
                Save (deployment_id_of cfg infra_id)
                  \<lparr>settings_bundleId = generate_bundle_id (commit_id_of (git_output w))\<rparr>,
                StartUpdate (deployment_id_of cfg infra_id),
                WaitForResult (deployment_id_of cfg infra_id)]
           \<and> Print (msg_bundle_exists (generate_bundle_id (commit_id_of (git_output w)))) \<in> set evs2
           \<and> Print (msg_updated (generate_bundle_id (commit_id_of (git_output w)))) \<in> set evs2
           \<and> (\<exists>dep. deployments w1 (deployment_id_of cfg infra_id) = Some dep
                  \<and> dep_bundle dep = generate_bundle_id (commit_id_of (git_output w)))
           \<and> live w1 (deployment_id_of cfg infra_id)
               = Some (generate_bundle_id (commit_id_of (git_output w)))"
proof -
  let ?bid = "generate_bundle_id (commit_id_of (git_output w))"
  from assms obtain out wg e1 where
    git: "git_rev_parse sim_library w = (out, wg)" and
    rec: "reconcile sim_library cfg infra_id (generate_bundle_id (commit_id_of out)) wg = (Inr (), e1, w1)"
    by (elim deploy_run) blast
  from git have out: "out = git_output w" and wg: "wg = w" by (auto simp: sim_library_def)
  from rec out wg have rec': "reconcile sim_library cfg infra_id ?bid w = (Inr (), e1, w1)" by simp
  from sim_reconcile_settles[OF rec'] have
    settled: "settled cfg infra_id ?bid w1" and same: "git_output w1 = git_output w" by auto
  from rec' obtain c where client: "client_dev cfg = Some c"
    by (cases "client_dev cfg") (auto simp: reconcile_no_client)
  from same have bid: "?bid = generate_bundle_id (commit_id_of (git_output w1))" by simp
  note run = sim_settled_run[OF settled client bid]
  from settled have bound:
    "\<exists>dep. deployments w1 (deployment_id_of cfg infra_id) = Some dep \<and> dep_bundle dep = ?bid"
    and live: "live w1 (deployment_id_of cfg infra_id) = Some ?bid"
    unfolding settled_def by auto
  from run bound live show ?thesis by simp
qed

theorem reconcile_idempotent_witness:
  "deploy sim_library cfg_example ''staging'' sim_fresh
     = (Inr (), fst (snd (deploy sim_library cfg_example ''staging'' sim_fresh)), sim_deployed)
   \<and> deploy sim_library cfg_example ''staging'' sim_deployed
     = (Inr (), fst (snd (deploy sim_library cfg_example ''staging'' sim_deployed)), sim_deployed)
   \<and> remote_calls (fst (snd (deploy sim_library cfg_example ''staging'' sim_deployed)))
     = [GetProjectDeployer, DeployerGetProject (Some ''myproj''), ListBundles (Some ''myproj''),
        GetDeployment ''deploy_myproj_staging'', GetSettings ''deploy_myproj_staging'',
        Save ''deploy_myproj_staging'' \<lparr>settings_bundleId = ''bundle_abc1234''\<rparr>,
        StartUpdate ''deploy_myproj_staging'', WaitForResult ''deploy_myproj_staging'']
   \<and> live sim_deployed ''deploy_myproj_staging'' = Some ''bundle_abc1234''"
proof -
  have git: "git_output sim_fresh = Inr (''abc1234'' @ [CHR 0x0A])" by (simp add: sim_fresh_def)
  from reconcile_idempotent[OF run_first] git bundle_id_example
  show ?thesis by (auto simp: run_first)
qed

end
